(* ===== verification/Prelude.thy ===== *)
theory Prelude
  imports Complex_Main "HOL-Library.Multiset"
begin

text \<open>
  Shared vocabulary of the development: the types that name identifiers and times,
  the theorem collections the component theories feed, and the generic facts on lists
  and options that their proofs share.
  Identifiers are the \<open>uuid\<close> strings of the database and the TypeScript client; a
  timestamp (a \<open>timestamptz\<close> in SQL, an ISO string from \<open>new Date().toISOString()\<close> in the
  client) is a natural number, ordered as the instants it denotes.
\<close>

type_synonym uuid = string
type_synonym timestamp = nat

named_theorems store_defs "definitions of the store operations, unfolded by the store proofs"
named_theorems client_defs "definitions of the client handlers, unfolded by the client proofs"

subsection \<open>Lists\<close>

lemma find_Some_mem [dest]: "find P xs = Some x \<Longrightarrow> x \<in> set xs \<and> P x"
  by (auto simp: find_Some_iff)

lemma length_filter_mono_pred:
  assumes "\<forall>x\<in>set xs. P x \<longrightarrow> Q x"
  shows "length (filter P xs) \<le> length (filter Q xs)"
  using assms by (induction xs) auto

lemma filter_map_frame:
  assumes "\<forall>x\<in>set xs. P (f x) = P x \<and> (P x \<longrightarrow> f x = x)"
  shows "filter P (map f xs) = filter P xs"
  using assms by (induction xs) auto

lemma image_filter_keep [intro]:
  "x \<in> f ` set xs \<Longrightarrow> x \<noteq> a \<Longrightarrow> x \<in> f ` {y \<in> set xs. f y \<noteq> a}"
  by auto

lemma distinct_map_key_le1:
  "distinct (map f xs) \<Longrightarrow> length (filter (\<lambda>x. f x = k) xs) \<le> 1"
  by (induction xs) (auto simp: filter_empty_conv image_iff)

lemma distinct_map_key_count:
  "distinct (map f xs) \<Longrightarrow> length (filter (\<lambda>x. f x = k) xs) = (if k \<in> f ` set xs then 1 else 0)"
  by (induction xs) (auto simp: filter_empty_conv image_iff)

lemma map_filter_key [simp]:
  "map f (filter (\<lambda>x. f x \<noteq> k) xs) = filter (\<lambda>y. y \<noteq> k) (map f xs)"
  by (induction xs) auto

lemma distinct_map_eqD:
  "distinct (map f xs) \<Longrightarrow> x \<in> set xs \<Longrightarrow> y \<in> set xs \<Longrightarrow> f x = f y \<Longrightarrow> x = y"
  by (auto simp: distinct_map dest: inj_onD)

lemma length_filter_mset:
  assumes "mset xs = mset ys"
  shows "length (filter P xs) = length (filter P ys)"
proof -
  have "mset (filter P xs) = mset (filter P ys)"
    using assms by simp
  then show ?thesis
    by (metis size_mset)
qed

text \<open>
  A list sorted by a key on which the rows differ is determined by its multiset: the
  stable sort is then the only result an \<open>ORDER BY\<close> on that key may return.
\<close>

lemma singleton_mset_eq:
  "length xs \<le> 1 \<Longrightarrow> mset xs = mset ys \<Longrightarrow> xs = ys"
  by (cases xs; cases ys) (auto dest: mset_eq_length)

lemma sort_key_unique:
  fixes f :: "'a \<Rightarrow> 'b::linorder"
  assumes "distinct (map f xs)" and "mset ys = mset xs" and "sorted (map f ys)"
  shows "ys = sort_key f xs"
proof -
  have "sort_key f xs = ys"
  proof (rule properties_for_sort_key [OF assms(2) _ assms(3)])
    fix k
    have d: "distinct (map f ys)"
      using assms(1,2) by (metis mset_map mset_eq_imp_distinct_iff)
    have "length (filter (\<lambda>x. f k = f x) ys) \<le> 1"
      using distinct_map_key_le1 [OF d, of "f k"] by (simp add: eq_commute)
    moreover have "mset (filter (\<lambda>x. f k = f x) ys) = mset (filter (\<lambda>x. f k = f x) xs)"
      using assms(2) by simp
    ultimately show "filter (\<lambda>x. f k = f x) ys = filter (\<lambda>x. f k = f x) xs"
      by (rule singleton_mset_eq)
  qed
  then show ?thesis by simp
qed

end
