(* ===== verification/Schema.thy ===== *)
theory Schema
  imports Prelude
begin

text \<open>
  The entity store: the four tables of the migration \<open>src/unnamed/part_000\<close>
  (\<open>profiles\<close>, \<open>courses\<close>, \<open>lessons\<close>, \<open>user_progress\<close>) and the
  \<open>auth.users\<close> table they reference, with the TypeScript interfaces of
  \<open>src/unnamed/part_001\<close> (\<open>Profile\<close>, \<open>Course\<close>, \<open>Lesson\<close>,
  \<open>UserProgress\<close>) as records. A table is a list of rows in its physical order, so that a
  query without \<open>ORDER BY\<close> returns the rows in that order and duplicate rows stay
  visible. Nullable columns the client reads as \<open>null\<close> (\<open>lesson_id\<close>,
  \<open>completed_at\<close>, the signup metadata) are options.
  The integrity invariant \<open>db_wf\<close> is what the primary keys and the
  \<open>REFERENCES\<close> clauses enforce.
\<close>

subsection \<open>Signup metadata\<close>

text \<open>
  \<open>raw_user_meta_data\<close> is a \<open>jsonb\<close> object or SQL \<open>NULL\<close>. The operator
  \<open>->>\<close> reads a key as text: \<open>NULL\<close> when the object is \<open>NULL\<close>, the key is
  absent or its value is JSON \<open>null\<close>; the string itself for a JSON string; the JSON
  text of any other value. \<open>JValue s\<close> is a non-string, non-null value whose JSON
  text is \<open>s\<close>.
\<close>

datatype json = JNull | JStr string | JValue string

type_synonym json_object = "(string \<times> json) list"

fun json_text :: "json \<Rightarrow> string option" where
  "json_text JNull = None"
| "json_text (JStr s) = Some s"
| "json_text (JValue s) = Some s"

definition json_get_text :: "json_object option \<Rightarrow> string \<Rightarrow> string option" where
  "json_get_text obj k =
     (case obj of
        None \<Rightarrow> None
      | Some kvs \<Rightarrow> (case map_of kvs k of None \<Rightarrow> None | Some v \<Rightarrow> json_text v))"

subsection \<open>Rows\<close>

text \<open>
  A row of \<open>auth.users\<close> (the identity service's table, outside this repository): the
  columns the trigger reads. Its \<open>email\<close> is \<open>NULL\<close> for an identity created
  without one.
\<close>

record auth_user =
  au_id :: uuid
  au_email :: "string option"
  au_raw_user_meta_data :: "json_object option"

record Profile =
  pr_id :: uuid
  pr_email :: string
  pr_full_name :: string
  pr_created_at :: timestamp
  pr_updated_at :: timestamp

record Course =
  co_id :: uuid
  co_title :: string
  co_description :: string
  co_thumbnail_url :: string
  co_category :: string
  co_difficulty :: string
  co_duration_minutes :: int
  co_created_at :: timestamp
  co_updated_at :: timestamp

record Lesson =
  le_id :: uuid
  le_course_id :: uuid
  le_title :: string
  le_content :: string
  le_order_number :: int
  le_duration_minutes :: int
  le_created_at :: timestamp

record UserProgress =
  up_id :: uuid
  up_user_id :: uuid
  up_course_id :: uuid
  up_lesson_id :: "uuid option"
  up_completed :: bool
  up_completed_at :: "timestamp option"
  up_created_at :: timestamp
  up_updated_at :: timestamp

record db =
  t_auth_users :: "auth_user list"
  t_profiles :: "Profile list"
  t_courses :: "Course list"
  t_lessons :: "Lesson list"
  t_user_progress :: "UserProgress list"

subsection \<open>Keys and references\<close>

text \<open>
  Each \<open>REFERENCES\<close> clause as a check on one row against the current tables: the
  check the store runs on insert, and the invariant it keeps afterwards.
\<close>

definition user_ids :: "db \<Rightarrow> uuid list" where
  "user_ids d = map au_id (t_auth_users d)"

definition course_ids :: "db \<Rightarrow> uuid list" where
  "course_ids d = map co_id (t_courses d)"

definition lesson_ids :: "db \<Rightarrow> uuid list" where
  "lesson_ids d = map le_id (t_lessons d)"

definition profile_fk_ok :: "db \<Rightarrow> Profile \<Rightarrow> bool" where
  "profile_fk_ok d p \<longleftrightarrow> pr_id p \<in> set (user_ids d)"

definition lesson_fk_ok :: "db \<Rightarrow> Lesson \<Rightarrow> bool" where
  "lesson_fk_ok d l \<longleftrightarrow> le_course_id l \<in> set (course_ids d)"

definition progress_fk_ok :: "db \<Rightarrow> UserProgress \<Rightarrow> bool" where
  "progress_fk_ok d r \<longleftrightarrow>
     up_user_id r \<in> set (user_ids d) \<and> up_course_id r \<in> set (course_ids d) \<and>
     (case up_lesson_id r of None \<Rightarrow> True | Some l \<Rightarrow> l \<in> set (lesson_ids d))"

definition pk_ok :: "db \<Rightarrow> bool" where
  "pk_ok d \<longleftrightarrow>
     distinct (user_ids d) \<and> distinct (map pr_id (t_profiles d)) \<and> distinct (course_ids d) \<and>
     distinct (lesson_ids d) \<and> distinct (map up_id (t_user_progress d))"

definition fk_ok :: "db \<Rightarrow> bool" where
  "fk_ok d \<longleftrightarrow>
     list_all (profile_fk_ok d) (t_profiles d) \<and> list_all (lesson_fk_ok d) (t_lessons d) \<and>
     list_all (progress_fk_ok d) (t_user_progress d)"

definition db_wf :: "db \<Rightarrow> bool" where
  "db_wf d \<longleftrightarrow> pk_ok d \<and> fk_ok d"

lemmas key_defs = user_ids_def course_ids_def lesson_ids_def
lemmas fk_defs = profile_fk_ok_def lesson_fk_ok_def progress_fk_ok_def

end
