(* ===== verification/Progress.thy ===== *)
theory Progress
  imports Schema
begin

text \<open>
  The read path of the progress model (\<open>src/src/pages/CourseDetail.tsx\<close>, lines 48-60):
  from the caller's progress rows for one course and the course's lessons, the client
  derives whether a lesson is completed, whether the course is completed, and the
  completion percentage shown in the progress bar. Here the percentage is computed in
  exact rational arithmetic, which is the spec's formula; \<open>Math.round\<close> rounds half
  up. \<open>Binary64\<close> models the code's floating-point computation of the same
  expression and bounds its difference from this one (C9).
\<close>

definition isLessonCompleted :: "UserProgress list \<Rightarrow> uuid \<Rightarrow> bool" where
  "isLessonCompleted progress lessonId =
     list_ex (\<lambda>p. up_lesson_id p = Some lessonId \<and> up_completed p) progress"

definition isCourseCompleted :: "UserProgress list \<Rightarrow> bool" where
  "isCourseCompleted progress = list_ex (\<lambda>p. up_lesson_id p = None \<and> up_completed p) progress"

definition js_round :: "rat \<Rightarrow> int" where
  "js_round x = \<lfloor>x + 1 / 2\<rfloor>"

definition completedLessons :: "Lesson list \<Rightarrow> UserProgress list \<Rightarrow> nat" where
  "completedLessons lessons progress =
     length (filter (\<lambda>lesson. isLessonCompleted progress (le_id lesson)) lessons)"

definition calculateProgress :: "Lesson list \<Rightarrow> UserProgress list \<Rightarrow> int" where
  "calculateProgress lessons progress =
     (if length lessons = 0 then 0
      else js_round (of_nat (completedLessons lessons progress) / of_nat (length lessons) * 100))"

lemma completedLessons_le: "completedLessons lessons progress \<le> length lessons"
  by (simp add: completedLessons_def)

lemma floor_percent:
  assumes "0 < n"
  shows "\<lfloor>of_nat c / of_nat n * 100 + 1 / 2 :: 'a :: floor_ceiling\<rfloor> =
           (200 * int c + int n) div (2 * int n)"
proof -
  have "of_nat c / of_nat n * 100 + 1 / 2 = (of_int (200 * int c + int n) / of_int (2 * int n) :: 'a)"
    using assms by (simp add: field_simps)
  then show ?thesis
    by (simp add: floor_divide_of_int_eq del: of_int_add of_int_mult)
qed

lemma js_round_percent:
  "0 < n \<Longrightarrow> js_round (of_nat c / of_nat n * 100) = (200 * int c + int n) div (2 * int n)"
  unfolding js_round_def by (rule floor_percent)

lemma calculateProgress_eq:
  "calculateProgress lessons progress =
     (if lessons = [] then 0
      else int ((200 * completedLessons lessons progress + length lessons)
                  div (2 * length lessons)))"
proof (cases "lessons = []")
  case True
  then show ?thesis by (simp add: calculateProgress_def)
next
  case False
  then show ?thesis
    using js_round_percent [of "length lessons" "completedLessons lessons progress"]
    by (simp add: calculateProgress_def zdiv_int)
qed

lemma calculateProgress_nonempty:
  assumes "lessons \<noteq> []"
  shows "calculateProgress lessons progress =
           int ((200 * completedLessons lessons progress + length lessons) div (2 * length lessons))"
  using assms by (simp add: calculateProgress_eq)

text \<open>Division by a positive divisor, read as bounds on the dividend.\<close>

lemma percent_le_iff:
  "0 < n \<Longrightarrow> ((200 * c + n) div (2 * n) \<le> k) = (200 * c + n < (k + 1) * (2 * n))"
  for c n k :: nat
  using div_less_iff_less_mult [of "2 * n" "200 * c + n" "k + 1"] by auto

lemma percent_ge_iff:
  "0 < n \<Longrightarrow> (k \<le> (200 * c + n) div (2 * n)) = (k * (2 * n) \<le> 200 * c + n)"
  for c n k :: nat
  by (simp add: less_eq_div_iff_mult_less_eq)

lemma percent_dividend_bound: "c \<le> n \<Longrightarrow> 0 < n \<Longrightarrow> 200 * c + n < (100 + 1) * (2 * n)"
  for c n :: nat
  by simp

lemma percent_le_100:
  assumes "lessons \<noteq> []"
  shows "(200 * completedLessons lessons progress + length lessons) div (2 * length lessons) \<le> 100"
proof -
  have c: "completedLessons lessons progress \<le> length lessons"
    by (rule completedLessons_le)
  from assms have n: "0 < length lessons" by simp
  have "200 * completedLessons lessons progress + length lessons < (100 + 1) * (2 * length lessons)"
    using percent_dividend_bound [OF c n] .
  then show ?thesis
    using percent_le_iff [OF n] by blast
qed

text \<open>C10: the completion percentage is always between 0 and 100, and 0 for a course without lessons.\<close>

theorem calculateProgress_bounds:
  "0 \<le> calculateProgress lessons progress \<and> calculateProgress lessons progress \<le> 100 \<and>
   calculateProgress [] progress = 0"
proof (cases "lessons = []")
  case True
  then show ?thesis by (simp add: calculateProgress_eq)
next
  case False
  then show ?thesis
    using percent_le_100 [OF False, of progress]
    by (simp add: calculateProgress_nonempty calculateProgress_eq)
qed

text \<open>C12: the page shows 0\% exactly when the course has no lessons or fewer than one
  lesson in 200 is completed; so with more than 200 lessons a completed lesson can leave
  the bar at 0\%.\<close>

theorem calculateProgress_zero_iff:
  "calculateProgress lessons progress = 0 \<longleftrightarrow>
     lessons = [] \<or> 200 * completedLessons lessons progress < length lessons"
proof (cases "lessons = []")
  case True
  then show ?thesis by (simp add: calculateProgress_eq)
next
  case False
  then have n: "0 < length lessons" by simp
  have "calculateProgress lessons progress = 0 \<longleftrightarrow>
          (200 * completedLessons lessons progress + length lessons) div (2 * length lessons) \<le> 0"
    using False by (simp add: calculateProgress_nonempty)
  also have "\<dots> \<longleftrightarrow> 200 * completedLessons lessons progress < length lessons"
    using n by (simp add: div_eq_0_iff)
  finally show ?thesis using False by simp
qed

text \<open>C13: the page shows 100\% exactly when the course has lessons and at least 199 of
  every 200 are completed: with 200 or more lessons, 100\% is shown while a lesson is
  still open.\<close>

theorem calculateProgress_full_iff:
  "calculateProgress lessons progress = 100 \<longleftrightarrow>
     lessons \<noteq> [] \<and> 199 * length lessons \<le> 200 * completedLessons lessons progress"
proof (cases "lessons = []")
  case True
  then show ?thesis by (simp add: calculateProgress_eq)
next
  case False
  then have n: "0 < length lessons" by simp
  have "calculateProgress lessons progress = 100 \<longleftrightarrow>
      100 \<le> (200 * completedLessons lessons progress + length lessons) div (2 * length lessons)"
    using False percent_le_100 [OF False, of progress] by (simp add: calculateProgress_nonempty)
  also have "\<dots> \<longleftrightarrow> 100 * (2 * length lessons) \<le> 200 * completedLessons lessons progress + length lessons"
    using percent_ge_iff [OF n] by blast
  also have "\<dots> \<longleftrightarrow> 199 * length lessons \<le> 200 * completedLessons lessons progress"
    by simp
  finally show ?thesis using False by simp
qed

lemma completedLessons_mono:
  assumes "\<forall>l\<in>set lessons. isLessonCompleted progress (le_id l) \<longrightarrow> isLessonCompleted progress' (le_id l)"
  shows "completedLessons lessons progress \<le> completedLessons lessons progress'"
  using assms unfolding completedLessons_def by (rule length_filter_mono_pred)

text \<open>C11: the percentage never decreases when the set of completed lessons grows (the
  lesson list fixed).\<close>

theorem calculateProgress_mono:
  assumes "\<forall>l\<in>set lessons. isLessonCompleted progress (le_id l) \<longrightarrow> isLessonCompleted progress' (le_id l)"
  shows "calculateProgress lessons progress \<le> calculateProgress lessons progress'"
proof (cases "lessons = []")
  case True
  then show ?thesis by (simp add: calculateProgress_eq)
next
  case False
  have "completedLessons lessons progress \<le> completedLessons lessons progress'"
    using assms by (rule completedLessons_mono)
  then show ?thesis
    using False by (simp add: calculateProgress_nonempty div_le_mono)
qed

lemma isLessonCompleted_set: "set progress = set progress' \<Longrightarrow> isLessonCompleted progress = isLessonCompleted progress'"
  by (simp add: isLessonCompleted_def list_ex_iff fun_eq_iff)

lemma completedLessons_perm:
  assumes "mset lessons = mset lessons'" and "set progress = set progress'"
  shows "completedLessons lessons progress = completedLessons lessons' progress'"
proof -
  have "isLessonCompleted progress = isLessonCompleted progress'"
    using assms(2) by (rule isLessonCompleted_set)
  then show ?thesis
    using length_filter_mset [OF assms(1)] by (simp add: completedLessons_def)
qed

text \<open>C14: the percentage depends neither on the order in which the lessons and the
  progress rows are returned nor on repeated progress rows.\<close>

theorem calculateProgress_perm:
  assumes "mset lessons = mset lessons'" and "set progress = set progress'"
  shows "calculateProgress lessons progress = calculateProgress lessons' progress'"
proof -
  have len: "length lessons = length lessons'"
    using assms(1) by (metis size_mset)
  then have "(lessons = []) = (lessons' = [])"
    by (metis length_0_conv)
  with len show ?thesis
    using completedLessons_perm [OF assms] by (simp add: calculateProgress_eq)
qed

text \<open>In exact arithmetic \<open>calculateProgress\<close> is the spec's percentage: 0 for a course
  without lessons, otherwise the completed share times 100 rounded to the nearest integer,
  halves up (\<open>round\<close> over the reals). The code computes it in binary64; the two are
  compared in \<open>Binary64\<close>.\<close>

lemma calculateProgress_round:
  "calculateProgress lessons progress =
     (if lessons = [] then 0
      else round (100 * real (completedLessons lessons progress) / real (length lessons)))"
proof (cases "lessons = []")
  case True
  then show ?thesis by (simp add: calculateProgress_eq)
next
  case False
  then have n: "0 < length lessons" by simp
  have "round (100 * real (completedLessons lessons progress) / real (length lessons)) =
        \<lfloor>real (completedLessons lessons progress) / real (length lessons) * 100 + 1 / 2\<rfloor>"
    by (simp add: round_def mult.commute)
  also have "\<dots> = int ((200 * completedLessons lessons progress + length lessons) div (2 * length lessons))"
    using floor_percent [OF n] by (simp add: zdiv_int)
  finally show ?thesis
    using False by (simp add: calculateProgress_nonempty)
qed

end
