(* ===== verification/Policy.thy ===== *)
theory Policy
  imports Schema
begin

text \<open>
  The access policy layer: the row-level security of \<open>src/unnamed/part_000\<close>. Every
  table has RLS enabled, and its policies are the \<open>CREATE POLICY\<close> statements, each
  for one command, \<open>TO authenticated\<close>, with a \<open>USING\<close> and/or a
  \<open>WITH CHECK\<close> expression. \<open>policies\<close> lists them as written. Their meaning is
  PostgreSQL's: the permissive policies for a table and command are or-ed; with none,
  the command is denied by default; \<open>USING\<close> selects the existing rows a command can
  see, \<open>WITH CHECK\<close> admits the rows it writes (for \<open>UPDATE\<close>, \<open>USING\<close>
  stands in for a missing \<open>WITH CHECK\<close>). A caller with no session has the role
  \<open>anon\<close>, to which no policy applies; an authenticated caller's \<open>auth.uid()\<close>
  is its user id.

  \<open>authorized\<close> is the contract of spec section 4.1 written directly, and
  \<open>rls_row_allowed_authorized\<close> shows the policy table implements it.
\<close>

datatype role = Anon | Authenticated uuid

datatype table = TAuthUsers | TProfiles | TCourses | TLessons | TUserProgress

datatype command = Select | Insert | Update | Delete

datatype row = RProfile Profile | RCourse Course | RLesson Lesson | RProgress UserProgress

fun row_table :: "row \<Rightarrow> table" where
  "row_table (RProfile _) = TProfiles"
| "row_table (RCourse _) = TCourses"
| "row_table (RLesson _) = TLessons"
| "row_table (RProgress _) = TUserProgress"

text \<open>The policy expressions that occur: \<open>true\<close>, \<open>auth.uid() = id\<close>, \<open>auth.uid() = user_id\<close>.\<close>

datatype pexpr = PTrue | UidEqId | UidEqUserId

fun eval_pexpr :: "uuid \<Rightarrow> pexpr \<Rightarrow> row \<Rightarrow> bool" where
  "eval_pexpr uid PTrue r = True"
| "eval_pexpr uid UidEqId (RProfile p) = (uid = pr_id p)"
| "eval_pexpr uid UidEqUserId (RProgress p) = (uid = up_user_id p)"
| "eval_pexpr uid _ _ = False"

record policy =
  pol_name :: string
  pol_table :: table
  pol_cmd :: command
  pol_using :: "pexpr option"
  pol_check :: "pexpr option"

definition policies :: "policy list" where
  "policies =
    [\<lparr>pol_name = ''Users can view own profile'', pol_table = TProfiles, pol_cmd = Select,
      pol_using = Some UidEqId, pol_check = None\<rparr>,
     \<lparr>pol_name = ''Users can update own profile'', pol_table = TProfiles, pol_cmd = Update,
      pol_using = Some UidEqId, pol_check = Some UidEqId\<rparr>,
     \<lparr>pol_name = ''Users can insert own profile'', pol_table = TProfiles, pol_cmd = Insert,
      pol_using = None, pol_check = Some UidEqId\<rparr>,
     \<lparr>pol_name = ''Anyone can view courses'', pol_table = TCourses, pol_cmd = Select,
      pol_using = Some PTrue, pol_check = None\<rparr>,
     \<lparr>pol_name = ''Anyone can view lessons'', pol_table = TLessons, pol_cmd = Select,
      pol_using = Some PTrue, pol_check = None\<rparr>,
     \<lparr>pol_name = ''Users can view own progress'', pol_table = TUserProgress, pol_cmd = Select,
      pol_using = Some UidEqUserId, pol_check = None\<rparr>,
     \<lparr>pol_name = ''Users can insert own progress'', pol_table = TUserProgress, pol_cmd = Insert,
      pol_using = None, pol_check = Some UidEqUserId\<rparr>,
     \<lparr>pol_name = ''Users can update own progress'', pol_table = TUserProgress, pol_cmd = Update,
      pol_using = Some UidEqUserId, pol_check = Some UidEqUserId\<rparr>]"

definition applicable :: "table \<Rightarrow> command \<Rightarrow> policy list" where
  "applicable t cmd = filter (\<lambda>p. pol_table p = t \<and> pol_cmd p = cmd) policies"

definition rls_using :: "role \<Rightarrow> table \<Rightarrow> command \<Rightarrow> row \<Rightarrow> bool" where
  "rls_using r t cmd rw =
     (case r of
        Anon \<Rightarrow> False
      | Authenticated u \<Rightarrow>
          list_ex (\<lambda>p. case pol_using p of None \<Rightarrow> False | Some e \<Rightarrow> eval_pexpr u e rw)
            (applicable t cmd))"

definition rls_check :: "role \<Rightarrow> table \<Rightarrow> command \<Rightarrow> row \<Rightarrow> bool" where
  "rls_check r t cmd rw =
     (case r of
        Anon \<Rightarrow> False
      | Authenticated u \<Rightarrow>
          list_ex (\<lambda>p. case pol_check p of
                         Some e \<Rightarrow> eval_pexpr u e rw
                       | None \<Rightarrow> (case pol_using p of None \<Rightarrow> False | Some e \<Rightarrow> eval_pexpr u e rw))
            (applicable t cmd))"

text \<open>
  The decision for one row that a command leaves unchanged in its policy columns:
  \<open>SELECT\<close> and \<open>DELETE\<close> see it through \<open>USING\<close>, \<open>INSERT\<close> admits it
  through \<open>WITH CHECK\<close>, \<open>UPDATE\<close> needs both.
\<close>

fun rls_row_allowed :: "role \<Rightarrow> command \<Rightarrow> row \<Rightarrow> bool" where
  "rls_row_allowed r Select rw = rls_using r (row_table rw) Select rw"
| "rls_row_allowed r Delete rw = rls_using r (row_table rw) Delete rw"
| "rls_row_allowed r Insert rw = rls_check r (row_table rw) Insert rw"
| "rls_row_allowed r Update rw =
     (rls_using r (row_table rw) Update rw \<and> rls_check r (row_table rw) Update rw)"

subsection \<open>The access contract\<close>

fun authorized :: "role \<Rightarrow> command \<Rightarrow> row \<Rightarrow> bool" where
  "authorized Anon cmd rw = False"
| "authorized (Authenticated u) cmd (RProfile p) = (cmd \<noteq> Delete \<and> pr_id p = u)"
| "authorized (Authenticated u) cmd (RCourse c) = (cmd = Select)"
| "authorized (Authenticated u) cmd (RLesson l) = (cmd = Select)"
| "authorized (Authenticated u) cmd (RProgress p) = (cmd \<noteq> Delete \<and> up_user_id p = u)"

lemmas rls_defs = rls_using_def rls_check_def applicable_def policies_def

text \<open>The facts the store proofs use: what the policies decide for progress rows.\<close>

lemma rls_progress_select [simp]:
  "rls_using r TUserProgress Select (RProgress p) = (r = Authenticated (up_user_id p))"
  by (cases r) (auto simp: rls_defs)

lemma rls_progress_update_using [simp]:
  "rls_using r TUserProgress Update (RProgress p) = (r = Authenticated (up_user_id p))"
  by (cases r) (auto simp: rls_defs)

lemma rls_progress_check [simp]:
  "cmd \<in> {Insert, Update} \<Longrightarrow>
     rls_check r TUserProgress cmd (RProgress p) = (r = Authenticated (up_user_id p))"
  by (cases r) (auto simp: rls_defs)

lemma rls_progress_delete [simp]: "\<not> rls_using r TUserProgress Delete rw"
  by (cases r) (auto simp: rls_defs)

lemma rls_profile_select [simp]:
  "rls_using r TProfiles Select (RProfile p) = (r = Authenticated (pr_id p))"
  by (cases r) (auto simp: rls_defs)

lemma rls_profile_update_using [simp]:
  "rls_using r TProfiles Update (RProfile p) = (r = Authenticated (pr_id p))"
  by (cases r) (auto simp: rls_defs)

lemma rls_profile_check [simp]:
  "cmd \<in> {Insert, Update} \<Longrightarrow>
     rls_check r TProfiles cmd (RProfile p) = (r = Authenticated (pr_id p))"
  by (cases r) (auto simp: rls_defs)

lemma rls_catalogue_select [simp]:
  "rls_using r TCourses Select (RCourse c) = (r \<noteq> Anon)"
  "rls_using r TLessons Select (RLesson l) = (r \<noteq> Anon)"
  by (cases r; simp add: rls_defs)+

text \<open>No policy lets a client write the catalogue or delete a profile.\<close>

lemma rls_no_write [simp]:
  "\<not> rls_check r TCourses Insert rw" "\<not> rls_check r TLessons Insert rw"
  "\<not> rls_using r TCourses Delete rw" "\<not> rls_using r TLessons Delete rw"
  "\<not> rls_using r TProfiles Delete rw"
  by (cases r; simp add: rls_defs)+

text \<open>
  C6: the policy table implements the access contract of spec section 4.1: for every
  caller, command and row, PostgreSQL's decision from the policies of the migration is
  \<open>authorized\<close>: own profile readable, insertable and updatable; courses and lessons
  readable by any signed-in caller and never written; own progress readable, insertable
  and updatable; nothing deletable; nothing at all without a session.
\<close>

theorem rls_row_allowed_authorized: "rls_row_allowed r cmd rw = authorized r cmd rw"
  by (cases r; cases cmd; cases rw) (auto simp: rls_defs)

end
