(* ===== verification/Store.thy ===== *)
theory Store
  imports Policy
begin

text \<open>
  The store operations the client issues through the Supabase query builder, with the
  meaning PostgreSQL gives them under the schema and policies of
  \<open>src/unnamed/part_000\<close>: a \<open>select\<close> returns the visible rows of a table in
  physical order; an \<open>insert\<close> fills the column defaults (\<open>gen_random_uuid()\<close>,
  \<open>now()\<close>), then checks the policies' \<open>WITH CHECK\<close>, the primary key and the
  foreign keys, in that order, and fails with the first violated one; an
  \<open>update ... eq('id', x)\<close> changes the visible rows with that id (no row visible is no
  error) and fails if a changed row violates \<open>WITH CHECK\<close>; a \<open>delete\<close> removes the
  visible rows only. The privileged deletions (of an identity, a course, a lesson) follow
  the \<open>ON DELETE CASCADE\<close> clauses. Every operation returns \<open>db_error + db\<close>.
  The fresh id of an insert is a parameter: \<open>gen_random_uuid()\<close> is random, and a
  collision is the primary-key error.
\<close>

datatype db_error =
    RlsViolation table
  | NotNullViolation table
  | UniqueViolation table
  | ForeignKeyViolation table
  | MultipleRows
  | NetworkError

subsection \<open>Reads\<close>

definition select_courses :: "role \<Rightarrow> db \<Rightarrow> Course list" where
  "select_courses r d = filter (\<lambda>c. rls_using r TCourses Select (RCourse c)) (t_courses d)"

definition select_lessons :: "role \<Rightarrow> db \<Rightarrow> Lesson list" where
  "select_lessons r d = filter (\<lambda>l. rls_using r TLessons Select (RLesson l)) (t_lessons d)"

definition select_user_progress :: "role \<Rightarrow> db \<Rightarrow> UserProgress list" where
  "select_user_progress r d =
     filter (\<lambda>p. rls_using r TUserProgress Select (RProgress p)) (t_user_progress d)"

definition select_profiles :: "role \<Rightarrow> db \<Rightarrow> Profile list" where
  "select_profiles r d = filter (\<lambda>p. rls_using r TProfiles Select (RProfile p)) (t_profiles d)"

subsection \<open>Writes to \<open>user_progress\<close>\<close>

text \<open>The object passed to \<open>.insert(...)\<close> and to \<open>.update(...)\<close> by the client.\<close>

record progress_insert =
  ins_user_id :: uuid
  ins_course_id :: uuid
  ins_lesson_id :: "uuid option"
  ins_completed :: bool
  ins_completed_at :: "timestamp option"

record progress_patch =
  pa_completed :: bool
  pa_completed_at :: "timestamp option"
  pa_updated_at :: timestamp

definition new_progress_row :: "uuid \<Rightarrow> timestamp \<Rightarrow> progress_insert \<Rightarrow> UserProgress" where
  "new_progress_row fresh now ins =
     \<lparr>up_id = fresh, up_user_id = ins_user_id ins, up_course_id = ins_course_id ins,
      up_lesson_id = ins_lesson_id ins, up_completed = ins_completed ins,
      up_completed_at = ins_completed_at ins, up_created_at = now, up_updated_at = now\<rparr>"

definition insert_user_progress ::
  "role \<Rightarrow> uuid \<Rightarrow> timestamp \<Rightarrow> progress_insert \<Rightarrow> db \<Rightarrow> db_error + db" where
  "insert_user_progress r fresh now ins d =
     (let rw = new_progress_row fresh now ins in
      if \<not> rls_check r TUserProgress Insert (RProgress rw) then Inl (RlsViolation TUserProgress)
      else if up_id rw \<in> set (map up_id (t_user_progress d)) then Inl (UniqueViolation TUserProgress)
      else if \<not> progress_fk_ok d rw then Inl (ForeignKeyViolation TUserProgress)
      else Inr (d\<lparr>t_user_progress := t_user_progress d @ [rw]\<rparr>))"

definition apply_patch :: "progress_patch \<Rightarrow> UserProgress \<Rightarrow> UserProgress" where
  "apply_patch pa p =
     p\<lparr>up_completed := pa_completed pa, up_completed_at := pa_completed_at pa,
       up_updated_at := pa_updated_at pa\<rparr>"

definition progress_update_target :: "role \<Rightarrow> uuid \<Rightarrow> UserProgress \<Rightarrow> bool" where
  "progress_update_target r pid p \<longleftrightarrow>
     up_id p = pid \<and> rls_using r TUserProgress Select (RProgress p) \<and>
     rls_using r TUserProgress Update (RProgress p)"

definition update_user_progress ::
  "role \<Rightarrow> uuid \<Rightarrow> progress_patch \<Rightarrow> db \<Rightarrow> db_error + db" where
  "update_user_progress r pid pa d =
     (if list_all (\<lambda>p. progress_update_target r pid p \<longrightarrow>
                        rls_check r TUserProgress Update (RProgress (apply_patch pa p)))
           (t_user_progress d)
      then Inr (d\<lparr>t_user_progress :=
                   map (\<lambda>p. if progress_update_target r pid p then apply_patch pa p else p)
                     (t_user_progress d)\<rparr>)
      else Inl (RlsViolation TUserProgress))"

definition delete_user_progress :: "role \<Rightarrow> uuid \<Rightarrow> db \<Rightarrow> db_error + db" where
  "delete_user_progress r pid d =
     Inr (d\<lparr>t_user_progress :=
             filter (\<lambda>p. \<not> (up_id p = pid \<and> rls_using r TUserProgress Select (RProgress p) \<and>
                            rls_using r TUserProgress Delete (RProgress p)))
               (t_user_progress d)\<rparr>)"

subsection \<open>Writes to \<open>profiles\<close>\<close>

text \<open>An \<open>.update({...})\<close> of a profile's own columns (the id is not among them).\<close>

record profile_patch =
  pp_email :: "string option"
  pp_full_name :: "string option"
  pp_updated_at :: "timestamp option"

definition apply_profile_patch :: "profile_patch \<Rightarrow> Profile \<Rightarrow> Profile" where
  "apply_profile_patch pp p =
     p\<lparr>pr_email := (case pp_email pp of None \<Rightarrow> pr_email p | Some e \<Rightarrow> e),
       pr_full_name := (case pp_full_name pp of None \<Rightarrow> pr_full_name p | Some n \<Rightarrow> n),
       pr_updated_at := (case pp_updated_at pp of None \<Rightarrow> pr_updated_at p | Some t \<Rightarrow> t)\<rparr>"

definition profile_update_target :: "role \<Rightarrow> uuid \<Rightarrow> Profile \<Rightarrow> bool" where
  "profile_update_target r pid p \<longleftrightarrow>
     pr_id p = pid \<and> rls_using r TProfiles Select (RProfile p) \<and>
     rls_using r TProfiles Update (RProfile p)"

definition update_profile :: "role \<Rightarrow> uuid \<Rightarrow> profile_patch \<Rightarrow> db \<Rightarrow> db_error + db" where
  "update_profile r pid pp d =
     (if list_all (\<lambda>p. profile_update_target r pid p \<longrightarrow>
                        rls_check r TProfiles Update (RProfile (apply_profile_patch pp p)))
           (t_profiles d)
      then Inr (d\<lparr>t_profiles :=
                   map (\<lambda>p. if profile_update_target r pid p then apply_profile_patch pp p else p)
                     (t_profiles d)\<rparr>)
      else Inl (RlsViolation TProfiles))"

text \<open>
  An \<open>.insert({...})\<close> into \<open>profiles\<close> (policy "Users can insert own profile"): the
  client supplies the id, the email and optionally the name; \<open>full_name\<close> defaults to
  the empty string and the timestamps to \<open>now()\<close>. The checks run in PostgreSQL's
  order: \<open>WITH CHECK\<close>, \<open>NOT NULL\<close>, the primary key, the reference. The policy
  reads the id only, so the row it is checked on carries the empty string for a missing
  email.
\<close>

record profile_insert =
  pi_id :: uuid
  pi_email :: "string option"
  pi_full_name :: "string option"

definition new_profile_row :: "timestamp \<Rightarrow> profile_insert \<Rightarrow> Profile" where
  "new_profile_row now pins =
     \<lparr>pr_id = pi_id pins, pr_email = (case pi_email pins of None \<Rightarrow> '''' | Some e \<Rightarrow> e),
      pr_full_name = (case pi_full_name pins of None \<Rightarrow> '''' | Some n \<Rightarrow> n),
      pr_created_at = now, pr_updated_at = now\<rparr>"

definition insert_profile :: "role \<Rightarrow> timestamp \<Rightarrow> profile_insert \<Rightarrow> db \<Rightarrow> db_error + db" where
  "insert_profile r now pins d =
     (let p = new_profile_row now pins in
      if \<not> rls_check r TProfiles Insert (RProfile p) then Inl (RlsViolation TProfiles)
      else if pi_email pins = None then Inl (NotNullViolation TProfiles)
      else if pr_id p \<in> set (map pr_id (t_profiles d)) then Inl (UniqueViolation TProfiles)
      else if \<not> profile_fk_ok d p then Inl (ForeignKeyViolation TProfiles)
      else Inr (d\<lparr>t_profiles := t_profiles d @ [p]\<rparr>))"

subsection \<open>Writes to the catalogue\<close>

text \<open>
  The constraints of a row insert into \<open>courses\<close> and \<open>lessons\<close> (primary key, then
  the reference of a lesson to its course), and a client's insert, which first meets the
  policies. \<open>courses\<close> and \<open>lessons\<close> have \<open>SELECT\<close> policies only, so a client's
  insert fails its \<open>WITH CHECK\<close> and a client's delete sees no row to delete.
\<close>

definition course_insert_checked :: "Course \<Rightarrow> db \<Rightarrow> db_error + db" where
  "course_insert_checked c d =
     (if co_id c \<in> set (course_ids d) then Inl (UniqueViolation TCourses)
      else Inr (d\<lparr>t_courses := t_courses d @ [c]\<rparr>))"

definition lesson_insert_checked :: "Lesson \<Rightarrow> db \<Rightarrow> db_error + db" where
  "lesson_insert_checked l d =
     (if le_id l \<in> set (lesson_ids d) then Inl (UniqueViolation TLessons)
      else if \<not> lesson_fk_ok d l then Inl (ForeignKeyViolation TLessons)
      else Inr (d\<lparr>t_lessons := t_lessons d @ [l]\<rparr>))"

definition insert_course :: "role \<Rightarrow> Course \<Rightarrow> db \<Rightarrow> db_error + db" where
  "insert_course r c d =
     (if \<not> rls_check r TCourses Insert (RCourse c) then Inl (RlsViolation TCourses)
      else course_insert_checked c d)"

definition insert_lesson :: "role \<Rightarrow> Lesson \<Rightarrow> db \<Rightarrow> db_error + db" where
  "insert_lesson r l d =
     (if \<not> rls_check r TLessons Insert (RLesson l) then Inl (RlsViolation TLessons)
      else lesson_insert_checked l d)"

subsection \<open>Cascading deletions\<close>

definition delete_lesson :: "uuid \<Rightarrow> db \<Rightarrow> db" where
  "delete_lesson lid d =
     d\<lparr>t_lessons := filter (\<lambda>l. le_id l \<noteq> lid) (t_lessons d),
       t_user_progress := filter (\<lambda>p. up_lesson_id p \<noteq> Some lid) (t_user_progress d)\<rparr>"

definition delete_course :: "uuid \<Rightarrow> db \<Rightarrow> db" where
  "delete_course cid d =
     (let gone = map le_id (filter (\<lambda>l. le_course_id l = cid) (t_lessons d)) in
      d\<lparr>t_courses := filter (\<lambda>c. co_id c \<noteq> cid) (t_courses d),
        t_lessons := filter (\<lambda>l. le_course_id l \<noteq> cid) (t_lessons d),
        t_user_progress :=
          filter (\<lambda>p. up_course_id p \<noteq> cid \<and>
                      (case up_lesson_id p of None \<Rightarrow> True | Some l \<Rightarrow> l \<notin> set gone))
            (t_user_progress d)\<rparr>)"

definition delete_auth_user :: "uuid \<Rightarrow> db \<Rightarrow> db" where
  "delete_auth_user uid d =
     d\<lparr>t_auth_users := filter (\<lambda>u. au_id u \<noteq> uid) (t_auth_users d),
       t_profiles := filter (\<lambda>p. pr_id p \<noteq> uid) (t_profiles d),
       t_user_progress := filter (\<lambda>p. up_user_id p \<noteq> uid) (t_user_progress d)\<rparr>"

text \<open>
  A client's \<open>.delete().eq('id', x)\<close> on the catalogue removes the rows it may both
  see and delete; the \<open>ON DELETE CASCADE\<close> actions then run whatever the policies.
\<close>

definition client_delete_course :: "role \<Rightarrow> uuid \<Rightarrow> db \<Rightarrow> db_error + db" where
  "client_delete_course r cid d =
     Inr (if list_ex (\<lambda>c. co_id c = cid \<and> rls_using r TCourses Select (RCourse c) \<and>
                         rls_using r TCourses Delete (RCourse c)) (t_courses d)
          then delete_course cid d else d)"

definition client_delete_lesson :: "role \<Rightarrow> uuid \<Rightarrow> db \<Rightarrow> db_error + db" where
  "client_delete_lesson r lid d =
     Inr (if list_ex (\<lambda>l. le_id l = lid \<and> rls_using r TLessons Select (RLesson l) \<and>
                         rls_using r TLessons Delete (RLesson l)) (t_lessons d)
          then delete_lesson lid d else d)"

declare select_courses_def [store_defs] select_lessons_def [store_defs]
  select_user_progress_def [store_defs] select_profiles_def [store_defs]
  insert_user_progress_def [store_defs] update_user_progress_def [store_defs]
  delete_user_progress_def [store_defs] update_profile_def [store_defs]
  delete_lesson_def [store_defs] delete_course_def [store_defs] delete_auth_user_def [store_defs]
  insert_profile_def [store_defs] insert_course_def [store_defs] insert_lesson_def [store_defs]
  client_delete_course_def [store_defs] client_delete_lesson_def [store_defs]

subsection \<open>The client's store operations as one step function\<close>

datatype store_op =
    InsertProgress uuid timestamp progress_insert
  | UpdateProgress uuid progress_patch
  | DeleteProgress uuid
  | UpdateProfile uuid profile_patch
  | InsertProfile timestamp profile_insert
  | InsertCourse Course
  | InsertLesson Lesson
  | DeleteCourse uuid
  | DeleteLesson uuid

fun store_step :: "role \<Rightarrow> store_op \<Rightarrow> db \<Rightarrow> db_error + db" where
  "store_step r (InsertProgress fresh now ins) d = insert_user_progress r fresh now ins d"
| "store_step r (UpdateProgress pid pa) d = update_user_progress r pid pa d"
| "store_step r (DeleteProgress pid) d = delete_user_progress r pid d"
| "store_step r (UpdateProfile pid pp) d = update_profile r pid pp d"
| "store_step r (InsertProfile now pins) d = insert_profile r now pins d"
| "store_step r (InsertCourse c) d = insert_course r c d"
| "store_step r (InsertLesson l) d = insert_lesson r l d"
| "store_step r (DeleteCourse cid) d = client_delete_course r cid d"
| "store_step r (DeleteLesson lid) d = client_delete_lesson r lid d"

subsection \<open>Tables that an operation does not write\<close>

lemma ids_progress_update [simp]:
  "user_ids (d\<lparr>t_user_progress := x\<rparr>) = user_ids d"
  "course_ids (d\<lparr>t_user_progress := x\<rparr>) = course_ids d"
  "lesson_ids (d\<lparr>t_user_progress := x\<rparr>) = lesson_ids d"
  "user_ids (d\<lparr>t_profiles := y\<rparr>) = user_ids d"
  "course_ids (d\<lparr>t_profiles := y\<rparr>) = course_ids d"
  "lesson_ids (d\<lparr>t_profiles := y\<rparr>) = lesson_ids d"
  by (simp_all add: key_defs)

lemma fk_progress_update [simp]:
  "profile_fk_ok (d\<lparr>t_user_progress := x\<rparr>) = profile_fk_ok d"
  "lesson_fk_ok (d\<lparr>t_user_progress := x\<rparr>) = lesson_fk_ok d"
  "progress_fk_ok (d\<lparr>t_user_progress := x\<rparr>) = progress_fk_ok d"
  "profile_fk_ok (d\<lparr>t_profiles := y\<rparr>) = profile_fk_ok d"
  "lesson_fk_ok (d\<lparr>t_profiles := y\<rparr>) = lesson_fk_ok d"
  "progress_fk_ok (d\<lparr>t_profiles := y\<rparr>) = progress_fk_ok d"
  by (simp_all add: fk_defs fun_eq_iff split: option.split)

lemma apply_patch_keys [simp]:
  "up_id (apply_patch pa p) = up_id p" "up_user_id (apply_patch pa p) = up_user_id p"
  "up_course_id (apply_patch pa p) = up_course_id p" "up_lesson_id (apply_patch pa p) = up_lesson_id p"
  "up_completed (apply_patch pa p) = pa_completed pa"
  "up_completed_at (apply_patch pa p) = pa_completed_at pa"
  by (simp_all add: apply_patch_def)

lemma apply_profile_patch_id [simp]: "pr_id (apply_profile_patch pp p) = pr_id p"
  by (simp add: apply_profile_patch_def)

text \<open>The keys of a row an update may or may not have patched.\<close>

lemma patched_keys [simp]:
  "up_id (if b then apply_patch pa p else p) = up_id p"
  "up_user_id (if b then apply_patch pa p else p) = up_user_id p"
  "up_course_id (if b then apply_patch pa p else p) = up_course_id p"
  "up_lesson_id (if b then apply_patch pa p else p) = up_lesson_id p"
  "pr_id (if b then apply_profile_patch pp q else q) = pr_id q"
  by simp_all

lemma progress_fk_ok_patch [simp]: "progress_fk_ok d (apply_patch pa p) = progress_fk_ok d p"
  by (simp add: progress_fk_ok_def)

lemma profile_fk_ok_patch [simp]: "profile_fk_ok d (apply_profile_patch pp p) = profile_fk_ok d p"
  by (simp add: profile_fk_ok_def)

subsection \<open>Behaviour for each caller\<close>

lemma select_user_progress_caller:
  "select_user_progress r d = filter (\<lambda>p. r = Authenticated (up_user_id p)) (t_user_progress d)"
  by (simp add: select_user_progress_def)

lemma select_profiles_caller:
  "select_profiles r d = filter (\<lambda>p. r = Authenticated (pr_id p)) (t_profiles d)"
  by (simp add: select_profiles_def)

lemma progress_update_target_iff [simp]:
  "progress_update_target r pid p \<longleftrightarrow> up_id p = pid \<and> r = Authenticated (up_user_id p)"
  by (auto simp: progress_update_target_def)

lemma profile_update_target_iff [simp]:
  "profile_update_target r pid p \<longleftrightarrow> pr_id p = pid \<and> r = Authenticated (pr_id p)"
  by (auto simp: profile_update_target_def)

lemma update_user_progress_eq:
  "update_user_progress r pid pa d =
     Inr (d\<lparr>t_user_progress :=
            map (\<lambda>p. if up_id p = pid \<and> r = Authenticated (up_user_id p) then apply_patch pa p else p)
              (t_user_progress d)\<rparr>)"
  by (simp add: update_user_progress_def list_all_iff)

lemma update_profile_eq:
  "update_profile r pid pp d =
     Inr (d\<lparr>t_profiles :=
            map (\<lambda>p. if pr_id p = pid \<and> r = Authenticated (pr_id p) then apply_profile_patch pp p else p)
              (t_profiles d)\<rparr>)"
  by (simp add: update_profile_def list_all_iff)

lemma delete_user_progress_noop: "delete_user_progress r pid d = Inr d"
  by (simp add: delete_user_progress_def)

lemma insert_user_progress_eq:
  "insert_user_progress r fresh now ins d =
     (if r \<noteq> Authenticated (ins_user_id ins) then Inl (RlsViolation TUserProgress)
      else if fresh \<in> set (map up_id (t_user_progress d)) then Inl (UniqueViolation TUserProgress)
      else if \<not> progress_fk_ok d (new_progress_row fresh now ins)
      then Inl (ForeignKeyViolation TUserProgress)
      else Inr (d\<lparr>t_user_progress := t_user_progress d @ [new_progress_row fresh now ins]\<rparr>))"
  by (simp add: insert_user_progress_def new_progress_row_def Let_def)

lemma new_progress_row_fields [simp]:
  "up_id (new_progress_row fresh now ins) = fresh"
  "up_user_id (new_progress_row fresh now ins) = ins_user_id ins"
  "up_course_id (new_progress_row fresh now ins) = ins_course_id ins"
  "up_lesson_id (new_progress_row fresh now ins) = ins_lesson_id ins"
  "up_completed (new_progress_row fresh now ins) = ins_completed ins"
  "up_completed_at (new_progress_row fresh now ins) = ins_completed_at ins"
  by (simp_all add: new_progress_row_def)

lemma new_profile_row_id [simp]: "pr_id (new_profile_row now pins) = pi_id pins"
  by (simp add: new_profile_row_def)

lemma insert_profile_eq:
  "insert_profile r now pins d =
     (if r \<noteq> Authenticated (pi_id pins) then Inl (RlsViolation TProfiles)
      else if pi_email pins = None then Inl (NotNullViolation TProfiles)
      else if pi_id pins \<in> set (map pr_id (t_profiles d)) then Inl (UniqueViolation TProfiles)
      else if pi_id pins \<notin> set (user_ids d) then Inl (ForeignKeyViolation TProfiles)
      else Inr (d\<lparr>t_profiles := t_profiles d @ [new_profile_row now pins]\<rparr>))"
  by (simp add: insert_profile_def profile_fk_ok_def Let_def)

text \<open>A client's write to the catalogue is refused or changes nothing.\<close>

lemma catalogue_client_writes [simp]:
  "insert_course r c d = Inl (RlsViolation TCourses)"
  "insert_lesson r l d = Inl (RlsViolation TLessons)"
  "client_delete_course r cid d = Inr d"
  "client_delete_lesson r lid d = Inr d"
  by (simp_all add: insert_course_def insert_lesson_def client_delete_course_def
                    client_delete_lesson_def list_ex_iff)

subsection \<open>The integrity invariant\<close>

lemmas wf_defs = db_wf_def pk_ok_def fk_ok_def list_all_iff

lemma insert_user_progress_wf:
  "db_wf d \<Longrightarrow> insert_user_progress r fresh now ins d = Inr d' \<Longrightarrow> db_wf d'"
  by (auto simp: insert_user_progress_eq wf_defs split: if_splits)

lemma update_user_progress_wf:
  "db_wf d \<Longrightarrow> update_user_progress r pid pa d = Inr d' \<Longrightarrow> db_wf d'"
  by (auto simp: update_user_progress_eq wf_defs o_def)

lemma update_profile_wf:
  "db_wf d \<Longrightarrow> update_profile r pid pp d = Inr d' \<Longrightarrow> db_wf d'"
  by (auto simp: update_profile_eq wf_defs o_def)

lemma insert_profile_wf:
  "db_wf d \<Longrightarrow> insert_profile r now pins d = Inr d' \<Longrightarrow> db_wf d'"
  by (auto simp: insert_profile_eq wf_defs profile_fk_ok_def split: if_splits)

lemma store_step_wf_lemma: "db_wf d \<Longrightarrow> store_step r op d = Inr d' \<Longrightarrow> db_wf d'"
  by (cases op) (auto intro: insert_user_progress_wf update_user_progress_wf update_profile_wf
                      insert_profile_wf simp: delete_user_progress_noop)

lemma delete_lesson_wf: "db_wf d \<Longrightarrow> db_wf (delete_lesson lid d)"
  by (auto simp: delete_lesson_def wf_defs fk_defs key_defs distinct_map_filter split: option.splits)

lemma delete_auth_user_wf: "db_wf d \<Longrightarrow> db_wf (delete_auth_user uid d)"
  by (auto simp: delete_auth_user_def wf_defs fk_defs key_defs distinct_map_filter split: option.splits)

lemma delete_course_wf: "db_wf d \<Longrightarrow> db_wf (delete_course cid d)"
  by (fastforce simp: delete_course_def Let_def wf_defs fk_defs key_defs distinct_map_filter
                split: option.splits)

subsection \<open>Isolation of accounts\<close>

text \<open>
  C7: no caller reads another account's progress rows or profile: every row a
  \<open>select\<close> returns belongs to the caller, and a caller without a session reads none.
\<close>

theorem select_isolation:
  "(\<forall>p\<in>set (select_user_progress r d). r = Authenticated (up_user_id p)) \<and>
   (\<forall>p\<in>set (select_profiles r d). r = Authenticated (pr_id p))"
  by (simp add: select_user_progress_caller select_profiles_caller)

text \<open>
  C8: a successful write of a signed-in caller leaves every other account's progress rows
  and profile, and the identity, course and lesson tables, exactly as they were.
\<close>

theorem store_step_isolation:
  assumes "store_step (Authenticated u) op d = Inr d'"
  shows "filter (\<lambda>p. up_user_id p \<noteq> u) (t_user_progress d') =
           filter (\<lambda>p. up_user_id p \<noteq> u) (t_user_progress d) \<and>
         filter (\<lambda>p. pr_id p \<noteq> u) (t_profiles d') = filter (\<lambda>p. pr_id p \<noteq> u) (t_profiles d) \<and>
         t_auth_users d' = t_auth_users d \<and> t_courses d' = t_courses d \<and> t_lessons d' = t_lessons d"
  using assms
  by (cases op) (auto simp: insert_user_progress_eq update_user_progress_eq update_profile_eq
                            insert_profile_eq delete_user_progress_noop filter_map_frame
                      split: if_splits)

text \<open>
  C32: what a caller inserts into \<open>user_progress\<close> it reads back: after a successful
  insert, the caller's select returns the rows it returned before followed by one new row
  carrying the id, the keys, the flag and the completion time of the payload, with
  \<open>created_at\<close> and \<open>updated_at\<close> set to the insert's \<open>now()\<close>.
\<close>

theorem insert_select_roundtrip:
  assumes "insert_user_progress (Authenticated u) fresh now ins d = Inr d'"
  shows "\<exists>r. select_user_progress (Authenticated u) d' = select_user_progress (Authenticated u) d @ [r] \<and>
             (up_id r, up_user_id r, up_course_id r, up_lesson_id r, up_completed r, up_completed_at r) =
             (fresh, ins_user_id ins, ins_course_id ins, ins_lesson_id ins, ins_completed ins,
              ins_completed_at ins) \<and>
             up_created_at r = now \<and> up_updated_at r = now"
proof -
  have owner: "ins_user_id ins = u"
    and d': "d' = d\<lparr>t_user_progress := t_user_progress d @ [new_progress_row fresh now ins]\<rparr>"
    using assms by (simp_all add: insert_user_progress_eq split: if_splits)
  have "select_user_progress (Authenticated u) d' =
          select_user_progress (Authenticated u) d @ [new_progress_row fresh now ins]"
    using owner by (simp add: d' select_user_progress_caller)
  moreover have "up_created_at (new_progress_row fresh now ins) = now"
    "up_updated_at (new_progress_row fresh now ins) = now"
    by (simp_all add: new_progress_row_def)
  ultimately show ?thesis by fastforce
qed

end
