(* ===== verification/CourseDetail.thy ===== *)
theory CourseDetail
  imports Progress Store
begin

text \<open>
  The course detail page, \<open>src/src/pages/CourseDetail.tsx\<close>. Its React state (lines
  14-18) is the record \<open>course_detail\<close>. \<open>loadCourseData\<close> (lines 24-46) runs the
  three queries of lines 27-31 against the store and stores their results; the two
  handlers \<open>toggleLessonCompletion\<close> (lines 62-96) and \<open>markCourseCompleted\<close>
  (lines 98-131) compute one store operation from the current state
  (\<open>toggle_op\<close>, \<open>mark_course_op\<close>), run it as the signed-in caller, and on success
  reload; a failed write is logged and swallowed, leaving store and state as they were.
  The signed-in user (\<open>useAuth().user\<close>) is its id or \<open>None\<close>. Both
  \<open>new Date()\<close> calls of one handler read the same instant \<open>now\<close>, and the id
  \<open>gen_random_uuid()\<close> gives a new row is the parameter \<open>fresh\<close>.
\<close>

record course_detail =
  cd_course :: "Course option"
  cd_lessons :: "Lesson list"
  cd_progress :: "UserProgress list"
  cd_loading :: bool
  cd_error :: string

definition course_detail_init :: course_detail where
  "course_detail_init =
     \<lparr>cd_course = None, cd_lessons = [], cd_progress = [], cd_loading = True, cd_error = ''''\<rparr>"

fun role_of :: "uuid option \<Rightarrow> role" where
  "role_of None = Anon"
| "role_of (Some u) = Authenticated u"

subsection \<open>The queries of \<open>loadCourseData\<close>\<close>

text \<open>
  \<open>.eq('id', courseId).maybeSingle()\<close>: no row is \<open>null\<close>, more than one an error.
  \<open>.order('order_number')\<close> sorts ascending; PostgreSQL leaves the order of equal
  keys open, and the stable sort below is one of the orders it may return (the derived
  progress does not depend on it: \<open>calculateProgress_perm\<close>).
\<close>

definition fetch_course :: "role \<Rightarrow> uuid \<Rightarrow> db \<Rightarrow> db_error + Course option" where
  "fetch_course r courseId d =
     (case filter (\<lambda>c. co_id c = courseId) (select_courses r d) of
        [] \<Rightarrow> Inr None
      | [c] \<Rightarrow> Inr (Some c)
      | _ \<Rightarrow> Inl MultipleRows)"

definition fetch_lessons :: "role \<Rightarrow> uuid \<Rightarrow> db \<Rightarrow> db_error + Lesson list" where
  "fetch_lessons r courseId d =
     Inr (sort_key le_order_number (filter (\<lambda>l. le_course_id l = courseId) (select_lessons r d)))"

definition fetch_progress :: "role \<Rightarrow> uuid \<Rightarrow> uuid \<Rightarrow> db \<Rightarrow> db_error + UserProgress list" where
  "fetch_progress r uid courseId d =
     Inr (filter (\<lambda>p. up_user_id p = uid \<and> up_course_id p = courseId) (select_user_progress r d))"

subsection \<open>Loading\<close>

text \<open>
  The results as the \<open>try\<close> block uses them: an error of the course or lessons query
  throws; an error of the progress query is never looked at, and
  \<open>progressResult.data || []\<close> is then the empty list.
\<close>

definition apply_course_data ::
  "db_error + Course option \<Rightarrow> db_error + Lesson list \<Rightarrow> db_error + UserProgress list \<Rightarrow>
   course_detail \<Rightarrow> course_detail" where
  "apply_course_data courseResult lessonsResult progressResult st =
     (case courseResult of
        Inl _ \<Rightarrow> st\<lparr>cd_error := ''Failed to load course details'', cd_loading := False\<rparr>
      | Inr c \<Rightarrow>
          (case lessonsResult of
             Inl _ \<Rightarrow> st\<lparr>cd_error := ''Failed to load course details'', cd_loading := False\<rparr>
           | Inr ls \<Rightarrow>
               st\<lparr>cd_course := c, cd_lessons := ls,
                  cd_progress := (case progressResult of Inl _ \<Rightarrow> [] | Inr ps \<Rightarrow> ps),
                  cd_loading := False\<rparr>))"

definition loadCourseData :: "uuid option \<Rightarrow> uuid \<Rightarrow> db \<Rightarrow> course_detail \<Rightarrow> course_detail" where
  "loadCourseData user courseId d st =
     apply_course_data (fetch_course (role_of user) courseId d)
       (fetch_lessons (role_of user) courseId d)
       (case user of None \<Rightarrow> Inr [] | Some u \<Rightarrow> fetch_progress (role_of user) u courseId d) st"

subsection \<open>Writes\<close>

definition toggle_op ::
  "uuid \<Rightarrow> uuid \<Rightarrow> uuid \<Rightarrow> timestamp \<Rightarrow> uuid \<Rightarrow> UserProgress list \<Rightarrow> store_op" where
  "toggle_op u courseId lessonId now fresh progress =
     (let isCompleted = isLessonCompleted progress lessonId in
      case find (\<lambda>p. up_lesson_id p = Some lessonId) progress of
        Some existingProgress \<Rightarrow>
          UpdateProgress (up_id existingProgress)
            \<lparr>pa_completed = \<not> isCompleted,
             pa_completed_at = (if \<not> isCompleted then Some now else None), pa_updated_at = now\<rparr>
      | None \<Rightarrow>
          InsertProgress fresh now
            \<lparr>ins_user_id = u, ins_course_id = courseId, ins_lesson_id = Some lessonId,
             ins_completed = True, ins_completed_at = Some now\<rparr>)"

definition mark_course_op ::
  "uuid \<Rightarrow> uuid \<Rightarrow> timestamp \<Rightarrow> uuid \<Rightarrow> UserProgress list \<Rightarrow> store_op" where
  "mark_course_op u courseId now fresh progress =
     (case find (\<lambda>p. up_lesson_id p = None) progress of
        Some courseProgress \<Rightarrow>
          UpdateProgress (up_id courseProgress)
            \<lparr>pa_completed = True, pa_completed_at = Some now, pa_updated_at = now\<rparr>
      | None \<Rightarrow>
          InsertProgress fresh now
            \<lparr>ins_user_id = u, ins_course_id = courseId, ins_lesson_id = None,
             ins_completed = True, ins_completed_at = Some now\<rparr>)"

text \<open>The \<open>try\<close>/\<open>catch\<close> around a write: reload on success, swallow a failure.\<close>

definition after_write ::
  "uuid option \<Rightarrow> uuid \<Rightarrow> db_error + db \<Rightarrow> db \<Rightarrow> course_detail \<Rightarrow> db \<times> course_detail" where
  "after_write user courseId res d st =
     (case res of Inl _ \<Rightarrow> (d, st) | Inr d' \<Rightarrow> (d', loadCourseData user courseId d' st))"

definition toggleLessonCompletion ::
  "uuid option \<Rightarrow> uuid \<Rightarrow> uuid \<Rightarrow> timestamp \<Rightarrow> uuid \<Rightarrow> course_detail \<Rightarrow> db \<Rightarrow>
   db \<times> course_detail" where
  "toggleLessonCompletion user courseId lessonId now fresh st d =
     (case user of
        None \<Rightarrow> (d, st)
      | Some u \<Rightarrow>
          after_write user courseId
            (store_step (Authenticated u) (toggle_op u courseId lessonId now fresh (cd_progress st)) d)
            d st)"

definition markCourseCompleted ::
  "uuid option \<Rightarrow> uuid \<Rightarrow> timestamp \<Rightarrow> uuid \<Rightarrow> course_detail \<Rightarrow> db \<Rightarrow> db \<times> course_detail" where
  "markCourseCompleted user courseId now fresh st d =
     (case user of
        None \<Rightarrow> (d, st)
      | Some u \<Rightarrow>
          after_write user courseId
            (store_step (Authenticated u) (mark_course_op u courseId now fresh (cd_progress st)) d)
            d st)"

text \<open>The button of lines 262-264 is disabled once the course shows as completed.\<close>

definition markCourseButton ::
  "uuid option \<Rightarrow> uuid \<Rightarrow> timestamp \<Rightarrow> uuid \<Rightarrow> course_detail \<Rightarrow> db \<Rightarrow> db \<times> course_detail" where
  "markCourseButton user courseId now fresh st d =
     (if isCourseCompleted (cd_progress st) then (d, st)
      else markCourseCompleted user courseId now fresh st d)"

subsection \<open>What the page shows\<close>

datatype cd_view =
    CDLoading
  | CDError string
  | CDShow Course int bool

definition course_detail_view :: "course_detail \<Rightarrow> cd_view" where
  "course_detail_view st =
     (if cd_loading st then CDLoading
      else case cd_course st of
        None \<Rightarrow> CDError (if cd_error st = '''' then ''Course not found'' else cd_error st)
      | Some c \<Rightarrow>
          if cd_error st \<noteq> '''' then CDError (cd_error st)
          else CDShow c (calculateProgress (cd_lessons st) (cd_progress st))
                 (isCourseCompleted (cd_progress st)))"

subsection \<open>The caller's rows and the uniqueness convention\<close>

text \<open>
  The rows the progress query returns to a signed-in user, and the convention of spec
  section 3 that no two rows share (account, course, lesson-or-null); the schema does
  not enforce it.
\<close>

definition own_progress :: "uuid \<Rightarrow> uuid \<Rightarrow> db \<Rightarrow> UserProgress list" where
  "own_progress u courseId d =
     filter (\<lambda>p. up_user_id p = u \<and> up_course_id p = courseId) (t_user_progress d)"

definition progress_key :: "UserProgress \<Rightarrow> uuid \<times> uuid \<times> uuid option" where
  "progress_key p = (up_user_id p, up_course_id p, up_lesson_id p)"

definition progress_unique :: "db \<Rightarrow> bool" where
  "progress_unique d \<longleftrightarrow> distinct (map progress_key (t_user_progress d))"

text \<open>
  Both handlers do the same thing for a key: the lesson id, or \<open>null\<close> for the
  course. They look up the caller's row with that key in the page state, update it to a
  new flag (with the timestamp \<open>now\<close> when the flag is set, \<open>null\<close> when it is
  cleared), or insert a row with the key and the flag. \<open>key_op\<close> is that operation;
  \<open>toggle_op_key\<close> and \<open>mark_course_op_key\<close> below show the two handlers are
  its instances. \<open>key_post\<close> is what the handler leaves: the store still well-formed
  and unique, only \<open>user_progress\<close> changed and by at most the new id, the page showing
  the store's rows, exactly one row with the key, carrying the new flag and timestamp, and
  every other row of the page as it was.
\<close>

definition key_op ::
  "uuid \<Rightarrow> uuid \<Rightarrow> uuid option \<Rightarrow> timestamp \<Rightarrow> uuid \<Rightarrow> bool \<Rightarrow> UserProgress list \<Rightarrow> store_op" where
  "key_op u courseId k now fresh b progress =
     (case find (\<lambda>p. up_lesson_id p = k) progress of
        Some p \<Rightarrow>
          UpdateProgress (up_id p)
            \<lparr>pa_completed = b, pa_completed_at = (if b then Some now else None), pa_updated_at = now\<rparr>
      | None \<Rightarrow>
          InsertProgress fresh now
            \<lparr>ins_user_id = u, ins_course_id = courseId, ins_lesson_id = k,
             ins_completed = b, ins_completed_at = (if b then Some now else None)\<rparr>)"

definition key_refs_ok :: "uuid \<Rightarrow> uuid \<Rightarrow> uuid option \<Rightarrow> db \<Rightarrow> bool" where
  "key_refs_ok u courseId k d \<longleftrightarrow>
     u \<in> set (user_ids d) \<and> courseId \<in> set (course_ids d) \<and>
     (case k of None \<Rightarrow> True | Some l \<Rightarrow> l \<in> set (lesson_ids d))"

definition key_post ::
  "uuid \<Rightarrow> uuid \<Rightarrow> uuid option \<Rightarrow> timestamp \<Rightarrow> uuid \<Rightarrow> bool \<Rightarrow> db \<Rightarrow> course_detail \<Rightarrow>
   db \<Rightarrow> course_detail \<Rightarrow> bool" where
  "key_post u courseId k now fresh b d st d' st' \<longleftrightarrow>
     db_wf d' \<and> progress_unique d' \<and> cd_progress st' = own_progress u courseId d' \<and>
     d' = d\<lparr>t_user_progress := t_user_progress d'\<rparr> \<and>
     set (map up_id (t_user_progress d')) \<subseteq> insert fresh (set (map up_id (t_user_progress d))) \<and>
     (\<exists>q\<in>set (cd_progress st'). up_lesson_id q = k) \<and>
     (\<forall>q\<in>set (cd_progress st'). up_lesson_id q = k \<longrightarrow>
        up_completed q = b \<and> up_completed_at q = (if b then Some now else None) \<and>
        (\<forall>q'\<in>set (cd_progress st'). up_lesson_id q' = k \<longrightarrow> q' = q)) \<and>
     filter (\<lambda>q. up_lesson_id q \<noteq> k) (cd_progress st') =
       filter (\<lambda>q. up_lesson_id q \<noteq> k) (cd_progress st)"

declare loadCourseData_def [client_defs] toggleLessonCompletion_def [client_defs]
  markCourseCompleted_def [client_defs] after_write_def [client_defs]

subsection \<open>Loading\<close>

lemma fetch_progress_own: "fetch_progress (Authenticated u) u courseId d = Inr (own_progress u courseId d)"
  by (auto simp: fetch_progress_def own_progress_def select_user_progress_caller intro: filter_cong)

lemma fetch_course_ok:
  assumes "db_wf d"
  shows "\<exists>c. fetch_course r courseId d = Inr c"
proof -
  have "distinct (map co_id (select_courses r d))"
    using assms by (simp add: select_courses_def db_wf_def pk_ok_def course_ids_def distinct_map_filter)
  then have "length (filter (\<lambda>c. co_id c = courseId) (select_courses r d)) \<le> 1"
    by (rule distinct_map_key_le1)
  then show ?thesis
    by (auto simp: fetch_course_def split: list.split)
qed

lemma loadCourseData_progress:
  assumes "db_wf d"
  shows "cd_progress (loadCourseData (Some u) courseId d st) = own_progress u courseId d"
proof -
  obtain c where "fetch_course (Authenticated u) courseId d = Inr c"
    using fetch_course_ok [OF assms] by blast
  then show ?thesis
    by (simp add: loadCourseData_def apply_course_data_def fetch_lessons_def fetch_progress_own)
qed

subsection \<open>Rows a write leaves in the caller's view\<close>

lemma own_progress_append:
  "own_progress u courseId (d\<lparr>t_user_progress := t_user_progress d @ [r]\<rparr>) =
     own_progress u courseId d @ (if up_user_id r = u \<and> up_course_id r = courseId then [r] else [])"
  by (simp add: own_progress_def)

lemma own_progress_map:
  assumes "\<And>p. up_user_id (g p) = up_user_id p" and "\<And>p. up_course_id (g p) = up_course_id p"
  shows "own_progress u courseId (d\<lparr>t_user_progress := map g (t_user_progress d)\<rparr>) =
           map g (own_progress u courseId d)"
  using assms by (simp add: own_progress_def filter_map o_def)

lemma own_progress_subset: "set (own_progress u courseId d) \<subseteq> set (t_user_progress d)"
  by (auto simp: own_progress_def)

lemma own_progress_row: "p \<in> set (own_progress u courseId d) \<Longrightarrow> up_user_id p = u \<and> up_course_id p = courseId"
  by (simp add: own_progress_def)

text \<open>Under the convention, one of the caller's rows per lesson of the course.\<close>

lemma own_progress_lesson_unique:
  assumes "progress_unique d"
    and "p \<in> set (own_progress u courseId d)" and "q \<in> set (own_progress u courseId d)"
    and "up_lesson_id p = up_lesson_id q"
  shows "p = q"
proof (rule distinct_map_eqD [of progress_key "t_user_progress d"])
  show "distinct (map progress_key (t_user_progress d))"
    using assms(1) by (simp add: progress_unique_def)
  show "p \<in> set (t_user_progress d)" "q \<in> set (t_user_progress d)"
    using assms(2,3) own_progress_subset by blast+
  show "progress_key p = progress_key q"
    using own_progress_row [OF assms(2)] own_progress_row [OF assms(3)] assms(4)
    by (simp add: progress_key_def)
qed

lemma own_progress_key_single:
  assumes "progress_unique d" and "p \<in> set (own_progress u courseId d)" and "up_lesson_id p = k"
  shows "\<forall>q\<in>set (own_progress u courseId d). up_lesson_id q = k \<longrightarrow> q = p"
proof (intro ballI impI)
  fix q
  assume "q \<in> set (own_progress u courseId d)" and "up_lesson_id q = k"
  then show "q = p"
    using own_progress_lesson_unique [OF assms(1,2), of q] assms(3) by simp
qed

lemma isLessonCompleted_none:
  "find (\<lambda>p. up_lesson_id p = Some lid) xs = None \<Longrightarrow> \<not> isLessonCompleted xs lid"
  by (auto simp: isLessonCompleted_def list_ex_iff find_None_iff)

lemma progress_key_patched [simp]:
  "progress_key (if b then apply_patch pa q else q) = progress_key q"
  by (simp add: progress_key_def)

lemma key_row_facts:
  assumes "r \<in> set xs" and "up_lesson_id r = k"
    and "\<forall>q\<in>set xs. up_lesson_id q = k \<longrightarrow> q = r"
    and "up_completed r = b" and "up_completed_at r = t"
  shows "(\<exists>q\<in>set xs. up_lesson_id q = k) \<and>
         (\<forall>q\<in>set xs. up_lesson_id q = k \<longrightarrow>
            up_completed q = b \<and> up_completed_at q = t \<and>
            (\<forall>q'\<in>set xs. up_lesson_id q' = k \<longrightarrow> q' = q))"
  using assms by blast

subsection \<open>The two branches of a keyed write\<close>

lemma key_insert_branch:
  assumes find: "find (\<lambda>p. up_lesson_id p = k) (cd_progress st) = None"
    and fresh: "fresh \<notin> set (map up_id (t_user_progress d))"
    and refs: "key_refs_ok u courseId k d"
  shows "after_write (Some u) courseId
           (store_step (Authenticated u) (key_op u courseId k now fresh b (cd_progress st)) d) d st =
         (let d' = d\<lparr>t_user_progress := t_user_progress d @
                     [new_progress_row fresh now
                        \<lparr>ins_user_id = u, ins_course_id = courseId, ins_lesson_id = k,
                         ins_completed = b, ins_completed_at = (if b then Some now else None)\<rparr>]\<rparr>
          in (d', loadCourseData (Some u) courseId d' st))"
  using assms
  by (simp add: key_op_def after_write_def insert_user_progress_eq progress_fk_ok_def
                key_refs_ok_def Let_def split: option.split)

lemma key_update_branch:
  assumes find: "find (\<lambda>p. up_lesson_id p = k) (cd_progress st) = Some p"
  shows "after_write (Some u) courseId
           (store_step (Authenticated u) (key_op u courseId k now fresh b (cd_progress st)) d) d st =
         (let pa = \<lparr>pa_completed = b, pa_completed_at = (if b then Some now else None),
                    pa_updated_at = now\<rparr>;
              d' = d\<lparr>t_user_progress :=
                     map (\<lambda>q. if up_id q = up_id p \<and> u = up_user_id q then apply_patch pa q else q)
                       (t_user_progress d)\<rparr>
          in (d', loadCourseData (Some u) courseId d' st))"
  using assms by (simp add: key_op_def after_write_def update_user_progress_eq Let_def)

lemma key_post_insert:
  assumes wf: "db_wf d" and uniq: "progress_unique d"
    and sync: "cd_progress st = own_progress u courseId d"
    and refs: "key_refs_ok u courseId k d"
    and fresh: "fresh \<notin> set (map up_id (t_user_progress d))"
    and find: "find (\<lambda>p. up_lesson_id p = k) (cd_progress st) = None"
    and run: "after_write (Some u) courseId
                (store_step (Authenticated u) (key_op u courseId k now fresh b (cd_progress st)) d)
                d st = (d', st')"
  shows "key_post u courseId k now fresh b d st d' st'"
proof -
  let ?ins = "\<lparr>ins_user_id = u, ins_course_id = courseId, ins_lesson_id = k,
               ins_completed = b, ins_completed_at = (if b then Some now else None)\<rparr>"
  let ?r = "new_progress_row fresh now ?ins"
  have d': "d' = d\<lparr>t_user_progress := t_user_progress d @ [?r]\<rparr>"
    and st': "st' = loadCourseData (Some u) courseId d' st"
    using key_insert_branch [OF find fresh refs, of now b] run by (simp_all add: Let_def)
  have "insert_user_progress (Authenticated u) fresh now ?ins d = Inr d'"
    using fresh refs d' by (simp add: insert_user_progress_eq progress_fk_ok_def key_refs_ok_def)
  then have wf': "db_wf d'"
    by (rule insert_user_progress_wf [OF wf])
  have none: "\<forall>q\<in>set (own_progress u courseId d). up_lesson_id q \<noteq> k"
    using find sync by (simp add: find_None_iff)
  then have "progress_key ?r \<notin> set (map progress_key (t_user_progress d))"
    by (auto simp: progress_key_def own_progress_def)
  then have uniq': "progress_unique d'"
    using uniq d' by (simp add: progress_unique_def)
  have sync': "cd_progress st' = own_progress u courseId d'"
    using loadCourseData_progress [OF wf'] st' by simp
  have cd': "cd_progress st' = own_progress u courseId d @ [?r]"
    using sync' d' by (simp add: own_progress_append)
  have single: "\<forall>q\<in>set (own_progress u courseId d @ [?r]). up_lesson_id q = k \<longrightarrow> q = ?r"
    using none by auto
  have rows: "(\<exists>q\<in>set (cd_progress st'). up_lesson_id q = k) \<and>
      (\<forall>q\<in>set (cd_progress st'). up_lesson_id q = k \<longrightarrow>
         up_completed q = b \<and> up_completed_at q = (if b then Some now else None) \<and>
         (\<forall>q'\<in>set (cd_progress st'). up_lesson_id q' = k \<longrightarrow> q' = q))"
    unfolding cd' by (rule key_row_facts [OF _ _ single]) simp_all
  have others: "filter (\<lambda>q. up_lesson_id q \<noteq> k) (cd_progress st') =
                filter (\<lambda>q. up_lesson_id q \<noteq> k) (cd_progress st)"
    using cd' sync by simp
  have frame: "d' = d\<lparr>t_user_progress := t_user_progress d'\<rparr>"
    and ids: "set (map up_id (t_user_progress d')) \<subseteq> insert fresh (set (map up_id (t_user_progress d)))"
    using d' by auto
  show ?thesis
    unfolding key_post_def using wf' uniq' sync' frame ids rows others by blast
qed

lemma key_post_update:
  assumes wf: "db_wf d" and uniq: "progress_unique d"
    and sync: "cd_progress st = own_progress u courseId d"
    and find: "find (\<lambda>p. up_lesson_id p = k) (cd_progress st) = Some p"
    and run: "after_write (Some u) courseId
                (store_step (Authenticated u) (key_op u courseId k now fresh b (cd_progress st)) d)
                d st = (d', st')"
  shows "key_post u courseId k now fresh b d st d' st'"
proof -
  let ?pa = "\<lparr>pa_completed = b, pa_completed_at = (if b then Some now else None), pa_updated_at = now\<rparr>"
  let ?g = "\<lambda>q. if up_id q = up_id p \<and> u = up_user_id q then apply_patch ?pa q else q"
  let ?own = "own_progress u courseId d"
  have d': "d' = d\<lparr>t_user_progress := map ?g (t_user_progress d)\<rparr>"
    and st': "st' = loadCourseData (Some u) courseId d' st"
    using key_update_branch [OF find, of u courseId now fresh b d] run by (simp_all add: Let_def)
  have "update_user_progress (Authenticated u) (up_id p) ?pa d = Inr d'"
    using d' by (simp add: update_user_progress_eq)
  then have wf': "db_wf d'"
    by (rule update_user_progress_wf [OF wf])
  have uniq': "progress_unique d'"
    using uniq d' by (simp add: progress_unique_def o_def)
  have p: "p \<in> set ?own" "up_lesson_id p = k"
    using find sync by auto
  have pu: "up_user_id p = u"
    using own_progress_row [OF p(1)] by simp
  have single: "\<forall>q\<in>set ?own. up_lesson_id q = k \<longrightarrow> q = p"
    by (rule own_progress_key_single [OF uniq p])
  have sync': "cd_progress st' = own_progress u courseId d'"
    using loadCourseData_progress [OF wf'] st' by simp
  have cd': "cd_progress st' = map ?g ?own"
    using sync' d' by (simp add: own_progress_map)
  have all: "\<forall>q\<in>set (map ?g ?own). up_lesson_id q = k \<longrightarrow> q = ?g p"
  proof (intro ballI impI)
    fix q
    assume "q \<in> set (map ?g ?own)" and q: "up_lesson_id q = k"
    then obtain q0 where q0: "q0 \<in> set ?own" "q = ?g q0"
      by auto
    with q have "up_lesson_id q0 = k"
      by simp
    with single q0 have "q0 = p"
      by blast
    with q0 show "q = ?g p"
      by simp
  qed
  have rp: "?g p \<in> set (map ?g ?own)" "up_lesson_id (?g p) = k"
    using imageI [OF p(1), of ?g] p(2) by simp_all
  have comp: "up_completed (?g p) = b" "up_completed_at (?g p) = (if b then Some now else None)"
    using pu by (simp_all add: apply_patch_def)
  have rows: "(\<exists>q\<in>set (cd_progress st'). up_lesson_id q = k) \<and>
      (\<forall>q\<in>set (cd_progress st'). up_lesson_id q = k \<longrightarrow>
         up_completed q = b \<and> up_completed_at q = (if b then Some now else None) \<and>
         (\<forall>q'\<in>set (cd_progress st'). up_lesson_id q' = k \<longrightarrow> q' = q))"
    unfolding cd' by (rule key_row_facts [OF rp all comp])
  have ids_distinct: "distinct (map up_id (t_user_progress d))"
    using wf by (simp add: db_wf_def pk_ok_def)
  have "\<forall>x\<in>set ?own. (up_lesson_id (?g x) \<noteq> k) = (up_lesson_id x \<noteq> k) \<and>
                       (up_lesson_id x \<noteq> k \<longrightarrow> ?g x = x)"
  proof (intro ballI conjI impI)
    fix x
    assume x: "x \<in> set ?own"
    show "(up_lesson_id (?g x) \<noteq> k) = (up_lesson_id x \<noteq> k)"
      by simp
    assume "up_lesson_id x \<noteq> k"
    moreover have "up_id x = up_id p \<Longrightarrow> x = p"
      using distinct_map_eqD [OF ids_distinct] x p(1) own_progress_subset by blast
    ultimately show "?g x = x"
      using p(2) by auto
  qed
  then have others: "filter (\<lambda>q. up_lesson_id q \<noteq> k) (cd_progress st') =
                     filter (\<lambda>q. up_lesson_id q \<noteq> k) (cd_progress st)"
    using cd' sync by (simp add: filter_map_frame)
  have frame: "d' = d\<lparr>t_user_progress := t_user_progress d'\<rparr>"
    and ids: "set (map up_id (t_user_progress d')) \<subseteq> insert fresh (set (map up_id (t_user_progress d)))"
    using d' by (auto simp: o_def)
  show ?thesis
    unfolding key_post_def using wf' uniq' sync' frame ids rows others by blast
qed

lemma key_post_holds:
  assumes "db_wf d" and "progress_unique d"
    and "cd_progress st = own_progress u courseId d"
    and "key_refs_ok u courseId k d"
    and "fresh \<notin> set (map up_id (t_user_progress d))"
    and "after_write (Some u) courseId
           (store_step (Authenticated u) (key_op u courseId k now fresh b (cd_progress st)) d)
           d st = (d', st')"
  shows "key_post u courseId k now fresh b d st d' st'"
proof (cases "find (\<lambda>p. up_lesson_id p = k) (cd_progress st)")
  case None
  show ?thesis by (rule key_post_insert [OF assms(1-5) None assms(6)])
next
  case (Some p)
  from assms(1-3) Some assms(6) show ?thesis by (rule key_post_update)
qed

subsection \<open>The handlers as keyed writes\<close>

lemma toggle_op_key:
  "toggle_op u courseId lid now fresh progress =
     key_op u courseId (Some lid) now fresh (\<not> isLessonCompleted progress lid) progress"
  by (cases "find (\<lambda>p. up_lesson_id p = Some lid) progress")
     (simp_all add: toggle_op_def key_op_def Let_def isLessonCompleted_none)

lemma mark_course_op_key:
  "mark_course_op u courseId now fresh progress = key_op u courseId None now fresh True progress"
  by (simp add: mark_course_op_def key_op_def split: option.split)

lemma toggle_is_key_write:
  "toggleLessonCompletion (Some u) courseId lid now fresh st d =
     after_write (Some u) courseId
       (store_step (Authenticated u)
          (key_op u courseId (Some lid) now fresh (\<not> isLessonCompleted (cd_progress st) lid)
             (cd_progress st)) d) d st"
  by (simp add: toggleLessonCompletion_def toggle_op_key)

lemma mark_is_key_write:
  "markCourseCompleted (Some u) courseId now fresh st d =
     after_write (Some u) courseId
       (store_step (Authenticated u) (key_op u courseId None now fresh True (cd_progress st)) d) d st"
  by (simp add: markCourseCompleted_def mark_course_op_key)

subsection \<open>Reading the flags after a keyed write\<close>

lemma key_post_lesson_flag:
  "key_post u courseId (Some lid) now fresh b d st d' st' \<Longrightarrow>
     isLessonCompleted (cd_progress st') lid = b"
  unfolding key_post_def isLessonCompleted_def list_ex_iff by blast

lemma key_post_course_flag:
  "key_post u courseId None now fresh b d st d' st' \<Longrightarrow> isCourseCompleted (cd_progress st') = b"
  unfolding key_post_def isCourseCompleted_def list_ex_iff by blast

lemma isCourseCompleted_other_rows:
  "isCourseCompleted xs = isCourseCompleted (filter (\<lambda>q. up_lesson_id q \<noteq> Some lid) xs)"
  by (auto simp: isCourseCompleted_def list_ex_iff)

lemma isLessonCompleted_other_rows:
  "k \<noteq> Some l \<Longrightarrow> isLessonCompleted xs l = isLessonCompleted (filter (\<lambda>q. up_lesson_id q \<noteq> k) xs) l"
  by (auto simp: isLessonCompleted_def list_ex_iff)

lemma key_post_frame:
  assumes "key_post u courseId k now fresh b d st d' st'"
  shows "user_ids d' = user_ids d" "course_ids d' = course_ids d" "lesson_ids d' = lesson_ids d"
proof -
  have eq: "d' = d\<lparr>t_user_progress := t_user_progress d'\<rparr>"
    using assms by (simp add: key_post_def)
  show "user_ids d' = user_ids d"
    using eq by (metis ids_progress_update(1))
  show "course_ids d' = course_ids d"
    using eq by (metis ids_progress_update(2))
  show "lesson_ids d' = lesson_ids d"
    using eq by (metis ids_progress_update(3))
qed

lemma key_post_fresh:
  assumes "key_post u courseId k now fresh b d st d' st'"
    and "fresh' \<noteq> fresh" and "fresh' \<notin> set (map up_id (t_user_progress d))"
  shows "fresh' \<notin> set (map up_id (t_user_progress d'))"
  using assms unfolding key_post_def by blast

lemma key_refs_ok_post:
  "key_post u courseId k now fresh b d st d' st' \<Longrightarrow> key_refs_ok u courseId k' d' = key_refs_ok u courseId k' d"
  by (simp add: key_refs_ok_def key_post_frame split: option.split)

subsection \<open>Properties of the handlers\<close>

text \<open>
  C1: for a signed-in caller whose page shows the store's rows, with no two rows sharing
  (account, course, lesson), \<open>toggleLessonCompletion\<close> negates the lesson's completed
  flag as the reloaded page shows it; the lesson's row carries the completion time
  \<open>now\<close> when the flag is set and \<open>null\<close> when it is cleared; the store stays
  well-formed and free of duplicate keys.
\<close>

theorem toggleLessonCompletion_flips:
  assumes "db_wf d" and "progress_unique d"
    and "cd_progress st = own_progress u courseId d"
    and "key_refs_ok u courseId (Some lid) d"
    and "fresh \<notin> set (map up_id (t_user_progress d))"
    and "toggleLessonCompletion (Some u) courseId lid now fresh st d = (d', st')"
  shows "isLessonCompleted (cd_progress st') lid = (\<not> isLessonCompleted (cd_progress st) lid) \<and>
         (\<forall>q\<in>set (cd_progress st'). up_lesson_id q = Some lid \<longrightarrow>
            up_completed_at q =
              (if \<not> isLessonCompleted (cd_progress st) lid then Some now else None)) \<and>
         db_wf d' \<and> progress_unique d'"
proof -
  have post: "key_post u courseId (Some lid) now fresh (\<not> isLessonCompleted (cd_progress st) lid)
                d st d' st'"
    using key_post_holds [OF assms(1-5)] assms(6) by (simp add: toggle_is_key_write)
  have rows: "\<forall>q\<in>set (cd_progress st'). up_lesson_id q = Some lid \<longrightarrow>
      up_completed_at q = (if \<not> isLessonCompleted (cd_progress st) lid then Some now else None)"
    and inv: "db_wf d'" "progress_unique d'"
    using post unfolding key_post_def by blast+
  show ?thesis
    using key_post_lesson_flag [OF post] rows inv by blast
qed

text \<open>
  C2: toggling a lesson twice gives the lesson-completed flag its original value; when
  the lesson was not completed before, its row again has no completion time.
\<close>

theorem toggleLessonCompletion_twice:
  assumes "db_wf d" and "progress_unique d"
    and "cd_progress st = own_progress u courseId d"
    and "key_refs_ok u courseId (Some lid) d"
    and "fresh1 \<notin> set (map up_id (t_user_progress d))"
    and "fresh2 \<notin> set (map up_id (t_user_progress d))" and "fresh2 \<noteq> fresh1"
    and "toggleLessonCompletion (Some u) courseId lid now1 fresh1 st d = (d1, st1)"
    and "toggleLessonCompletion (Some u) courseId lid now2 fresh2 st1 d1 = (d2, st2)"
  shows "isLessonCompleted (cd_progress st2) lid = isLessonCompleted (cd_progress st) lid \<and>
         (\<not> isLessonCompleted (cd_progress st) lid \<longrightarrow>
            (\<forall>q\<in>set (cd_progress st2). up_lesson_id q = Some lid \<longrightarrow> up_completed_at q = None))"
proof -
  let ?c = "isLessonCompleted (cd_progress st) lid"
  have post1: "key_post u courseId (Some lid) now1 fresh1 (\<not> ?c) d st d1 st1"
    using key_post_holds [OF assms(1-5)] assms(8) by (simp add: toggle_is_key_write)
  have c1: "isLessonCompleted (cd_progress st1) lid = (\<not> ?c)"
    by (rule key_post_lesson_flag [OF post1])
  have pre: "db_wf d1" "progress_unique d1" "cd_progress st1 = own_progress u courseId d1"
    using post1 unfolding key_post_def by blast+
  have refs1: "key_refs_ok u courseId (Some lid) d1"
    using assms(4) key_refs_ok_post [OF post1] by simp
  have fresh1: "fresh2 \<notin> set (map up_id (t_user_progress d1))"
    by (rule key_post_fresh [OF post1 assms(7,6)])
  have post2: "key_post u courseId (Some lid) now2 fresh2 ?c d1 st1 d2 st2"
    using key_post_holds [OF pre refs1 fresh1] assms(9) c1 by (simp add: toggle_is_key_write)
  have rows: "\<forall>q\<in>set (cd_progress st2). up_lesson_id q = Some lid \<longrightarrow>
      up_completed_at q = (if ?c then Some now2 else None)"
    using post2 unfolding key_post_def by blast
  show ?thesis
    using key_post_lesson_flag [OF post2] rows by simp
qed

text \<open>
  C3: marking a course completed twice is idempotent: after each call the course shows as
  completed, its single course-level row carries the time of that call (so the second
  time is the later one whenever the clock advanced), and no duplicate row is created.
\<close>

theorem markCourseCompleted_twice:
  assumes "db_wf d" and "progress_unique d"
    and "cd_progress st = own_progress u courseId d"
    and "key_refs_ok u courseId None d"
    and "fresh1 \<notin> set (map up_id (t_user_progress d))"
    and "fresh2 \<notin> set (map up_id (t_user_progress d))" and "fresh2 \<noteq> fresh1"
    and "markCourseCompleted (Some u) courseId now1 fresh1 st d = (d1, st1)"
    and "markCourseCompleted (Some u) courseId now2 fresh2 st1 d1 = (d2, st2)"
  shows "isCourseCompleted (cd_progress st1) \<and> isCourseCompleted (cd_progress st2) \<and>
         (\<forall>q\<in>set (cd_progress st1). up_lesson_id q = None \<longrightarrow> up_completed_at q = Some now1) \<and>
         (\<forall>q\<in>set (cd_progress st2). up_lesson_id q = None \<longrightarrow> up_completed_at q = Some now2) \<and>
         progress_unique d2"
proof -
  have post1: "key_post u courseId None now1 fresh1 True d st d1 st1"
    using key_post_holds [OF assms(1-5)] assms(8) by (simp add: mark_is_key_write)
  have pre: "db_wf d1" "progress_unique d1" "cd_progress st1 = own_progress u courseId d1"
    using post1 unfolding key_post_def by blast+
  have refs1: "key_refs_ok u courseId None d1"
    using assms(4) key_refs_ok_post [OF post1] by simp
  have fresh1: "fresh2 \<notin> set (map up_id (t_user_progress d1))"
    by (rule key_post_fresh [OF post1 assms(7,6)])
  have post2: "key_post u courseId None now2 fresh2 True d1 st1 d2 st2"
    using key_post_holds [OF pre refs1 fresh1] assms(9) by (simp add: mark_is_key_write)
  have rows1: "\<forall>q\<in>set (cd_progress st1). up_lesson_id q = None \<longrightarrow> up_completed_at q = Some now1"
    using post1 unfolding key_post_def by simp
  have rows2: "\<forall>q\<in>set (cd_progress st2). up_lesson_id q = None \<longrightarrow> up_completed_at q = Some now2"
    and uniq2: "progress_unique d2"
    using post2 unfolding key_post_def by simp_all
  show ?thesis
    using key_post_course_flag [OF post1] key_post_course_flag [OF post2] rows1 rows2 uniq2 by simp
qed

text \<open>
  C4: toggling a lesson changes no other completion signal: the course-completed flag
  and the flag of every other lesson read as before.
\<close>

theorem toggleLessonCompletion_frame:
  assumes "db_wf d" and "progress_unique d"
    and "cd_progress st = own_progress u courseId d"
    and "key_refs_ok u courseId (Some lid) d"
    and "fresh \<notin> set (map up_id (t_user_progress d))"
    and "toggleLessonCompletion (Some u) courseId lid now fresh st d = (d', st')"
  shows "isCourseCompleted (cd_progress st') = isCourseCompleted (cd_progress st) \<and>
         (\<forall>l. l \<noteq> lid \<longrightarrow> isLessonCompleted (cd_progress st') l = isLessonCompleted (cd_progress st) l)"
proof -
  have post: "key_post u courseId (Some lid) now fresh (\<not> isLessonCompleted (cd_progress st) lid)
                d st d' st'"
    using key_post_holds [OF assms(1-5)] assms(6) by (simp add: toggle_is_key_write)
  then have others: "filter (\<lambda>q. up_lesson_id q \<noteq> Some lid) (cd_progress st') =
                     filter (\<lambda>q. up_lesson_id q \<noteq> Some lid) (cd_progress st)"
    unfolding key_post_def by blast
  have "isCourseCompleted (cd_progress st') = isCourseCompleted (cd_progress st)"
    using isCourseCompleted_other_rows [of "cd_progress st'" lid]
      isCourseCompleted_other_rows [of "cd_progress st" lid] others by simp
  moreover have "isLessonCompleted (cd_progress st') l = isLessonCompleted (cd_progress st) l"
    if "l \<noteq> lid" for l
    using isLessonCompleted_other_rows [of "Some lid" l "cd_progress st'"]
      isLessonCompleted_other_rows [of "Some lid" l "cd_progress st"] others that by simp
  ultimately show ?thesis by blast
qed

text \<open>
  C5: marking the course completed changes no lesson's completed flag; the course and
  lesson signals are independent once set.
\<close>

theorem markCourseCompleted_frame:
  assumes "db_wf d" and "progress_unique d"
    and "cd_progress st = own_progress u courseId d"
    and "key_refs_ok u courseId None d"
    and "fresh \<notin> set (map up_id (t_user_progress d))"
    and "markCourseCompleted (Some u) courseId now fresh st d = (d', st')"
  shows "isCourseCompleted (cd_progress st') \<and>
         (\<forall>l. isLessonCompleted (cd_progress st') l = isLessonCompleted (cd_progress st) l)"
proof -
  have post: "key_post u courseId None now fresh True d st d' st'"
    using key_post_holds [OF assms(1-5)] assms(6) by (simp add: mark_is_key_write)
  then have others: "filter (\<lambda>q. up_lesson_id q \<noteq> None) (cd_progress st') =
                     filter (\<lambda>q. up_lesson_id q \<noteq> None) (cd_progress st)"
    unfolding key_post_def by blast
  have "isLessonCompleted (cd_progress st') l = isLessonCompleted (cd_progress st) l" for l
    using isLessonCompleted_other_rows [of None l "cd_progress st'"]
      isLessonCompleted_other_rows [of None l "cd_progress st"] others by simp
  then show ?thesis
    using key_post_course_flag [OF post] by blast
qed

end
