(* ===== verification/Provisioning.thy ===== *)
theory Provisioning
  imports Store
begin

text \<open>
  The provisioning trigger of \<open>src/unnamed/part_000\<close> (lines 184-198): after a row is
  inserted into \<open>auth.users\<close>, \<open>handle_new_user\<close> inserts the account's profile
  with the identity's id and email and the \<open>full_name\<close> of the signup metadata, or the
  empty string when there is none (\<open>COALESCE(new.raw_user_meta_data->>'full_name', '')\<close>).
  The function is \<open>SECURITY DEFINER\<close>, so no policy applies to its insert. The trigger
  runs in the transaction of the identity's insert: when the profile insert fails, the
  identity is not created either, and \<open>signup\<close> returns the error with the store
  unchanged. The checks are those of the profile insert: \<open>email NOT NULL\<close>, the
  primary key, the reference to \<open>auth.users\<close>.
\<close>

definition new_profile :: "auth_user \<Rightarrow> string \<Rightarrow> timestamp \<Rightarrow> Profile" where
  "new_profile new email now =
     \<lparr>pr_id = au_id new, pr_email = email,
      pr_full_name = (case json_get_text (au_raw_user_meta_data new) ''full_name'' of
                        None \<Rightarrow> '''' | Some n \<Rightarrow> n),
      pr_created_at = now, pr_updated_at = now\<rparr>"

definition handle_new_user :: "auth_user \<Rightarrow> timestamp \<Rightarrow> db \<Rightarrow> db_error + db" where
  "handle_new_user new now d =
     (case au_email new of
        None \<Rightarrow> Inl (NotNullViolation TProfiles)
      | Some email \<Rightarrow>
          (let p = new_profile new email now in
           if pr_id p \<in> set (map pr_id (t_profiles d)) then Inl (UniqueViolation TProfiles)
           else if \<not> profile_fk_ok d p then Inl (ForeignKeyViolation TProfiles)
           else Inr (d\<lparr>t_profiles := t_profiles d @ [p]\<rparr>)))"

definition signup :: "auth_user \<Rightarrow> timestamp \<Rightarrow> db \<Rightarrow> db_error + db" where
  "signup new now d =
     (if au_id new \<in> set (user_ids d) then Inl (UniqueViolation TAuthUsers)
      else handle_new_user new now (d\<lparr>t_auth_users := t_auth_users d @ [new]\<rparr>))"

lemma new_profile_fields [simp]:
  "pr_id (new_profile new email now) = au_id new"
  "pr_email (new_profile new email now) = email"
  by (simp_all add: new_profile_def)

lemma signup_eq:
  assumes "db_wf d" and "au_id new \<notin> set (user_ids d)"
  shows "signup new now d =
           (case au_email new of
              None \<Rightarrow> Inl (NotNullViolation TProfiles)
            | Some email \<Rightarrow>
                Inr (d\<lparr>t_auth_users := t_auth_users d @ [new],
                       t_profiles := t_profiles d @ [new_profile new email now]\<rparr>))"
proof -
  have "au_id new \<notin> set (map pr_id (t_profiles d))"
    using assms by (auto simp: db_wf_def fk_ok_def list_all_iff profile_fk_ok_def)
  then show ?thesis
    using assms(2)
    by (auto simp: signup_def handle_new_user_def profile_fk_ok_def key_defs Let_def
             split: option.split)
qed

lemma signup_wf:
  assumes "db_wf d" and "au_id new \<notin> set (user_ids d)" and "au_email new = Some email"
  shows "db_wf (d\<lparr>t_auth_users := t_auth_users d @ [new],
                   t_profiles := t_profiles d @ [new_profile new email now]\<rparr>)"
proof -
  have "au_id new \<notin> set (map pr_id (t_profiles d))"
    using assms by (auto simp: db_wf_def fk_ok_def list_all_iff profile_fk_ok_def)
  then show ?thesis
    using assms by (auto simp: wf_defs fk_defs key_defs split: option.splits)
qed

text \<open>
  C15: signing up a new identity with an email provisions exactly one profile for it: the
  identity's id and email, the \<open>full_name\<close> of the signup metadata or the empty
  string when the metadata has none, and the signup time; the other profiles are kept and
  the store stays well-formed.
\<close>

theorem signup_provisions_profile:
  assumes "db_wf d" and "au_id new \<notin> set (user_ids d)" and "au_email new = Some email"
  shows "\<exists>d'. signup new now d = Inr d' \<and> db_wf d' \<and>
           t_profiles d' = t_profiles d @
             [\<lparr>pr_id = au_id new, pr_email = email,
               pr_full_name = (case json_get_text (au_raw_user_meta_data new) ''full_name'' of
                                 None \<Rightarrow> '''' | Some n \<Rightarrow> n),
               pr_created_at = now, pr_updated_at = now\<rparr>] \<and>
           filter (\<lambda>p. pr_id p = au_id new) (t_profiles d') = [new_profile new email now]"
proof -
  have fresh: "au_id new \<notin> set (map pr_id (t_profiles d))"
    using assms by (auto simp: db_wf_def fk_ok_def list_all_iff profile_fk_ok_def)
  then have "filter (\<lambda>p. pr_id p = au_id new) (t_profiles d) = []"
    by (auto simp: filter_empty_conv image_iff)
  then show ?thesis
    using signup_eq [OF assms(1,2)] signup_wf [OF assms] assms(3)
    by (simp add: new_profile_def)
qed


end
