(* ===== verification/Events.thy ===== *)
theory Events
  imports Provisioning
begin

text \<open>
  The life of the database as a whole: every event that changes it, and the states reachable
  from an empty database. An event is a request of a client (any of the writes of
  \<open>store_op\<close>, under any role, whether or not the shipped client ever sends it), the
  registration of an identity with its provisioning trigger, the deletion of an identity by
  the identity service, and the maintenance of the catalogue by the project's owner
  (inserting and deleting courses and lessons with the privileges that bypass the
  policies; the migration has no code for it, so only the schema's constraints and
  cascades apply). A failed event is rolled back and leaves the database as it was.
  \<open>db_reachable\<close> is the inductive set of reachable states, \<open>run_events\<close> the
  executable run of a trace; the two agree (\<open>db_reachable_iff_run\<close>).
\<close>

datatype db_event =
    Request role store_op
  | SignUp auth_user timestamp
  | DeleteIdentity uuid
  | SeedCourse Course
  | SeedLesson Lesson
  | RemoveCourse uuid
  | RemoveLesson uuid

fun db_event_step :: "db_event \<Rightarrow> db \<Rightarrow> db_error + db" where
  "db_event_step (Request r op) d = store_step r op d"
| "db_event_step (SignUp new now) d = signup new now d"
| "db_event_step (DeleteIdentity uid) d = Inr (delete_auth_user uid d)"
| "db_event_step (SeedCourse c) d = course_insert_checked c d"
| "db_event_step (SeedLesson l) d = lesson_insert_checked l d"
| "db_event_step (RemoveCourse cid) d = Inr (delete_course cid d)"
| "db_event_step (RemoveLesson lid) d = Inr (delete_lesson lid d)"

definition empty_db :: db where
  "empty_db = \<lparr>t_auth_users = [], t_profiles = [], t_courses = [], t_lessons = [],
               t_user_progress = []\<rparr>"

inductive db_reachable :: "db \<Rightarrow> bool" where
  empty: "db_reachable empty_db"
| step: "db_reachable d \<Longrightarrow> db_event_step e d = Inr d' \<Longrightarrow> db_reachable d'"

text \<open>A trace of events; an event that fails is rolled back.\<close>

fun run_events :: "db_event list \<Rightarrow> db \<Rightarrow> db" where
  "run_events [] d = d"
| "run_events (e # es) d =
     run_events es (case db_event_step e d of Inl _ \<Rightarrow> d | Inr d' \<Rightarrow> d')"

text \<open>Every identity has its profile and every profile its identity, in the same order.\<close>

definition identity_profiles :: "db \<Rightarrow> bool" where
  "identity_profiles d \<longleftrightarrow> map pr_id (t_profiles d) = user_ids d"

subsection \<open>Traces and reachable states\<close>

lemma run_events_reachable: "db_reachable d \<Longrightarrow> db_reachable (run_events es d)"
proof (induction es arbitrary: d)
  case (Cons e es)
  show ?case
  proof (cases "db_event_step e d")
    case (Inr d')
    then show ?thesis using Cons db_reachable.step [OF Cons.prems Inr] by simp
  qed (use Cons in simp)
qed simp

lemma run_events_snoc:
  "db_event_step e (run_events es d) = Inr d' \<Longrightarrow> run_events (es @ [e]) d = d'"
  by (induction es arbitrary: d) simp_all

lemma db_reachable_iff_run: "db_reachable d \<longleftrightarrow> (\<exists>es. run_events es empty_db = d)"
proof
  assume "db_reachable d"
  then show "\<exists>es. run_events es empty_db = d"
  proof (induction rule: db_reachable.induct)
    case empty
    have "run_events [] empty_db = empty_db" by simp
    then show ?case by blast
  next
    case (step d e d')
    then obtain es where "run_events es empty_db = d" by blast
    then have "run_events (es @ [e]) empty_db = d'"
      using step.hyps(2) run_events_snoc by blast
    then show ?case by blast
  qed
next
  assume "\<exists>es. run_events es empty_db = d"
  then show "db_reachable d"
    using run_events_reachable [OF db_reachable.empty] by blast
qed

subsection \<open>The integrity invariant is kept by every event\<close>

text \<open>A reference stays valid when rows are added to the table it refers to.\<close>

lemma fk_mono_append [simp]:
  "progress_fk_ok (d\<lparr>t_courses := t_courses d @ cs\<rparr>) r \<longleftrightarrow>
     progress_fk_ok d r \<or> (up_course_id r \<in> co_id ` set cs \<and> up_user_id r \<in> set (user_ids d) \<and>
       (case up_lesson_id r of None \<Rightarrow> True | Some l \<Rightarrow> l \<in> set (lesson_ids d)))"
  "lesson_fk_ok (d\<lparr>t_courses := t_courses d @ cs\<rparr>) l \<longleftrightarrow>
     lesson_fk_ok d l \<or> le_course_id l \<in> co_id ` set cs"
  "profile_fk_ok (d\<lparr>t_courses := t_courses d @ cs\<rparr>) p = profile_fk_ok d p"
  "progress_fk_ok (d\<lparr>t_lessons := t_lessons d @ ls\<rparr>) r \<longleftrightarrow>
     progress_fk_ok d r \<or> (up_course_id r \<in> set (course_ids d) \<and> up_user_id r \<in> set (user_ids d) \<and>
       (case up_lesson_id r of None \<Rightarrow> False | Some l \<Rightarrow> l \<in> le_id ` set ls))"
  "lesson_fk_ok (d\<lparr>t_lessons := t_lessons d @ ls\<rparr>) l = lesson_fk_ok d l"
  "profile_fk_ok (d\<lparr>t_lessons := t_lessons d @ ls\<rparr>) p = profile_fk_ok d p"
  by (auto simp: fk_defs key_defs split: option.splits)

lemma course_insert_checked_wf:
  "db_wf d \<Longrightarrow> course_insert_checked c d = Inr d' \<Longrightarrow> db_wf d'"
  by (auto simp: course_insert_checked_def wf_defs key_defs split: if_splits)

lemma lesson_insert_checked_wf:
  "db_wf d \<Longrightarrow> lesson_insert_checked l d = Inr d' \<Longrightarrow> db_wf d'"
  by (auto simp: lesson_insert_checked_def wf_defs key_defs split: if_splits)

lemma signup_step_wf:
  assumes "db_wf d" and "signup new now d = Inr d'"
  shows "db_wf d'"
proof (cases "au_id new \<in> set (user_ids d)")
  case True
  then show ?thesis using assms(2) by (simp add: signup_def)
next
  case False
  then show ?thesis
    using assms signup_eq [OF assms(1) False] signup_wf [OF assms(1) False]
    by (auto split: option.splits)
qed

lemma db_event_step_wf: "db_wf d \<Longrightarrow> db_event_step e d = Inr d' \<Longrightarrow> db_wf d'"
  by (cases e)
     (auto intro: store_step_wf_lemma signup_step_wf course_insert_checked_wf
        lesson_insert_checked_wf delete_auth_user_wf delete_course_wf delete_lesson_wf)

lemma empty_db_wf: "db_wf empty_db"
  by (simp add: empty_db_def wf_defs key_defs)

subsection \<open>One profile per identity\<close>

lemma identity_profiles_store_step:
  assumes "identity_profiles d" and "store_step r op d = Inr d'"
  shows "identity_profiles d'"
  using assms
  by (cases op)
     (auto simp: identity_profiles_def update_user_progress_eq update_profile_eq insert_profile_eq
                 insert_user_progress_eq delete_user_progress_noop o_def split: if_splits)

lemma identity_profiles_signup:
  assumes "db_wf d" and "identity_profiles d" and "signup new now d = Inr d'"
  shows "identity_profiles d'"
proof (cases "au_id new \<in> set (user_ids d)")
  case True
  then show ?thesis using assms(3) by (simp add: signup_def)
next
  case False
  then show ?thesis
    using assms signup_eq [OF assms(1) False]
    by (auto simp: identity_profiles_def key_defs split: option.splits)
qed

lemma identity_profiles_step:
  assumes "db_wf d" and "identity_profiles d" and "db_event_step e d = Inr d'"
  shows "identity_profiles d'"
proof (cases e)
  case (Request r op)
  then show ?thesis using assms(2,3) identity_profiles_store_step by simp
next
  case (SignUp new now)
  then show ?thesis using assms identity_profiles_signup by simp
qed (use assms(2,3) in \<open>auto simp: identity_profiles_def key_defs delete_auth_user_def
       course_insert_checked_def lesson_insert_checked_def delete_course_def delete_lesson_def
       Let_def split: if_splits\<close>)

lemma db_reachable_invariants: "db_reachable d \<Longrightarrow> db_wf d \<and> identity_profiles d"
proof (induction rule: db_reachable.induct)
  case empty
  have "identity_profiles empty_db"
    by (simp add: identity_profiles_def empty_db_def key_defs)
  then show ?case using empty_db_wf by blast
next
  case (step d e d')
  then show ?case using db_event_step_wf identity_profiles_step by blast
qed

subsection \<open>Properties of the reachable states\<close>


text \<open>
  C16: in every reachable database each identity has exactly one profile and no profile
  lacks an identity: the provisioning trigger creates it, no client request can insert a
  second one or delete it, and deleting the identity deletes it.
\<close>

theorem db_reachable_one_profile:
  assumes "db_reachable d"
  shows "length (filter (\<lambda>p. pr_id p = u) (t_profiles d)) = (if u \<in> set (user_ids d) then 1 else 0)"
proof -
  have inv: "db_wf d" "identity_profiles d"
    using db_reachable_invariants [OF assms] by blast+
  then have "distinct (map pr_id (t_profiles d))" "pr_id ` set (t_profiles d) = set (user_ids d)"
    by (simp_all add: wf_defs identity_profiles_def flip: set_map)
  then show ?thesis
    by (simp add: distinct_map_key_count)
qed

end
