(* ===== verification/Race.thy ===== *)
theory Race
  imports CourseDetail Events
begin

text \<open>
  The known race of spec section 4.3. \<open>toggleLessonCompletion\<close> reads the page state
  (\<open>progress\<close>, captured by the handler's closure) before its write and reloads after
  it. A second click on the same lesson before the first reload has landed runs the handler
  again on the same stale page state, against the store the first write left.
  \<open>toggle_race\<close> is that interleaving: both writes are computed from \<open>st\<close>, the
  second runs after the first, and the page ends with the reload after the second write
  (whichever order the two reloads land in, the last one reads that store).
\<close>

definition toggle_race ::
  "uuid \<Rightarrow> uuid \<Rightarrow> uuid \<Rightarrow> timestamp \<Rightarrow> uuid \<Rightarrow> timestamp \<Rightarrow> uuid \<Rightarrow> course_detail \<Rightarrow> db \<Rightarrow>
   db \<times> course_detail" where
  "toggle_race u courseId lid now1 fresh1 now2 fresh2 st d =
     (let d1 = fst (toggleLessonCompletion (Some u) courseId lid now1 fresh1 st d)
      in toggleLessonCompletion (Some u) courseId lid now2 fresh2 st d1)"

text \<open>
  The same interleaving for the Mark Course as Completed button: the button is disabled
  only once the reloaded page shows the course as completed, so a second click before the
  first reload lands runs \<open>markCourseCompleted\<close> again on the stale page.
\<close>

definition mark_race ::
  "uuid \<Rightarrow> uuid \<Rightarrow> timestamp \<Rightarrow> uuid \<Rightarrow> timestamp \<Rightarrow> uuid \<Rightarrow> course_detail \<Rightarrow> db \<Rightarrow>
   db \<times> course_detail" where
  "mark_race u courseId now1 fresh1 now2 fresh2 st d =
     (let d1 = fst (markCourseButton (Some u) courseId now1 fresh1 st d)
      in markCourseButton (Some u) courseId now2 fresh2 st d1)"

definition key_count :: "uuid \<Rightarrow> uuid \<Rightarrow> uuid option \<Rightarrow> db \<Rightarrow> nat" where
  "key_count u courseId k d =
     length (filter (\<lambda>p. progress_key p = (u, courseId, k)) (t_user_progress d))"

subsection \<open>Two inserts for one lesson\<close>

lemma toggle_insert_step:
  assumes "\<forall>p\<in>set (cd_progress st). up_lesson_id p \<noteq> Some lid"
    and "key_refs_ok u courseId (Some lid) d"
    and "fresh \<notin> set (map up_id (t_user_progress d))"
  shows "toggleLessonCompletion (Some u) courseId lid now fresh st d =
           (let d' = d\<lparr>t_user_progress := t_user_progress d @
                       [new_progress_row fresh now
                          \<lparr>ins_user_id = u, ins_course_id = courseId, ins_lesson_id = Some lid,
                           ins_completed = True, ins_completed_at = Some now\<rparr>]\<rparr>
            in (d', loadCourseData (Some u) courseId d' st))"
proof -
  have find: "find (\<lambda>p. up_lesson_id p = Some lid) (cd_progress st) = None"
    using assms(1) by (simp add: find_None_iff)
  then have "\<not> isLessonCompleted (cd_progress st) lid"
    by (rule isLessonCompleted_none)
  then show ?thesis
    using key_insert_branch [OF find assms(3,2)] by (simp add: toggle_is_key_write)
qed

lemma key_insert_wf:
  assumes "db_wf d" and "key_refs_ok u courseId k d"
    and "fresh \<notin> set (map up_id (t_user_progress d))"
  shows "db_wf (d\<lparr>t_user_progress := t_user_progress d @
                  [new_progress_row fresh now
                     \<lparr>ins_user_id = u, ins_course_id = courseId, ins_lesson_id = k,
                      ins_completed = c, ins_completed_at = t\<rparr>]\<rparr>)"
proof (rule insert_user_progress_wf [OF assms(1)])
  show "insert_user_progress (Authenticated u) fresh now
          \<lparr>ins_user_id = u, ins_course_id = courseId, ins_lesson_id = k,
           ins_completed = c, ins_completed_at = t\<rparr> d = Inr (d\<lparr>t_user_progress := t_user_progress d @
            [new_progress_row fresh now
               \<lparr>ins_user_id = u, ins_course_id = courseId, ins_lesson_id = k,
                ins_completed = c, ins_completed_at = t\<rparr>]\<rparr>)"
    using assms(2,3)
    by (simp add: insert_user_progress_eq progress_fk_ok_def key_refs_ok_def split: option.splits)
qed

lemma key_count_append:
  "key_count u courseId k (d\<lparr>t_user_progress := t_user_progress d @ [r]\<rparr>) =
     key_count u courseId k d + (if progress_key r = (u, courseId, k) then 1 else 0)"
  by (simp add: key_count_def)

lemma key_count_unique: "progress_unique d \<Longrightarrow> key_count u courseId k d \<le> 1"
  unfolding progress_unique_def key_count_def by (rule distinct_map_key_le1)

lemma key_count_synced_zero:
  assumes "cd_progress st = own_progress u courseId d"
    and "\<forall>p\<in>set (cd_progress st). up_lesson_id p \<noteq> Some lid"
  shows "key_count u courseId (Some lid) d = 0"
  using assms by (auto simp: key_count_def own_progress_def progress_key_def filter_empty_conv)

lemma mark_insert_step:
  assumes "\<forall>p\<in>set (cd_progress st). up_lesson_id p \<noteq> None"
    and "key_refs_ok u courseId None d"
    and "fresh \<notin> set (map up_id (t_user_progress d))"
  shows "markCourseButton (Some u) courseId now fresh st d =
           (let d' = d\<lparr>t_user_progress := t_user_progress d @
                       [new_progress_row fresh now
                          \<lparr>ins_user_id = u, ins_course_id = courseId, ins_lesson_id = None,
                           ins_completed = True, ins_completed_at = Some now\<rparr>]\<rparr>
            in (d', loadCourseData (Some u) courseId d' st))"
proof -
  have find: "find (\<lambda>p. up_lesson_id p = None) (cd_progress st) = None"
    using assms(1) by (simp add: find_None_iff)
  have "\<not> isCourseCompleted (cd_progress st)"
    using assms(1) by (auto simp: isCourseCompleted_def list_ex_iff)
  then show ?thesis
    using key_insert_branch [OF find assms(3,2), of now True]
    by (simp add: markCourseButton_def mark_is_key_write)
qed

subsection \<open>Properties of the race\<close>

text \<open>
  C17: the known race of spec section 4.3 does occur. When the caller's page shows no row
  for a lesson and two toggles of it overlap, both insert: the store ends with two rows
  for (account, course, lesson), the uniqueness convention of spec section 3 is broken,
  and the page shows the lesson as completed. The schema's constraints still hold.
\<close>

theorem toggle_race_duplicates:
  assumes wf: "db_wf d" and sync: "cd_progress st = own_progress u courseId d"
    and none: "\<forall>p\<in>set (cd_progress st). up_lesson_id p \<noteq> Some lid"
    and refs: "key_refs_ok u courseId (Some lid) d"
    and fresh1: "fresh1 \<notin> set (map up_id (t_user_progress d))"
    and fresh2: "fresh2 \<notin> set (map up_id (t_user_progress d))" and "fresh2 \<noteq> fresh1"
    and run: "toggle_race u courseId lid now1 fresh1 now2 fresh2 st d = (d2, st2)"
  shows "key_count u courseId (Some lid) d2 = 2 \<and> \<not> progress_unique d2 \<and>
         isLessonCompleted (cd_progress st2) lid \<and> db_wf d2"
proof -
  define row where "row f t = new_progress_row f t
    \<lparr>ins_user_id = u, ins_course_id = courseId, ins_lesson_id = Some lid,
     ins_completed = True, ins_completed_at = Some t\<rparr>" for f t
  define d1 where "d1 = d\<lparr>t_user_progress := t_user_progress d @ [row fresh1 now1]\<rparr>"
  have first: "fst (toggleLessonCompletion (Some u) courseId lid now1 fresh1 st d) = d1"
    using toggle_insert_step [OF none refs fresh1] by (simp add: d1_def row_def Let_def)
  have wf1: "db_wf d1"
    unfolding d1_def row_def by (rule key_insert_wf [OF wf refs fresh1])
  have refs1: "key_refs_ok u courseId (Some lid) d1"
    using refs by (simp add: d1_def key_refs_ok_def)
  have fresh21: "fresh2 \<notin> set (map up_id (t_user_progress d1))"
    using fresh2 \<open>fresh2 \<noteq> fresh1\<close> by (simp add: d1_def row_def)
  define d2' where "d2' = d1\<lparr>t_user_progress := t_user_progress d1 @ [row fresh2 now2]\<rparr>"
  have "toggle_race u courseId lid now1 fresh1 now2 fresh2 st d =
          (d2', loadCourseData (Some u) courseId d2' st)"
    using toggle_insert_step [OF none refs1 fresh21, of now2]
    by (simp add: toggle_race_def first d2'_def row_def Let_def)
  then have second: "d2 = d2'" "st2 = loadCourseData (Some u) courseId d2' st"
    using run by simp_all
  have wf2: "db_wf d2"
    using key_insert_wf [OF wf1 refs1 fresh21] by (simp add: second d2'_def row_def)
  have count: "key_count u courseId (Some lid) d2 = 2"
    using key_count_synced_zero [OF sync none]
    by (simp add: second d2'_def d1_def key_count_def row_def progress_key_def)
  have row1: "row fresh1 now1 \<in> set (own_progress u courseId d2)"
    by (simp add: second d2'_def d1_def own_progress_def row_def)
  have "isLessonCompleted (own_progress u courseId d2) lid"
    unfolding isLessonCompleted_def list_ex_iff
    by (rule bexI [OF _ row1]) (simp add: row_def)
  then have "isLessonCompleted (cd_progress st2) lid"
    using loadCourseData_progress [OF wf2] second by simp
  then show ?thesis
    using count wf2 key_count_unique [of d2 u courseId "Some lid"] by auto
qed

text \<open>
  C18: after the race the lesson cannot be un-completed by a toggle: when the caller's page
  shows two completed rows for a lesson, toggling it updates only the row \<open>find\<close>
  returns, the other row stays completed, and the page still shows the lesson as
  completed, against spec section 4.3's "flip its completed flag". This does not depend on
  the order in which the store returns the rows.
\<close>

theorem toggle_duplicate_stays_completed:
  assumes wf: "db_wf d" and sync: "cd_progress st = own_progress u courseId d"
    and p: "p \<in> set (cd_progress st)" and q: "q \<in> set (cd_progress st)"
    and ids: "up_id p \<noteq> up_id q"
    and lesson: "up_lesson_id p = Some lid" "up_lesson_id q = Some lid"
    and compl: "up_completed p" "up_completed q"
    and run: "toggleLessonCompletion (Some u) courseId lid now fresh st d = (d', st')"
  shows "isLessonCompleted (cd_progress st') lid"
proof -
  obtain r where find: "find (\<lambda>x. up_lesson_id x = Some lid) (cd_progress st) = Some r"
  proof (cases "find (\<lambda>x. up_lesson_id x = Some lid) (cd_progress st)")
    case None
    then show ?thesis using p lesson(1) by (auto simp: find_None_iff)
  qed
  have completed: "isLessonCompleted (cd_progress st) lid"
    using p lesson(1) compl(1) by (auto simp: isLessonCompleted_def list_ex_iff)
  obtain w where wpq: "w \<in> {p, q}" and w2: "up_id w \<noteq> up_id r"
  proof (cases "up_id p = up_id r")
    case True
    then show ?thesis using ids that [of q] by simp
  next
    case False
    then show ?thesis using that [of p] by simp
  qed
  have w: "w \<in> set (cd_progress st)" "up_id w \<noteq> up_id r"
    "up_lesson_id w = Some lid" "up_completed w"
    using wpq w2 p q lesson compl by auto
  define pa where "pa = \<lparr>pa_completed = False, pa_completed_at = None, pa_updated_at = now\<rparr>"
  define d'' where "d'' = d\<lparr>t_user_progress :=
    map (\<lambda>x. if up_id x = up_id r \<and> u = up_user_id x then apply_patch pa x else x) (t_user_progress d)\<rparr>"
  have "toggleLessonCompletion (Some u) courseId lid now fresh st d =
          (d'', loadCourseData (Some u) courseId d'' st)"
    using key_update_branch [OF find, of u courseId now fresh False d]
    unfolding d''_def pa_def by (simp add: toggle_is_key_write completed Let_def)
  then have res: "d' = d''" "st' = loadCourseData (Some u) courseId d'' st"
    using run by simp_all
  have wf'': "db_wf d''"
    using update_user_progress_wf [OF wf, of "Authenticated u" "up_id r" pa]
    by (simp add: update_user_progress_eq d''_def)
  have wd: "w \<in> set (t_user_progress d)" "up_user_id w = u" "up_course_id w = courseId"
    using w(1) sync by (simp_all add: own_progress_def)
  have "w \<in> set (t_user_progress d'')"
    unfolding d''_def using wd(1) w(2) by (auto simp: image_iff intro!: bexI [of _ w])
  then have "w \<in> set (own_progress u courseId d'')"
    using wd(2,3) by (simp add: own_progress_def)
  then have "isLessonCompleted (own_progress u courseId d'') lid"
    unfolding isLessonCompleted_def list_ex_iff using w(3,4) by blast
  then show ?thesis
    using res loadCourseData_progress [OF wf''] by simp
qed

text \<open>
  C19: the button's guard does not prevent the race for the course-level row. When the
  caller's page shows no course-level row and two clicks on Mark Course as Completed
  overlap, both pass the guard \<open>disabled={courseCompleted}\<close> of the stale page and
  both insert: the store ends with two rows for (account, course, null), the uniqueness
  convention is broken, and the page shows the course as completed.
\<close>

theorem mark_race_duplicates:
  assumes wf: "db_wf d" and sync: "cd_progress st = own_progress u courseId d"
    and none: "\<forall>p\<in>set (cd_progress st). up_lesson_id p \<noteq> None"
    and refs: "key_refs_ok u courseId None d"
    and fresh1: "fresh1 \<notin> set (map up_id (t_user_progress d))"
    and fresh2: "fresh2 \<notin> set (map up_id (t_user_progress d))" and "fresh2 \<noteq> fresh1"
    and run: "mark_race u courseId now1 fresh1 now2 fresh2 st d = (d2, st2)"
  shows "key_count u courseId None d2 = 2 \<and> \<not> progress_unique d2 \<and>
         isCourseCompleted (cd_progress st2) \<and> db_wf d2"
proof -
  define row where "row f t = new_progress_row f t
    \<lparr>ins_user_id = u, ins_course_id = courseId, ins_lesson_id = None,
     ins_completed = True, ins_completed_at = Some t\<rparr>" for f t
  define d1 where "d1 = d\<lparr>t_user_progress := t_user_progress d @ [row fresh1 now1]\<rparr>"
  have first: "fst (markCourseButton (Some u) courseId now1 fresh1 st d) = d1"
    using mark_insert_step [OF none refs fresh1] by (simp add: d1_def row_def Let_def)
  have wf1: "db_wf d1"
    unfolding d1_def row_def by (rule key_insert_wf [OF wf refs fresh1])
  have refs1: "key_refs_ok u courseId None d1"
    using refs by (simp add: d1_def key_refs_ok_def)
  have fresh21: "fresh2 \<notin> set (map up_id (t_user_progress d1))"
    using fresh2 \<open>fresh2 \<noteq> fresh1\<close> by (simp add: d1_def row_def)
  define d2' where "d2' = d1\<lparr>t_user_progress := t_user_progress d1 @ [row fresh2 now2]\<rparr>"
  have "mark_race u courseId now1 fresh1 now2 fresh2 st d =
          (d2', loadCourseData (Some u) courseId d2' st)"
    using mark_insert_step [OF none refs1 fresh21, of now2]
    by (simp add: mark_race_def first d2'_def row_def Let_def)
  then have second: "d2 = d2'" "st2 = loadCourseData (Some u) courseId d2' st"
    using run by simp_all
  have wf2: "db_wf d2"
    using key_insert_wf [OF wf1 refs1 fresh21] by (simp add: second d2'_def row_def)
  have sync0: "\<forall>p\<in>set (t_user_progress d). progress_key p = (u, courseId, None) \<longrightarrow> False"
    using sync none by (auto simp: own_progress_def progress_key_def)
  then have "key_count u courseId None d = 0"
    by (auto simp: key_count_def filter_empty_conv)
  then have count: "key_count u courseId None d2 = 2"
    by (simp add: second d2'_def d1_def key_count_def row_def progress_key_def)
  have row1: "row fresh1 now1 \<in> set (own_progress u courseId d2)"
    by (simp add: second d2'_def d1_def own_progress_def row_def)
  have "isCourseCompleted (own_progress u courseId d2)"
    unfolding isCourseCompleted_def list_ex_iff
    by (rule bexI [OF _ row1]) (simp add: row_def)
  then have "isCourseCompleted (cd_progress st2)"
    using loadCourseData_progress [OF wf2] second by simp
  then show ?thesis
    using count wf2 key_count_unique [of d2 u courseId None] by auto
qed

subsection \<open>Duplicates after a failed progress fetch\<close>

lemma calculateProgress_no_rows: "calculateProgress ls [] = 0"
  by (simp add: calculateProgress_eq completedLessons_def isLessonCompleted_def)

text \<open>
  C20: \<open>loadCourseData\<close> never looks at the error of the progress query (lines
  34-39). When that query fails, the page shows the course at 0\% and not completed, with
  no error message, whatever the store holds; a toggle of a lesson the store already has a
  completed row for then inserts a second row for it, breaking the uniqueness convention
  without any concurrency, and the lesson stays completed.
\<close>

theorem progress_fetch_error_duplicates:
  assumes wf: "db_wf d" and refs: "key_refs_ok u courseId (Some lid) d"
    and fresh: "fresh \<notin> set (map up_id (t_user_progress d))"
    and row: "p \<in> set (own_progress u courseId d)" "up_lesson_id p = Some lid"
    and page: "st = apply_course_data (Inr (Some co)) (Inr ls) (Inl e) course_detail_init"
    and run: "toggleLessonCompletion (Some u) courseId lid now fresh st d = (d', st')"
  shows "course_detail_view st = CDShow co 0 False \<and>
         key_count u courseId (Some lid) d' = key_count u courseId (Some lid) d + 1 \<and>
         \<not> progress_unique d' \<and> isLessonCompleted (cd_progress st') lid"
proof -
  have empty: "cd_progress st = []"
    by (simp add: page apply_course_data_def)
  have view: "course_detail_view st = CDShow co 0 False"
    by (simp add: page apply_course_data_def course_detail_init_def course_detail_view_def
                  calculateProgress_no_rows isCourseCompleted_def)
  define r where "r = new_progress_row fresh now
    \<lparr>ins_user_id = u, ins_course_id = courseId, ins_lesson_id = Some lid,
     ins_completed = True, ins_completed_at = Some now\<rparr>"
  define d'' where "d'' = d\<lparr>t_user_progress := t_user_progress d @ [r]\<rparr>"
  have "toggleLessonCompletion (Some u) courseId lid now fresh st d =
          (d'', loadCourseData (Some u) courseId d'' st)"
    using toggle_insert_step [OF _ refs fresh, of st now] empty
    by (simp add: d''_def r_def Let_def)
  then have res: "d' = d''" "st' = loadCourseData (Some u) courseId d'' st"
    using run by simp_all
  have wf'': "db_wf d''"
    unfolding d''_def r_def by (rule key_insert_wf [OF wf refs fresh])
  have count: "key_count u courseId (Some lid) d' = key_count u courseId (Some lid) d + 1"
    by (simp add: res d''_def key_count_append r_def progress_key_def)
  have "key_count u courseId (Some lid) d \<ge> 1"
    using row by (auto simp: key_count_def own_progress_def progress_key_def
                       filter_empty_conv Suc_le_eq length_greater_0_conv)
  then have "\<not> progress_unique d'"
    using count key_count_unique [of d' u courseId "Some lid"] by auto
  moreover have "isLessonCompleted (cd_progress st') lid"
  proof -
    have "r \<in> set (own_progress u courseId d'')"
      by (simp add: d''_def own_progress_def r_def)
    then have "isLessonCompleted (own_progress u courseId d'') lid"
      unfolding isLessonCompleted_def list_ex_iff by (rule bexI [rotated]) (simp add: r_def)
    then show ?thesis using res loadCourseData_progress [OF wf''] by simp
  qed
  ultimately show ?thesis using view count by blast
qed

end
