(* ===== verification/CourseCard.thy ===== *)
theory CourseCard
  imports Schema
begin

text \<open>
  The course card, \<open>src/src/components/CourseCard.tsx\<close>. The card picks the CSS classes
  of its difficulty badge (line 16) with
  \<open>difficultyColors[course.difficulty] || difficultyColors.beginner\<close>, where
  \<open>difficultyColors\<close> (lines 10-14) is an object literal. \<open>difficulty\<close> is free text
  in the database (spec section 3), and the \<open>as keyof\<close> cast has no effect at run time, so
  the lookup is JavaScript's property access: an own property of the literal, else a
  property inherited from \<open>Object.prototype\<close>, else \<open>undefined\<close>. \<open>||\<close> keeps a
  truthy value. The badge's class attribute is the value converted to a string by the
  template literal of line 32.
\<close>

datatype js_value =
    JSUndefined
  | JSString string
  | JSFunction string
  | JSObject string

text \<open>
  The properties every object literal inherits from \<open>Object.prototype\<close> (ECMAScript,
  including Annex B): its methods, and the \<open>__proto__\<close> accessor, which reads the
  prototype object itself. A function carries its name.
\<close>

definition object_prototype :: "(string \<times> js_value) list" where
  "object_prototype =
     [(''constructor'', JSFunction ''Object''), (''hasOwnProperty'', JSFunction ''hasOwnProperty''),
      (''isPrototypeOf'', JSFunction ''isPrototypeOf''),
      (''propertyIsEnumerable'', JSFunction ''propertyIsEnumerable''),
      (''toLocaleString'', JSFunction ''toLocaleString''), (''toString'', JSFunction ''toString''),
      (''valueOf'', JSFunction ''valueOf''), (''__defineGetter__'', JSFunction ''__defineGetter__''),
      (''__defineSetter__'', JSFunction ''__defineSetter__''),
      (''__lookupGetter__'', JSFunction ''__lookupGetter__''),
      (''__lookupSetter__'', JSFunction ''__lookupSetter__''),
      (''__proto__'', JSObject ''Object.prototype'')]"

definition js_get :: "(string \<times> js_value) list \<Rightarrow> string \<Rightarrow> js_value" where
  "js_get obj k =
     (case map_of obj k of
        Some v \<Rightarrow> v
      | None \<Rightarrow> (case map_of object_prototype k of Some v \<Rightarrow> v | None \<Rightarrow> JSUndefined))"

fun js_truthy :: "js_value \<Rightarrow> bool" where
  "js_truthy JSUndefined = False"
| "js_truthy (JSString s) = (s \<noteq> [])"
| "js_truthy (JSFunction _) = True"
| "js_truthy (JSObject _) = True"

text \<open>\<open>String(v)\<close> as a template literal computes it.\<close>

fun js_to_string :: "js_value \<Rightarrow> string" where
  "js_to_string JSUndefined = ''undefined''"
| "js_to_string (JSString s) = s"
| "js_to_string (JSFunction n) = ''function '' @ n @ ''() { [native code] }''"
| "js_to_string (JSObject _) = ''[object Object]''"

definition difficultyColors :: "(string \<times> js_value) list" where
  "difficultyColors =
     [(''beginner'', JSString ''bg-green-100 text-green-700''),
      (''intermediate'', JSString ''bg-yellow-100 text-yellow-700''),
      (''advanced'', JSString ''bg-red-100 text-red-700'')]"

definition difficultyColor :: "Course \<Rightarrow> js_value" where
  "difficultyColor course =
     (let v = js_get difficultyColors (co_difficulty course) in
      if js_truthy v then v else js_get difficultyColors ''beginner'')"

text \<open>The class attribute of the badge (line 32).\<close>

definition difficulty_class :: "Course \<Rightarrow> string" where
  "difficulty_class course =
     ''px-3 py-1 rounded-full text-xs font-semibold '' @ js_to_string (difficultyColor course)"

text \<open>
  The card itself (lines 18-57): category, difficulty badge (class and text), title,
  description, duration in minutes, and the click target, the course's id, which the home
  page passes to \<open>onSelectCourse\<close>. The \<open>capitalize\<close> class changes the display of
  the difficulty, not its text.
\<close>

record card_view =
  cv_course_id :: uuid
  cv_category :: string
  cv_badge_class :: string
  cv_badge_text :: string
  cv_title :: string
  cv_description :: string
  cv_duration :: int

definition course_card :: "Course \<Rightarrow> card_view" where
  "course_card course =
     \<lparr>cv_course_id = co_id course, cv_category = co_category course,
      cv_badge_class = difficulty_class course, cv_badge_text = co_difficulty course,
      cv_title = co_title course, cv_description = co_description course,
      cv_duration = co_duration_minutes course\<rparr>"

lemma map_of_difficultyColors_string:
  "map_of difficultyColors k = Some v \<Longrightarrow> \<exists>s. v = JSString s \<and> s \<noteq> []"
  by (auto simp: difficultyColors_def split: if_splits)

lemma map_of_object_prototype_not_string:
  "map_of object_prototype k = Some v \<Longrightarrow> js_truthy v \<and> (\<forall>s. v \<noteq> JSString s)"
  by (auto simp: object_prototype_def split: if_splits)

lemma difficulty_keys_not_inherited:
  "k \<in> set (map fst difficultyColors) \<Longrightarrow> map_of object_prototype k = None"
proof -
  have "map_of object_prototype ''beginner'' = None" "map_of object_prototype ''intermediate'' = None"
    "map_of object_prototype ''advanced'' = None"
    by (simp_all add: object_prototype_def)
  moreover assume "k \<in> set (map fst difficultyColors)"
  then have "k = ''beginner'' \<or> k = ''intermediate'' \<or> k = ''advanced''"
    by (simp add: difficultyColors_def)
  ultimately show ?thesis by blast
qed

lemma beginner_colour: "js_get difficultyColors ''beginner'' = JSString ''bg-green-100 text-green-700''"
  by (simp add: js_get_def difficultyColors_def)

subsection \<open>Properties of the badge colour\<close>

text \<open>
  C21: a difficulty that is neither one of the three keys of \<open>difficultyColors\<close> nor a
  property of \<open>Object.prototype\<close> gets the beginner colours, as the fallback intends.
\<close>

theorem difficultyColor_fallback:
  assumes "co_difficulty c \<notin> set (map fst difficultyColors)"
    and "co_difficulty c \<notin> set (map fst object_prototype)"
  shows "difficultyColor c = JSString ''bg-green-100 text-green-700''"
proof -
  have "map_of difficultyColors (co_difficulty c) = None"
    "map_of object_prototype (co_difficulty c) = None"
    using assms by (simp_all add: map_of_eq_None_iff)
  then show ?thesis
    unfolding difficultyColor_def beginner_colour by (simp add: js_get_def)
qed

text \<open>
  C22: the badge's colour is a CSS class string exactly when the difficulty is not the name
  of a property of \<open>Object.prototype\<close>. For such a name (\<open>constructor\<close>,
  \<open>toString\<close>, \<open>__proto__\<close>, ...) the lookup returns the inherited function or object,
  which is truthy, so the fallback is skipped and the class attribute receives the
  function's source text or \<open>[object Object]\<close>.
\<close>

theorem difficultyColor_string_iff:
  "(\<exists>s. difficultyColor c = JSString s) \<longleftrightarrow> co_difficulty c \<notin> set (map fst object_prototype)"
proof -
  let ?k = "co_difficulty c"
  have inh: "?k \<notin> set (map fst object_prototype) \<longleftrightarrow> map_of object_prototype ?k = None"
    by (simp add: map_of_eq_None_iff)
  show ?thesis
  proof (cases "map_of difficultyColors ?k")
    case (Some v)
    then have "?k \<in> set (map fst difficultyColors)"
      by (auto dest: map_of_SomeD intro: rev_image_eqI)
    then have "map_of object_prototype ?k = None"
      by (rule difficulty_keys_not_inherited)
    moreover obtain s where "v = JSString s" "s \<noteq> []"
      using map_of_difficultyColors_string [OF Some] by blast
    ultimately show ?thesis
      using Some inh by (simp add: difficultyColor_def js_get_def)
  next
    case None
    show ?thesis
    proof (cases "map_of object_prototype ?k")
      case None': None
      then show ?thesis
        using None inh unfolding difficultyColor_def beginner_colour by (simp add: js_get_def)
    next
      case (Some v)
      then show ?thesis
        using None inh map_of_object_prototype_not_string [OF Some]
        by (simp add: difficultyColor_def js_get_def)
    qed
  qed
qed

end
