(* ===== verification/Home.thy ===== *)
theory Home
  imports Store CourseCard
begin

text \<open>
  The home page, \<open>src/src/pages/Home.tsx\<close>. Its React state (lines 11-13) is the record
  \<open>home_state\<close>. \<open>loadCourses\<close> (lines 19-34) selects all visible courses ordered by
  \<open>created_at\<close> descending; an error sets the message \<open>Failed to load courses\<close>,
  and \<open>finally\<close> clears \<open>loading\<close> on both paths. The page (lines 50-72) shows a
  spinner, the message, an empty notice, or one \<open>CourseCard\<close> per course.
  \<open>ORDER BY created_at DESC\<close> leaves the order of equal timestamps to PostgreSQL:
  \<open>order_by_created_desc\<close> is that contract (spec section 6), and the stable sort of
  \<open>fetch_courses_ordered\<close> is one order that meets it, the only one when timestamps are
  distinct.
\<close>

record home_state =
  hm_courses :: "Course list"
  hm_loading :: bool
  hm_error :: string

definition home_init :: home_state where
  "home_init = \<lparr>hm_courses = [], hm_loading = True, hm_error = ''''\<rparr>"

definition order_by_created_desc :: "Course list \<Rightarrow> Course list \<Rightarrow> bool" where
  "order_by_created_desc rows result \<longleftrightarrow>
     mset result = mset rows \<and> sorted_wrt (\<lambda>a b. co_created_at b \<le> co_created_at a) result"

definition fetch_courses_ordered :: "role \<Rightarrow> db \<Rightarrow> db_error + Course list" where
  "fetch_courses_ordered r d =
     Inr (sort_key (\<lambda>c. - int (co_created_at c)) (select_courses r d))"

definition apply_courses_result :: "db_error + Course list \<Rightarrow> home_state \<Rightarrow> home_state" where
  "apply_courses_result res st =
     (case res of
        Inl _ \<Rightarrow> st\<lparr>hm_error := ''Failed to load courses'', hm_loading := False\<rparr>
      | Inr cs \<Rightarrow> st\<lparr>hm_courses := cs, hm_loading := False\<rparr>)"

definition loadCourses :: "role \<Rightarrow> db \<Rightarrow> home_state \<Rightarrow> home_state" where
  "loadCourses r d st = apply_courses_result (fetch_courses_ordered r d) st"

text \<open>One card per course, in the order of the listing; clicking it selects the course's id.\<close>

datatype home_view =
    HomeLoading
  | HomeError string
  | HomeEmpty
  | HomeCards "card_view list"

definition home_view :: "home_state \<Rightarrow> home_view" where
  "home_view st =
     (if hm_loading st then HomeLoading
      else if hm_error st \<noteq> '''' then HomeError (hm_error st)
      else if hm_courses st = [] then HomeEmpty
      else HomeCards (map course_card (hm_courses st)))"

subsection \<open>The order of the listing\<close>

lemma sort_key_created_desc:
  "order_by_created_desc rows (sort_key (\<lambda>c. - int (co_created_at c)) rows)"
proof -
  have "sorted (map (\<lambda>c. - int (co_created_at c)) (sort_key (\<lambda>c. - int (co_created_at c)) rows))"
    by (rule sorted_sort_key)
  then show ?thesis
    by (simp add: order_by_created_desc_def sorted_map)
qed

lemma order_by_created_desc_unique:
  assumes "distinct (map co_created_at rows)"
    and "order_by_created_desc rows ys" and "order_by_created_desc rows zs"
  shows "ys = zs"
proof -
  let ?f = "\<lambda>c. - int (co_created_at c)"
  have "distinct (map ?f rows)"
    using assms(1) by (simp add: distinct_map inj_on_def)
  then have "ys = sort_key ?f rows" "zs = sort_key ?f rows"
    using assms(2,3) by (auto simp: order_by_created_desc_def sorted_map intro!: sort_key_unique)
  then show ?thesis by simp
qed

lemma loadCourses_refines_lemma:
  "order_by_created_desc (t_courses d) (hm_courses (loadCourses (Authenticated u) d st))"
  by (simp add: loadCourses_def fetch_courses_ordered_def apply_courses_result_def
                select_courses_def sort_key_created_desc)

subsection \<open>Properties of the home page\<close>

lemma select_courses_anon: "select_courses Anon d = []"
  by (simp add: select_courses_def)

text \<open>
  C23: for a signed-in caller \<open>loadCourses\<close> implements the listing of spec section 6:
  the page holds every course of the store, ordered by creation time descending, and is no
  longer loading; the error message is left as it was.
\<close>

theorem loadCourses_refines:
  "order_by_created_desc (t_courses d) (hm_courses (loadCourses (Authenticated u) d st)) \<and>
   \<not> hm_loading (loadCourses (Authenticated u) d st) \<and>
   hm_error (loadCourses (Authenticated u) d st) = hm_error st"
  using loadCourses_refines_lemma [of d u st]
  by (simp add: loadCourses_def fetch_courses_ordered_def apply_courses_result_def)


end
