(* ===== verification/Config.thy ===== *)
theory Config
  imports Prelude
begin

text \<open>
  The client configuration, \<open>src/lib/supabase.ts\<close> (\<open>src/unnamed/part_001\<close>, lines
  1-10): the store's URL and its anonymous key come from the build environment
  (\<open>import.meta.env\<close>, a string or \<open>undefined\<close>); the module throws when either is
  falsy, that is, missing or the empty string, and otherwise creates the client. The module
  is imported by every page, so a throw stops the application before anything renders.
\<close>

datatype config_error = MissingSupabaseEnv

record supabase_client =
  sb_url :: string
  sb_anon_key :: string

fun env_truthy :: "string option \<Rightarrow> bool" where
  "env_truthy None = False"
| "env_truthy (Some s) = (s \<noteq> [])"

definition supabase_config :: "string option \<Rightarrow> string option \<Rightarrow> config_error + supabase_client" where
  "supabase_config supabaseUrl supabaseAnonKey =
     (if \<not> env_truthy supabaseUrl \<or> \<not> env_truthy supabaseAnonKey then Inl MissingSupabaseEnv
      else Inr \<lparr>sb_url = the supabaseUrl, sb_anon_key = the supabaseAnonKey\<rparr>)"

lemma env_truthy_iff: "env_truthy v \<longleftrightarrow> v \<notin> {None, Some []}"
  by (cases v) auto

end
