(* ===== verification/App.thy ===== *)
theory App
  imports Home Config
begin

text \<open>
  The application shell, \<open>App.tsx\<close> (\<open>src/unnamed/part_001\<close>, lines 52-100), and
  the header (\<open>Header.tsx\<close>, lines 101-136). \<open>AppContent\<close> keeps two pieces of state,
  \<open>showLogin\<close> and \<open>selectedCourseId\<close> (lines 61-62), and reads \<open>user\<close> and
  \<open>loading\<close> from the authentication context; the screen it renders (lines 64-89) is a
  function of the four. The authentication context, login and signup forms are not among
  the sources: their effects on this state (the session resolving at start-up, a
  successful sign-in or sign-up, a sign-out) are events of the model. The other events
  are the callbacks the screens pass down: the forms' \<open>onToggle\<close>, the home page's
  \<open>onSelectCourse\<close>, the detail page's \<open>onBack\<close>, and the header's sign-out button,
  rendered by the home and detail pages. An event is possible only on a screen that
  offers it; \<open>app_step\<close> returns \<open>None\<close> otherwise.
\<close>

record app_state =
  as_user :: "auth_user option"
  as_loading :: bool
  as_showLogin :: bool
  as_selected :: "uuid option"

definition app_init :: app_state where
  "app_init = \<lparr>as_user = None, as_loading = True, as_showLogin = True, as_selected = None\<rparr>"

datatype screen =
    SpinnerScreen
  | LoginScreen
  | SignupScreen
  | DetailScreen uuid
  | HomeScreen

definition app_screen :: "app_state \<Rightarrow> screen" where
  "app_screen s =
     (if as_loading s then SpinnerScreen
      else case as_user s of
        None \<Rightarrow> (if as_showLogin s then LoginScreen else SignupScreen)
      | Some _ \<Rightarrow> (case as_selected s of Some c \<Rightarrow> DetailScreen c | None \<Rightarrow> HomeScreen))"

text \<open>The header: the signed-in user's email and a sign-out button, or nothing.\<close>

datatype header_view =
    HeaderPlain
  | HeaderSignedIn "string option"

definition header_view :: "auth_user option \<Rightarrow> header_view" where
  "header_view user = (case user of None \<Rightarrow> HeaderPlain | Some u \<Rightarrow> HeaderSignedIn (au_email u))"

fun is_detail :: "screen \<Rightarrow> bool" where
  "is_detail (DetailScreen _) = True"
| "is_detail _ = False"

fun renders_header :: "screen \<Rightarrow> bool" where
  "renders_header HomeScreen = True"
| "renders_header (DetailScreen _) = True"
| "renders_header _ = False"

datatype app_event =
    SessionResolved "auth_user option"
  | SignedIn auth_user
  | SignOut
  | ShowSignup
  | ShowLogin
  | SelectCourse uuid
  | BackToCourses

fun app_step :: "app_event \<Rightarrow> app_state \<Rightarrow> app_state option" where
  "app_step (SessionResolved u) s =
     (if as_loading s then Some (s\<lparr>as_user := u, as_loading := False\<rparr>) else None)"
| "app_step (SignedIn u) s =
     (if app_screen s \<in> {LoginScreen, SignupScreen} then Some (s\<lparr>as_user := Some u\<rparr>) else None)"
| "app_step SignOut s =
     (if renders_header (app_screen s) \<and> header_view (as_user s) \<noteq> HeaderPlain
      then Some (s\<lparr>as_user := None\<rparr>) else None)"
| "app_step ShowSignup s =
     (if app_screen s = LoginScreen then Some (s\<lparr>as_showLogin := False\<rparr>) else None)"
| "app_step ShowLogin s =
     (if app_screen s = SignupScreen then Some (s\<lparr>as_showLogin := True\<rparr>) else None)"
| "app_step (SelectCourse c) s =
     (if app_screen s = HomeScreen then Some (s\<lparr>as_selected := Some c\<rparr>) else None)"
| "app_step BackToCourses s =
     (if is_detail (app_screen s) then Some (s\<lparr>as_selected := None\<rparr>) else None)"

text \<open>Start-up: the configuration check of \<open>supabase.ts\<close>, then the first render.\<close>

definition app_boot :: "string option \<Rightarrow> string option \<Rightarrow> config_error + supabase_client \<times> app_state" where
  "app_boot url key =
     (case supabase_config url key of Inl e \<Rightarrow> Inl e | Inr client \<Rightarrow> Inr (client, app_init))"

inductive app_reachable :: "app_state \<Rightarrow> bool" where
  init: "app_reachable app_init"
| step: "app_reachable s \<Longrightarrow> app_step e s = Some s' \<Longrightarrow> app_reachable s'"

inductive_cases app_reachable_cases: "app_reachable s"

fun app_run :: "app_event list \<Rightarrow> app_state \<Rightarrow> app_state option" where
  "app_run [] s = Some s"
| "app_run (e # es) s = (case app_step e s of None \<Rightarrow> None | Some s' \<Rightarrow> app_run es s')"

subsection \<open>Reachable states\<close>

lemma app_run_reachable: "app_reachable s \<Longrightarrow> app_run es s = Some s' \<Longrightarrow> app_reachable s'"
proof (induction es arbitrary: s)
  case (Cons e es)
  then show ?case
    by (cases "app_step e s") (auto intro: app_reachable.step)
qed simp

lemma app_step_not_loading:
  "app_step e s = Some s' \<Longrightarrow> \<not> as_loading s'"
  by (cases e) (auto simp: app_screen_def split: if_splits)

text \<open>
  The spinner is shown only before the session has resolved: every reachable state
  that is loading is the initial one, with no user, no selected course and the login form
  chosen.
\<close>

lemma app_loading_initial: "app_reachable s \<Longrightarrow> as_loading s \<Longrightarrow> s = app_init"
  by (erule app_reachable.cases) (auto dest: app_step_not_loading)

text \<open>
  C25: signing out does not reset the navigation state. From the detail page of course
  \<open>c\<close>, a sign-out shows the form last chosen (the signup form if the user signed up), and
  the next sign-in, by any user, opens the detail page of \<open>c\<close> directly instead of the
  course list.
\<close>

theorem signout_keeps_selection:
  assumes "app_screen s = DetailScreen c"
    and "app_step SignOut s = Some s1" and "app_step (SignedIn v) s1 = Some s2"
  shows "app_screen s1 = (if as_showLogin s then LoginScreen else SignupScreen) \<and>
         app_screen s2 = DetailScreen c"
  using assms by (auto simp: app_screen_def split: if_splits option.splits)

text \<open>
  C26: no screen is a dead end once the session has resolved: from every such state one
  event at most leads to the course list (for a signed-in user) or the login form (for a
  signed-out one).
\<close>

theorem app_reaches_entry:
  assumes "\<not> as_loading s"
  shows "\<exists>es s'. length es \<le> 1 \<and> app_run es s = Some s' \<and> app_screen s' \<in> {HomeScreen, LoginScreen}"
proof (cases "as_user s")
  case None
  show ?thesis
  proof (cases "as_showLogin s")
    case True
    then show ?thesis
      using assms None by (intro exI [of _ "[]"]) (simp add: app_screen_def)
  next
    case False
    then show ?thesis
      using assms None by (intro exI [of _ "[ShowLogin]"]) (simp add: app_screen_def)
  qed
next
  case (Some u)
  show ?thesis
  proof (cases "as_selected s")
    case None
    then show ?thesis
      using assms Some by (intro exI [of _ "[]"]) (simp add: app_screen_def)
  next
    case (Some c)
    then show ?thesis
      using assms \<open>as_user s = Some u\<close>
      by (intro exI [of _ "[BackToCourses]"]) (simp add: app_screen_def)
  qed
qed

text \<open>
  The application starts exactly when both settings are present and non-empty
  (spec section 7 (a) counts the empty string as missing too); it then starts on the
  spinner with a client for the URL and key as given, and otherwise fails with the
  configuration error before anything renders.
\<close>

lemma app_boot_config:
  "app_boot url key =
     (case (url, key) of
        (Some u, Some k) \<Rightarrow>
          if u \<noteq> [] \<and> k \<noteq> [] then Inr (\<lparr>sb_url = u, sb_anon_key = k\<rparr>, app_init)
          else Inl MissingSupabaseEnv
      | _ \<Rightarrow> Inl MissingSupabaseEnv)"
  by (simp add: app_boot_def supabase_config_def split: option.split)

end
