(* ===== verification/Shell.thy ===== *)
theory Shell
  imports App CourseDetail
begin

text \<open>
  One client as a whole: the shell of \<open>App\<close>, the page it has mounted, and the store.
  When an event of the shell changes the screen, React unmounts the old page and mounts
  the new one with fresh state, whose effect loads its data (\<open>useEffect\<close>): the home
  page runs \<open>loadCourses\<close>, the detail page \<open>loadCourseData\<close> for the signed-in user.
  Mounting and the first load are one step here. On the detail page the user may toggle
  a lesson the page lists, or press the mark-as-completed button. Events run one at a
  time: this is one tab whose writes do not overlap (the overlapping case is \<open>Race\<close>),
  and no other client writes the store meanwhile.
\<close>

datatype page =
    NoPage
  | HomePage home_state
  | DetailPage course_detail

record client_system =
  sy_app :: app_state
  sy_page :: page
  sy_db :: db

definition user_id_of :: "app_state \<Rightarrow> uuid option" where
  "user_id_of a = map_option au_id (as_user a)"

definition mount :: "app_state \<Rightarrow> db \<Rightarrow> page" where
  "mount a d =
     (case app_screen a of
        HomeScreen \<Rightarrow> HomePage (loadCourses (role_of (user_id_of a)) d home_init)
      | DetailScreen c \<Rightarrow> DetailPage (loadCourseData (user_id_of a) c d course_detail_init)
      | _ \<Rightarrow> NoPage)"

datatype sys_event =
    ShellEvent app_event
  | ToggleLesson uuid timestamp uuid
  | MarkCourse timestamp uuid

fun sys_step :: "sys_event \<Rightarrow> client_system \<Rightarrow> client_system option" where
  "sys_step (ShellEvent e) s =
     (case app_step e (sy_app s) of
        None \<Rightarrow> None
      | Some a' \<Rightarrow>
          Some (s\<lparr>sy_app := a',
                  sy_page := (if app_screen a' = app_screen (sy_app s) then sy_page s
                              else mount a' (sy_db s))\<rparr>))"
| "sys_step (ToggleLesson lid now fresh) s =
     (case (app_screen (sy_app s), sy_page s) of
        (DetailScreen c, DetailPage st) \<Rightarrow>
          if lid \<in> set (map le_id (cd_lessons st)) then
            (let (d', st') = toggleLessonCompletion (user_id_of (sy_app s)) c lid now fresh st (sy_db s)
             in Some (s\<lparr>sy_db := d', sy_page := DetailPage st'\<rparr>))
          else None
      | _ \<Rightarrow> None)"
| "sys_step (MarkCourse now fresh) s =
     (case (app_screen (sy_app s), sy_page s) of
        (DetailScreen c, DetailPage st) \<Rightarrow>
          (let (d', st') = markCourseButton (user_id_of (sy_app s)) c now fresh st (sy_db s)
           in Some (s\<lparr>sy_db := d', sy_page := DetailPage st'\<rparr>))
      | _ \<Rightarrow> None)"

definition sys_init :: "db \<Rightarrow> client_system" where
  "sys_init d = \<lparr>sy_app = app_init, sy_page = NoPage, sy_db = d\<rparr>"

inductive sys_reachable :: "db \<Rightarrow> client_system \<Rightarrow> bool" for d0 :: db where
  init: "sys_reachable d0 (sys_init d0)"
| step: "sys_reachable d0 s \<Longrightarrow> sys_step e s = Some s' \<Longrightarrow> sys_reachable d0 s'"

fun sys_run :: "sys_event list \<Rightarrow> client_system \<Rightarrow> client_system option" where
  "sys_run [] s = Some s"
| "sys_run (e # es) s = (case sys_step e s of None \<Rightarrow> None | Some s' \<Rightarrow> sys_run es s')"

text \<open>
  The page shows the store: on the detail page of course \<open>c\<close> for user \<open>u\<close>, the
  progress rows are exactly \<open>u\<close>'s rows of \<open>c\<close> in the store.
\<close>

definition page_synced :: "client_system \<Rightarrow> bool" where
  "page_synced s \<longleftrightarrow>
     (case sy_page s of
        DetailPage st \<Rightarrow>
          (\<exists>u c. user_id_of (sy_app s) = Some u \<and> app_screen (sy_app s) = DetailScreen c \<and>
                 cd_progress st = own_progress u c (sy_db s))
      | _ \<Rightarrow> True)"

subsection \<open>Each step keeps the store and the page in step\<close>

lemma key_write_keeps:
  assumes wf: "db_wf d" and uniq: "progress_unique d"
    and sync: "cd_progress st = own_progress u c d"
    and run: "after_write (Some u) c
                (store_step (Authenticated u) (key_op u c k now fresh b (cd_progress st)) d) d st =
              (d', st')"
  shows "db_wf d' \<and> progress_unique d' \<and> cd_progress st' = own_progress u c d'"
proof (cases "find (\<lambda>p. up_lesson_id p = k) (cd_progress st)")
  case (Some p)
  have "key_post u c k now fresh b d st d' st'"
    by (rule key_post_update [OF wf uniq sync Some run])
  then show ?thesis by (simp add: key_post_def)
next
  case None
  show ?thesis
  proof (cases "key_refs_ok u c k d \<and> fresh \<notin> set (map up_id (t_user_progress d))")
    case True
    then have "key_post u c k now fresh b d st d' st'"
      using key_post_insert [OF wf uniq sync _ _ None run] by blast
    then show ?thesis by (simp add: key_post_def)
  next
    case False
    then have "after_write (Some u) c
                 (store_step (Authenticated u) (key_op u c k now fresh b (cd_progress st)) d) d st =
               (d, st)"
      by (auto simp: key_op_def None after_write_def insert_user_progress_eq progress_fk_ok_def
                     key_refs_ok_def split: option.split)
    then show ?thesis using run wf uniq sync by simp
  qed
qed

lemma toggle_keeps:
  assumes "db_wf d" "progress_unique d" "cd_progress st = own_progress u c d"
    and "toggleLessonCompletion (Some u) c lid now fresh st d = (d', st')"
  shows "db_wf d' \<and> progress_unique d' \<and> cd_progress st' = own_progress u c d'"
  using assms(4) by (intro key_write_keeps [OF assms(1-3)]) (simp add: toggle_is_key_write)

lemma mark_button_keeps:
  assumes "db_wf d" "progress_unique d" "cd_progress st = own_progress u c d"
    and "markCourseButton (Some u) c now fresh st d = (d', st')"
  shows "db_wf d' \<and> progress_unique d' \<and> cd_progress st' = own_progress u c d'"
proof (cases "isCourseCompleted (cd_progress st)")
  case True
  then show ?thesis using assms by (simp add: markCourseButton_def)
next
  case False
  then show ?thesis
    using assms(4) by (intro key_write_keeps [OF assms(1-3)])
                      (simp add: markCourseButton_def mark_is_key_write)
qed

text \<open>Every event of the shell changes the screen, so each one remounts the page.\<close>

lemma app_step_changes_screen:
  "app_step e a = Some a' \<Longrightarrow> app_screen a' \<noteq> app_screen a"
  by (cases e) (auto simp: app_screen_def split: if_splits option.splits screen.splits)

lemma detail_screen_user:
  "app_screen a = DetailScreen c \<Longrightarrow> \<exists>u. user_id_of a = Some u"
  by (auto simp: app_screen_def user_id_of_def split: if_splits option.splits)

lemma mount_synced:
  assumes "db_wf d"
  shows "page_synced \<lparr>sy_app = a, sy_page = mount a d, sy_db = d\<rparr>"
proof (cases "app_screen a")
  case (DetailScreen c)
  then obtain u where "user_id_of a = Some u" using detail_screen_user by blast
  then show ?thesis
    using DetailScreen loadCourseData_progress [OF assms]
    by (simp add: page_synced_def mount_def)
qed (simp_all add: page_synced_def mount_def)

definition sys_inv :: "client_system \<Rightarrow> bool" where
  "sys_inv s \<longleftrightarrow> db_wf (sy_db s) \<and> progress_unique (sy_db s) \<and> page_synced s"

lemma sys_step_inv:
  assumes inv: "sys_inv s" and step: "sys_step e s = Some s'"
  shows "sys_inv s'"
proof (cases e)
  case (ShellEvent ae)
  then obtain a' where a': "app_step ae (sy_app s) = Some a'"
    and s': "s' = s\<lparr>sy_app := a', sy_page := (if app_screen a' = app_screen (sy_app s) then sy_page s
                                                else mount a' (sy_db s))\<rparr>"
    using step by (auto split: option.splits)
  have "app_screen a' \<noteq> app_screen (sy_app s)"
    by (rule app_step_changes_screen [OF a'])
  then have eq: "s' = \<lparr>sy_app = a', sy_page = mount a' (sy_db s), sy_db = sy_db s\<rparr>"
    using s' by (cases s) simp
  have "page_synced \<lparr>sy_app = a', sy_page = mount a' (sy_db s), sy_db = sy_db s\<rparr>"
    using inv by (intro mount_synced) (simp add: sys_inv_def)
  then show ?thesis
    using inv unfolding eq by (simp add: sys_inv_def)
next
  case (ToggleLesson lid now fresh)
  then obtain c st where scr: "app_screen (sy_app s) = DetailScreen c" and pg: "sy_page s = DetailPage st"
    using step by (auto split: screen.splits page.splits)
  obtain u where u: "user_id_of (sy_app s) = Some u" using detail_screen_user [OF scr] by blast
  obtain d' st' where run: "toggleLessonCompletion (Some u) c lid now fresh st (sy_db s) = (d', st')"
    by (metis surj_pair)
  have s': "s' = s\<lparr>sy_db := d', sy_page := DetailPage st'\<rparr>"
    using step ToggleLesson scr pg u run by (auto split: if_splits)
  have sync: "cd_progress st = own_progress u c (sy_db s)"
    using inv scr pg u by (simp add: sys_inv_def page_synced_def)
  show ?thesis
    using toggle_keeps [OF _ _ sync run] inv s' scr u by (simp add: sys_inv_def page_synced_def)
next
  case (MarkCourse now fresh)
  then obtain c st where scr: "app_screen (sy_app s) = DetailScreen c" and pg: "sy_page s = DetailPage st"
    using step by (auto split: screen.splits page.splits)
  obtain u where u: "user_id_of (sy_app s) = Some u" using detail_screen_user [OF scr] by blast
  obtain d' st' where run: "markCourseButton (Some u) c now fresh st (sy_db s) = (d', st')"
    by (metis surj_pair)
  have s': "s' = s\<lparr>sy_db := d', sy_page := DetailPage st'\<rparr>"
    using step MarkCourse scr pg u run by auto
  have sync: "cd_progress st = own_progress u c (sy_db s)"
    using inv scr pg u by (simp add: sys_inv_def page_synced_def)
  show ?thesis
    using mark_button_keeps [OF _ _ sync run] inv s' scr u by (simp add: sys_inv_def page_synced_def)
qed

lemma sys_reachable_inv:
  assumes "sys_reachable d0 s" and "db_wf d0" and "progress_unique d0"
  shows "sys_inv s"
  using assms(1)
proof (induction rule: sys_reachable.induct)
  case init
  show ?case using assms(2,3) by (simp add: sys_inv_def sys_init_def page_synced_def)
next
  case (step s e s')
  then show ?case using sys_step_inv by blast
qed

lemma sys_run_reachable:
  "sys_reachable d0 s \<Longrightarrow> sys_run es s = Some s' \<Longrightarrow> sys_reachable d0 s'"
proof (induction es arbitrary: s)
  case (Cons e es)
  then show ?case
    by (cases "sys_step e s") (auto intro: sys_reachable.step)
qed simp

subsection \<open>Properties of a client\<close>

text \<open>
  C30: in this model of one client, a click's write and the reload after it complete
  before the next event, and every load succeeds: the runs are those of a user who waits
  for each click to take effect, on a network that does not fail. Along every such run
  from a well-formed store without duplicate keys, the store stays well-formed, no two
  progress rows share a key, and the detail page shows exactly the signed-in user's rows
  of its course. These are the hypotheses of the handler properties C1-C5, so those apply
  at every step of such a run. The two ways one client breaks them lie outside these runs
  and are proved separately: overlapping clicks (C17, C19) and a failed progress load
  (C20).
\<close>

theorem sys_reachable_invariant:
  assumes "sys_reachable d0 s" and "db_wf d0" and "progress_unique d0"
  shows "db_wf (sy_db s) \<and> progress_unique (sy_db s) \<and>
         (\<forall>st. sy_page s = DetailPage st \<longrightarrow>
            (\<exists>u c. user_id_of (sy_app s) = Some u \<and> app_screen (sy_app s) = DetailScreen c \<and>
                   cd_progress st = own_progress u c (sy_db s)))"
  using sys_reachable_inv [OF assms] by (simp add: sys_inv_def page_synced_def split: page.splits)

text \<open>
  C31: the course page a new user lands on after another user signed out (C25) shows only
  the new user's progress: the sign-in remounts the page, which loads the rows of the
  signed-in account.
\<close>

theorem signin_page_own_rows:
  assumes "sys_reachable d0 s" and "db_wf d0" and "progress_unique d0"
    and "sys_step (ShellEvent (SignedIn v)) s = Some s'" and "sy_page s' = DetailPage st"
  shows "list_all (\<lambda>p. up_user_id p = au_id v) (cd_progress st)"
proof -
  have "sys_reachable d0 s'" by (rule sys_reachable.step [OF assms(1,4)])
  then have inv: "sys_inv s'" by (rule sys_reachable_inv [OF _ assms(2,3)])
  obtain a' where a': "app_step (SignedIn v) (sy_app s) = Some a'" and eq: "sy_app s' = a'"
    using assms(4) by (auto split: option.splits)
  have "a' = (sy_app s)\<lparr>as_user := Some v\<rparr>"
    using a' by (simp split: if_splits)
  then have "as_user (sy_app s') = Some v"
    using eq by simp
  then show ?thesis
    using inv assms(5)
    by (auto simp: sys_inv_def page_synced_def user_id_of_def own_progress_def list_all_iff)
qed

end
