(* ===== verification/Tabs.thy ===== *)
theory Tabs
  imports Shell Race
begin

text \<open>
  Many clients on one store (spec section 5: the store serves many callers concurrently).
  Each open tab is a shell with its mounted page (\<open>Shell\<close>); all tabs share the store.
  A step is an event of one tab, run on the shared store, the opening of a new tab, or an
  event of the database's lifecycle (\<open>Events\<close>): a request of any other client,
  a signup, an identity's deletion, catalogue maintenance. The steps interleave in any
  order, so a tab's page may be stale when it writes; this is the setting of the race of
  spec section 4.3. The tabs' own writes only append progress rows or change their
  non-key columns (C24), and a tab left open after its identity was deleted writes nothing
  (C27).
\<close>

record tabs_system =
  ts_tabs :: "(app_state \<times> page) list"
  ts_db :: db

datatype tabs_event =
    TabEvent nat sys_event
  | OpenTab
  | Lifecycle db_event

fun tabs_step :: "tabs_event \<Rightarrow> tabs_system \<Rightarrow> tabs_system option" where
  "tabs_step (TabEvent i e) s =
     (if i < length (ts_tabs s) then
        (case sys_step e \<lparr>sy_app = fst (ts_tabs s ! i), sy_page = snd (ts_tabs s ! i), sy_db = ts_db s\<rparr> of
           None \<Rightarrow> None
         | Some s' \<Rightarrow> Some \<lparr>ts_tabs = (ts_tabs s)[i := (sy_app s', sy_page s')], ts_db = sy_db s'\<rparr>)
      else None)"
| "tabs_step OpenTab s = Some (s\<lparr>ts_tabs := ts_tabs s @ [(app_init, NoPage)]\<rparr>)"
| "tabs_step (Lifecycle e) s =
     (case db_event_step e (ts_db s) of Inl _ \<Rightarrow> None | Inr d' \<Rightarrow> Some (s\<lparr>ts_db := d'\<rparr>))"

inductive tabs_reachable :: "db \<Rightarrow> tabs_system \<Rightarrow> bool" for d0 :: db where
  init: "tabs_reachable d0 \<lparr>ts_tabs = [], ts_db = d0\<rparr>"
| step: "tabs_reachable d0 s \<Longrightarrow> tabs_step e s = Some s' \<Longrightarrow> tabs_reachable d0 s'"

fun tabs_run :: "tabs_event list \<Rightarrow> tabs_system \<Rightarrow> tabs_system option" where
  "tabs_run [] s = Some s"
| "tabs_run (e # es) s = (case tabs_step e s of None \<Rightarrow> None | Some s' \<Rightarrow> tabs_run es s')"

text \<open>
  What a client's writes do to the store: progress rows are only appended or have their
  non-key columns changed, and the other tables stay as they are. A tab event is a step of
  an open tab or the opening of one; the lifecycle's events are not.
\<close>

definition rows_persist :: "db \<Rightarrow> db \<Rightarrow> bool" where
  "rows_persist d d' \<longleftrightarrow>
     (\<exists>new. map (\<lambda>p. (up_id p, progress_key p)) (t_user_progress d') =
            map (\<lambda>p. (up_id p, progress_key p)) (t_user_progress d) @ new) \<and>
     t_auth_users d' = t_auth_users d \<and> t_profiles d' = t_profiles d \<and>
     t_courses d' = t_courses d \<and> t_lessons d' = t_lessons d"

fun tab_event :: "tabs_event \<Rightarrow> bool" where
  "tab_event (Lifecycle _) = False"
| "tab_event _ = True"

subsection \<open>A tab's effect on the store is a client request\<close>

lemma after_write_db:
  "after_write user c res d st = (d', st') \<Longrightarrow> d' = d \<or> res = Inr d'"
  by (auto simp: after_write_def split: sum.splits)

lemma toggle_db:
  "toggleLessonCompletion user c lid now fresh st d = (d', st') \<Longrightarrow>
     d' = d \<or> (\<exists>r op. store_step r op d = Inr d')"
  by (cases user) (auto simp: toggleLessonCompletion_def dest: after_write_db)

lemma mark_button_db:
  "markCourseButton user c now fresh st d = (d', st') \<Longrightarrow>
     d' = d \<or> (\<exists>r op. store_step r op d = Inr d')"
  by (cases user)
     (auto simp: markCourseButton_def markCourseCompleted_def dest: after_write_db split: if_splits)

lemma sys_step_db:
  assumes "sys_step e s = Some s'"
  shows "sy_db s' = sy_db s \<or> (\<exists>r op. store_step r op (sy_db s) = Inr (sy_db s'))"
proof (cases e)
  case (ShellEvent ae)
  then show ?thesis using assms by (auto split: option.splits)
next
  case (ToggleLesson lid now fresh)
  then show ?thesis
    using assms
    by (auto dest: toggle_db split: screen.splits page.splits if_splits prod.splits)
next
  case (MarkCourse now fresh)
  then show ?thesis
    using assms
    by (auto dest: mark_button_db split: screen.splits page.splits prod.splits)
qed

lemma tabs_step_db:
  assumes "db_reachable (ts_db s)" and "tabs_step e s = Some s'"
  shows "db_reachable (ts_db s')"
proof (cases e)
  case (TabEvent i se)
  then obtain s1 where st: "sys_step se \<lparr>sy_app = fst (ts_tabs s ! i), sy_page = snd (ts_tabs s ! i),
                                         sy_db = ts_db s\<rparr> = Some s1"
    and db: "ts_db s' = sy_db s1"
    using assms(2) by (auto split: if_splits option.splits)
  show ?thesis
    using sys_step_db [OF st] assms(1) db
    by (auto intro: db_reachable.step [where e = "Request _ _"])
next
  case OpenTab
  then show ?thesis using assms by auto
next
  case (Lifecycle de)
  then show ?thesis
    using assms by (auto intro: db_reachable.step split: sum.splits)
qed

lemma tabs_run_reachable:
  "tabs_reachable d0 s \<Longrightarrow> tabs_run es s = Some s' \<Longrightarrow> tabs_reachable d0 s'"
proof (induction es arbitrary: s)
  case (Cons e es)
  then show ?case
    by (cases "tabs_step e s") (auto intro: tabs_reachable.step)
qed simp

subsection \<open>No client write removes a progress row\<close>

lemma rows_persist_refl [simp]: "rows_persist d d"
  by (simp add: rows_persist_def)

lemma rows_persist_trans: "rows_persist d1 d2 \<Longrightarrow> rows_persist d2 d3 \<Longrightarrow> rows_persist d1 d3"
  by (fastforce simp: rows_persist_def)

lemma rows_persist_insert:
  "insert_user_progress r fresh now ins d = Inr d' \<Longrightarrow> rows_persist d d'"
  by (auto simp: rows_persist_def insert_user_progress_def Let_def split: if_splits)

lemma rows_persist_update:
  "update_user_progress r pid pa d = Inr d' \<Longrightarrow> rows_persist d d'"
  by (auto simp: rows_persist_def update_user_progress_def apply_patch_def progress_key_def o_def
           split: if_splits)

lemma rows_persist_toggle_op:
  "store_step r (toggle_op u c l now fresh ps) d = Inr d' \<Longrightarrow> rows_persist d d'"
  by (auto simp: toggle_op_def Let_def dest: rows_persist_insert rows_persist_update
           split: option.splits)

lemma rows_persist_mark_course_op:
  "store_step r (mark_course_op u c now fresh ps) d = Inr d' \<Longrightarrow> rows_persist d d'"
  by (auto simp: mark_course_op_def dest: rows_persist_insert rows_persist_update
           split: option.splits)

lemma rows_persist_after_write:
  "after_write user c res d st = (d', st') \<Longrightarrow> (res = Inr d' \<Longrightarrow> rows_persist d d') \<Longrightarrow>
     rows_persist d d'"
  by (auto simp: after_write_def split: sum.splits)

lemma rows_persist_toggle:
  "toggleLessonCompletion user c l now fresh st d = (d', st') \<Longrightarrow> rows_persist d d'"
  by (cases user)
     (auto simp: toggleLessonCompletion_def elim!: rows_persist_after_write
           intro: rows_persist_toggle_op)

lemma rows_persist_mark_button:
  "markCourseButton user c now fresh st d = (d', st') \<Longrightarrow> rows_persist d d'"
  by (cases user)
     (auto simp: markCourseButton_def markCourseCompleted_def elim!: rows_persist_after_write
           intro: rows_persist_mark_course_op split: if_splits)

lemma rows_persist_sys_step:
  assumes "sys_step e s = Some s'"
  shows "rows_persist (sy_db s) (sy_db s')"
proof (cases e)
  case (ShellEvent ae)
  then show ?thesis using assms by (auto split: option.splits)
next
  case (ToggleLesson lid now fresh)
  then show ?thesis
    using assms
    by (auto dest: rows_persist_toggle split: screen.splits page.splits if_splits prod.splits)
next
  case (MarkCourse now fresh)
  then show ?thesis
    using assms
    by (auto dest: rows_persist_mark_button split: screen.splits page.splits prod.splits)
qed

lemma rows_persist_tabs_step:
  assumes "tabs_step e s = Some s'" and "tab_event e"
  shows "rows_persist (ts_db s) (ts_db s')"
proof (cases e)
  case (TabEvent i se)
  then show ?thesis
    using assms(1) by (auto dest: rows_persist_sys_step split: if_splits option.splits)
qed (use assms in auto)

lemma key_count_rows_persist:
  fixes u c :: uuid and k :: "uuid option"
  assumes "rows_persist d d'"
  shows "key_count u c k d \<le> key_count u c k d'"
proof -
  obtain new where
    "map (\<lambda>p. (up_id p, progress_key p)) (t_user_progress d') =
       map (\<lambda>p. (up_id p, progress_key p)) (t_user_progress d) @ new"
    using assms unfolding rows_persist_def by blast
  then have "map snd (map (\<lambda>p. (up_id p, progress_key p)) (t_user_progress d')) =
             map snd (map (\<lambda>p. (up_id p, progress_key p)) (t_user_progress d)) @ map snd new"
    by simp
  then have keys: "map progress_key (t_user_progress d') =
                   map progress_key (t_user_progress d) @ map snd new"
    by (simp add: o_def)
  have "key_count u c k d' =
          length (filter (\<lambda>x. x = (u, c, k)) (map progress_key (t_user_progress d')))"
    by (simp add: key_count_def filter_map o_def)
  also have "\<dots> = key_count u c k d + length (filter (\<lambda>x. x = (u, c, k)) (map snd new))"
    by (simp add: keys key_count_def filter_map o_def)
  finally show ?thesis by simp
qed

subsection \<open>A tab whose identity was deleted\<close>

lemma orphan_insert_fails:
  "u \<notin> set (user_ids d) \<Longrightarrow> insert_user_progress (Authenticated u) fresh now ins d \<noteq> Inr d'"
  by (auto simp: insert_user_progress_eq progress_fk_ok_def)

lemma orphan_update_noop:
  assumes "db_wf d" and "u \<notin> set (user_ids d)"
  shows "update_user_progress (Authenticated u) pid pa d = Inr d"
proof -
  have "\<forall>p\<in>set (t_user_progress d). up_user_id p \<noteq> u"
    using assms by (auto simp: wf_defs progress_fk_ok_def)
  then have "(if up_id p = pid \<and> Authenticated u = Authenticated (up_user_id p)
               then apply_patch pa p else p) = p" if "p \<in> set (t_user_progress d)" for p
    using that by auto
  then have "map (\<lambda>p. if up_id p = pid \<and> Authenticated u = Authenticated (up_user_id p)
                       then apply_patch pa p else p) (t_user_progress d) = t_user_progress d"
    by (rule map_idI)
  then show ?thesis by (simp add: update_user_progress_eq)
qed

lemma orphan_toggle:
  assumes "db_wf d" and "u \<notin> set (user_ids d)"
    and "toggleLessonCompletion (Some u) c l now fresh st d = (d', st')"
  shows "d' = d"
  using assms
  by (auto simp: toggleLessonCompletion_def after_write_def toggle_op_def Let_def
                 orphan_update_noop dest: orphan_insert_fails split: option.splits sum.splits)

lemma orphan_mark_button:
  assumes "db_wf d" and "u \<notin> set (user_ids d)"
    and "markCourseButton (Some u) c now fresh st d = (d', st')"
  shows "d' = d"
  using assms
  by (auto simp: markCourseButton_def markCourseCompleted_def after_write_def mark_course_op_def
                 orphan_update_noop dest: orphan_insert_fails split: option.splits sum.splits if_splits)

lemma orphan_sys_step:
  assumes "db_wf (sy_db s)" and "user_id_of (sy_app s) = Some u" and "u \<notin> set (user_ids (sy_db s))"
    and "sys_step e s = Some s'"
  shows "sy_db s' = sy_db s"
proof (cases e)
  case (ShellEvent ae)
  then show ?thesis using assms(4) by (auto split: option.splits)
next
  case (ToggleLesson lid now fresh)
  then show ?thesis
    using assms(2,4)
    by (auto dest: orphan_toggle [OF assms(1,3)]
             split: screen.splits page.splits if_splits prod.splits)
next
  case (MarkCourse now fresh)
  then show ?thesis
    using assms(2,4)
    by (auto dest: orphan_mark_button [OF assms(1,3)] split: screen.splits page.splits prod.splits)
qed

text \<open>
  Every tab step changes the store as one client request does, or not at all, so the
  stores the tabs reach are stores of the database's lifecycle (\<open>Events\<close>).
\<close>

lemma tabs_reachable_db:
  assumes "tabs_reachable d0 s" and "db_reachable d0"
  shows "db_reachable (ts_db s)"
  using assms(1)
proof (induction rule: tabs_reachable.induct)
  case init
  show ?case using assms(2) by simp
next
  case (step s e s')
  then show ?case using tabs_step_db by blast
qed

subsection \<open>Properties of many clients\<close>

text \<open>
  C24: the tabs' writes never remove a progress row or change its key: along any
  interleaving of events of any number of open tabs, the store's progress rows keep their
  order, identities and keys, new rows are only appended, and no other table changes. So
  the count of rows of every (user, course, lesson) key never decreases: once the race of
  C17 has written a duplicate, nothing the client does removes it.
\<close>

theorem tabs_client_rows_persist:
  assumes "tabs_run es s = Some s'" and "list_all tab_event es"
  shows "rows_persist (ts_db s) (ts_db s') \<and>
         (\<forall>u c k. key_count u c k (ts_db s) \<le> key_count u c k (ts_db s'))"
proof -
  have "rows_persist (ts_db s) (ts_db s')"
    using assms
  proof (induction es arbitrary: s)
    case (Cons e es)
    then obtain s1 where st: "tabs_step e s = Some s1" and run: "tabs_run es s1 = Some s'"
      by (auto split: option.splits)
    then show ?case
      using Cons rows_persist_tabs_step [OF st] rows_persist_trans by auto
  qed simp
  then show ?thesis using key_count_rows_persist by blast
qed

text \<open>
  C27: a tab whose identity has been deleted while it stays open (the session is still in
  the tab) cannot write: on a store satisfying the schema's constraints, toggling a lesson
  or marking the course leaves the store unchanged, because an insert fails on the
  foreign key to the identity and an update matches no row of the deleted user.
\<close>

theorem tabs_orphan_tab_noop:
  assumes "db_wf (ts_db s)" and "user_id_of (fst (ts_tabs s ! i)) = Some u"
    and "u \<notin> set (user_ids (ts_db s))" and "tabs_step (TabEvent i e) s = Some s'"
  shows "ts_db s' = ts_db s"
proof -
  obtain s1 where st: "sys_step e \<lparr>sy_app = fst (ts_tabs s ! i), sy_page = snd (ts_tabs s ! i),
                                   sy_db = ts_db s\<rparr> = Some s1"
    and db: "ts_db s' = sy_db s1"
    using assms(4) by (auto split: if_splits option.splits)
  show ?thesis
    using orphan_sys_step [OF _ _ _ st] assms(1-3) db by simp
qed

end
