(* ===== verification/CourseDetailView.thy ===== *)
theory CourseDetailView
  imports CourseDetail
begin

text \<open>
  What the course detail page renders (\<open>src/src/pages/CourseDetail.tsx\<close>, lines
  133-278), in full: the spinner, the error box (\<open>error || 'Course not found'\<close>), or the
  course with its completed badge, its facts, the percentage, one row per lesson
  (numbered \<open>index + 1\<close> in the order the lessons query returned, with a check mark,
  the title, the content when it is non-empty, the duration) and the
  mark-as-completed button. \<open>lessons.content\<close> may be \<open>NULL\<close> in the table although
  the row interface types it as a string; \<open>lesson.content &&\<close> hides \<open>null\<close> and
  \<open>''\<close> alike, so the string model loses nothing here.
  \<open>order_by_order_number\<close> is the lessons query's contract (spec section 4.2: ordered
  by order position ascending; the position is advisory and may repeat).
\<close>

record lesson_row =
  lr_number :: nat
  lr_lesson_id :: uuid
  lr_title :: string
  lr_completed :: bool
  lr_content :: "string option"
  lr_duration :: int

fun lesson_row_of :: "UserProgress list \<Rightarrow> nat \<times> Lesson \<Rightarrow> lesson_row" where
  "lesson_row_of progress (index, lesson) =
     \<lparr>lr_number = index + 1, lr_lesson_id = le_id lesson, lr_title = le_title lesson,
      lr_completed = isLessonCompleted progress (le_id lesson),
      lr_content = (if le_content lesson = [] then None else Some (le_content lesson)),
      lr_duration = le_duration_minutes lesson\<rparr>"

definition lesson_rows :: "Lesson list \<Rightarrow> UserProgress list \<Rightarrow> lesson_row list" where
  "lesson_rows lessons progress = map (lesson_row_of progress) (enumerate 0 lessons)"

record course_page =
  cp_category :: string
  cp_completed_badge :: bool
  cp_title :: string
  cp_description :: string
  cp_duration :: int
  cp_lesson_count :: nat
  cp_difficulty :: string
  cp_percent :: int
  cp_rows :: "lesson_row list"
  cp_button_disabled :: bool
  cp_button_label :: string

datatype detail_page =
    DPLoading
  | DPError string
  | DPCourse Course course_page

definition detail_page :: "course_detail \<Rightarrow> detail_page" where
  "detail_page st =
     (if cd_loading st then DPLoading
      else if cd_error st \<noteq> [] \<or> cd_course st = None
      then DPError (if cd_error st \<noteq> [] then cd_error st else ''Course not found'')
      else
        (let course = the (cd_course st);
             progressPercentage = calculateProgress (cd_lessons st) (cd_progress st);
             courseCompleted = isCourseCompleted (cd_progress st)
         in DPCourse course
              \<lparr>cp_category = co_category course, cp_completed_badge = courseCompleted,
               cp_title = co_title course, cp_description = co_description course,
               cp_duration = co_duration_minutes course, cp_lesson_count = length (cd_lessons st),
               cp_difficulty = co_difficulty course, cp_percent = progressPercentage,
               cp_rows = lesson_rows (cd_lessons st) (cd_progress st),
               cp_button_disabled = courseCompleted,
               cp_button_label =
                 (if courseCompleted then ''Course Completed!'' else ''Mark Course as Completed'')\<rparr>))"

definition order_by_order_number :: "Lesson list \<Rightarrow> Lesson list \<Rightarrow> bool" where
  "order_by_order_number rows result \<longleftrightarrow>
     mset result = mset rows \<and> sorted (map le_order_number result)"

subsection \<open>Rows and their numbering\<close>

lemma lesson_rows_from:
  "map (lr_number \<circ> lesson_row_of ps) (enumerate n ls) = [Suc n..<Suc n + length ls]"
  "map (lr_lesson_id \<circ> lesson_row_of ps) (enumerate n ls) = map le_id ls"
  "map (lr_completed \<circ> lesson_row_of ps) (enumerate n ls) = map (\<lambda>l. isLessonCompleted ps (le_id l)) ls"
  by (induction ls arbitrary: n) (simp_all add: upt_rec)

lemma lesson_rows_proj:
  "map lr_number (lesson_rows ls ps) = [1..<length ls + 1]"
  "map lr_lesson_id (lesson_rows ls ps) = map le_id ls"
  "map lr_completed (lesson_rows ls ps) = map (\<lambda>l. isLessonCompleted ps (le_id l)) ls"
  "length (lesson_rows ls ps) = length ls"
  using lesson_rows_from [of ps 0 ls] by (simp_all add: lesson_rows_def)

lemma loadCourseData_lessons:
  assumes "db_wf d"
  shows "cd_lessons (loadCourseData (Some u) courseId d st) =
           sort_key le_order_number (filter (\<lambda>l. le_course_id l = courseId) (t_lessons d))"
proof -
  obtain c where "fetch_course (Authenticated u) courseId d = Inr c"
    using fetch_course_ok [OF assms] by blast
  then show ?thesis
    by (simp add: loadCourseData_def apply_course_data_def fetch_lessons_def fetch_progress_own
                  select_lessons_def)
qed

subsection \<open>Properties of the rendered page\<close>


text \<open>
  C28: the lesson list agrees with the percentage: the rows are numbered 1 to n in the
  order of the lessons, their check marks are the lessons' completed flags, and the
  percentage shown is the rounding of the number of check marks over the number of rows.
\<close>

theorem lesson_rows_consistent:
  "map lr_number (lesson_rows ls ps) = [1..<length ls + 1] \<and>
   map lr_lesson_id (lesson_rows ls ps) = map le_id ls \<and>
   length (filter lr_completed (lesson_rows ls ps)) = completedLessons ls ps \<and>
   calculateProgress ls ps =
     (if lesson_rows ls ps = [] then 0
      else js_round (of_nat (length (filter lr_completed (lesson_rows ls ps))) /
                     of_nat (length (lesson_rows ls ps)) * 100))"
proof -
  have "length (filter lr_completed (lesson_rows ls ps)) =
        length (filter (\<lambda>b. b) (map lr_completed (lesson_rows ls ps)))"
    by (simp add: filter_map o_def)
  also have "\<dots> = length (filter (\<lambda>b. b) (map (\<lambda>l. isLessonCompleted ps (le_id l)) ls))"
    by (simp only: lesson_rows_proj(3))
  also have "\<dots> = completedLessons ls ps"
    by (simp add: completedLessons_def filter_map o_def)
  finally have "length (filter lr_completed (lesson_rows ls ps)) = completedLessons ls ps" .
  moreover have "lesson_rows ls ps = [] \<longleftrightarrow> ls = []"
    using lesson_rows_proj(4) [of ls ps] by (metis length_0_conv)
  ultimately show ?thesis
    using lesson_rows_proj(1,2,4) [of ls ps] by (simp add: calculateProgress_def)
qed

text \<open>
  C29: for a signed-in caller the page's lessons are the course's lessons ordered by
  position ascending, as spec section 4.2 requires; when no two lessons of the course
  share a position, every order meeting that contract is the one the page shows.
\<close>

theorem loadCourseData_lessons_order:
  assumes "db_wf d"
  shows "order_by_order_number (filter (\<lambda>l. le_course_id l = courseId) (t_lessons d))
           (cd_lessons (loadCourseData (Some u) courseId d st)) \<and>
         (distinct (map le_order_number (filter (\<lambda>l. le_course_id l = courseId) (t_lessons d))) \<longrightarrow>
          (\<forall>ys. order_by_order_number (filter (\<lambda>l. le_course_id l = courseId) (t_lessons d)) ys \<longrightarrow>
             ys = cd_lessons (loadCourseData (Some u) courseId d st)))"
proof -
  let ?rows = "filter (\<lambda>l. le_course_id l = courseId) (t_lessons d)"
  have "order_by_order_number ?rows (sort_key le_order_number ?rows)"
    by (simp add: order_by_order_number_def sorted_sort_key)
  moreover have "ys = sort_key le_order_number ?rows"
    if "distinct (map le_order_number ?rows)" and "order_by_order_number ?rows ys" for ys
    using that(2) unfolding order_by_order_number_def
    by (intro sort_key_unique [OF that(1)]) simp_all
  ultimately show ?thesis
    by (simp add: loadCourseData_lessons [OF assms])
qed

end
