(* ===== verification/Binary64.thy ===== *)
theory Binary64
  imports Progress "HOL-Library.Log_Nat"
begin

text \<open>
  The arithmetic of \<open>calculateProgress\<close> as JavaScript performs it
  (\<open>src/src/pages/CourseDetail.tsx\<close>, line 59:
  \<open>Math.round((completedLessons / lessons.length) * 100)\<close>). JavaScript numbers are
  IEEE 754 binary64 values; the division and the multiplication each round their exact
  result to the nearest value with a 53-bit significand, ties to even. \<open>fl\<close> is that
  rounding on rationals: \<open>fexp\<close> is the binary exponent of a positive rational (from
  the bit lengths of its numerator and denominator), \<open>round_even\<close> rounds to the nearest
  integer with ties to even. Overflow and subnormal numbers are not modelled: the
  operands here are counts below \<open>2^53\<close> and quotients between \<open>1/n\<close> and 100.
  \<open>Math.round\<close> of a double is \<open>js_round\<close> of its exact value.
  \<open>calculateProgress_code\<close> is the code's function; \<open>calculateProgress\<close>
  (\<open>Progress\<close>) is its exact-arithmetic reading, which is the spec's formula. The two
  differ by at most one, and agree unless the exact percentage lies exactly halfway
  between two integers.
\<close>

definition fexp :: "rat \<Rightarrow> int" where
  "fexp q =
     (let (a, b) = quotient_of q; k = bitlen a - bitlen b in
      if of_int b * 2 powi k \<le> (of_int a :: rat) then k else k - 1)"

definition round_even :: "rat \<Rightarrow> int" where
  "round_even x =
     (let f = \<lfloor>x\<rfloor>; r = x - of_int f in
      if r < 1 / 2 then f else if 1 / 2 < r then f + 1 else if even f then f else f + 1)"

definition fl :: "rat \<Rightarrow> rat" where
  "fl q =
     (if q = 0 then 0
      else let a = \<bar>q\<bar>; e = fexp a - 52 in sgn q * (of_int (round_even (a / 2 powi e)) * 2 powi e))"

definition fdiv :: "rat \<Rightarrow> rat \<Rightarrow> rat" where
  "fdiv x y = fl (x / y)"

definition fmul :: "rat \<Rightarrow> rat \<Rightarrow> rat" where
  "fmul x y = fl (x * y)"

definition calculateProgress_code :: "Lesson list \<Rightarrow> UserProgress list \<Rightarrow> int" where
  "calculateProgress_code lessons progress =
     (if length lessons = 0 then 0
      else js_round (fmul (fdiv (of_nat (completedLessons lessons progress)) (of_nat (length lessons))) 100))"

subsection \<open>Rounding error\<close>

lemma bitlen_pos: "0 < x \<Longrightarrow> 1 \<le> bitlen x"
  using bitlen_ge_iff_power [of 1 x] by simp

lemma pow2_bitlen_bounds:
  assumes "0 < x"
  shows "(2 :: rat) powi (bitlen x - 1) \<le> of_int x" and "of_int x < (2 :: rat) powi bitlen x"
proof -
  have l: "1 \<le> bitlen x" using bitlen_pos [OF assms] .
  have b: "2 ^ nat (bitlen x - 1) \<le> x" "x < 2 ^ nat (bitlen x)"
    using bitlen_bounds [OF assms] by auto
  have "(2 :: rat) powi (bitlen x - 1) = of_int (2 ^ nat (bitlen x - 1))"
    using l by (simp add: power_int_def)
  then show "(2 :: rat) powi (bitlen x - 1) \<le> of_int x"
    using b(1) by (simp only: of_int_le_iff)
  have "(2 :: rat) powi bitlen x = of_int (2 ^ nat (bitlen x))"
    using l by (simp add: power_int_def)
  then show "of_int x < (2 :: rat) powi bitlen x"
    using b(2) by (simp only: of_int_less_iff)
qed

lemma fexp_le:
  assumes "0 < q"
  shows "2 powi fexp q \<le> q"
proof -
  obtain a b where qo: "quotient_of q = (a, b)" by (cases "quotient_of q") blast
  have b0: "0 < b" using quotient_of_denom_pos [OF qo] .
  have q: "q = of_int a / of_int b" using quotient_of_div [OF qo] .
  have a0: "0 < a" using assms b0 by (simp add: q zero_less_divide_iff)
  define k where "k = bitlen a - bitlen b"
  show ?thesis
  proof (cases "of_int b * 2 powi k \<le> (of_int a :: rat)")
    case True
    then have "fexp q = k" by (simp add: fexp_def qo k_def)
    then show ?thesis using True b0 by (simp add: q pos_le_divide_eq mult.commute)
  next
    case False
    then have e: "fexp q = k - 1" by (simp add: fexp_def qo k_def)
    have "(2 :: rat) powi (k - 1) = 2 powi ((bitlen a - 1) - bitlen b)"
      by (rule arg_cong [where f = "\<lambda>e. 2 powi e"]) (simp add: k_def)
    also have "\<dots> = 2 powi (bitlen a - 1) / 2 powi bitlen b"
      using power_int_diff [of "2 :: rat" "bitlen a - 1" "bitlen b"] by simp
    also have "\<dots> \<le> of_int a / 2 powi bitlen b"
      using pow2_bitlen_bounds(1) [OF a0] by (simp add: divide_right_mono)
    also have "\<dots> \<le> of_int a / of_int b"
      using pow2_bitlen_bounds(2) [OF b0] a0 b0
      by (intro divide_left_mono) auto
    finally have "2 powi (k - 1) \<le> q" by (simp add: q)
    then show ?thesis by (simp add: e)
  qed
qed

lemma round_even_err: "\<bar>of_int (round_even x) - x\<bar> \<le> 1 / 2"
proof -
  have f: "of_int \<lfloor>x\<rfloor> \<le> x" "x < of_int \<lfloor>x\<rfloor> + 1"
    using floor_correct [of x] by simp_all
  then show ?thesis
    unfolding round_even_def Let_def by (auto simp: abs_if) (use f in linarith)+
qed

lemma fl_err:
  assumes "0 \<le> q"
  shows "\<bar>fl q - q\<bar> \<le> q / 2 ^ 53"
proof (cases "q = 0")
  case True
  then show ?thesis by (simp add: fl_def)
next
  case False
  then have q: "0 < q" using assms by simp
  define s :: rat where "s = 2 powi (fexp q - 52)"
  have s0: "0 < s" by (simp add: s_def)
  have fl: "fl q = of_int (round_even (q / s)) * s"
    using q by (simp add: fl_def s_def Let_def)
  have "s = 2 powi fexp q / 2 ^ 52"
    using power_int_diff [of "2 :: rat" "fexp q" 52] by (simp add: s_def)
  then have s_le: "s \<le> q / 2 ^ 52"
    using fexp_le [OF q] by (simp add: divide_right_mono)
  have "fl q - q = (of_int (round_even (q / s)) - q / s) * s"
    using s0 by (simp add: fl left_diff_distrib)
  then have "\<bar>fl q - q\<bar> = s * \<bar>of_int (round_even (q / s)) - q / s\<bar>"
    using s0 by (simp add: abs_mult)
  also have "\<dots> \<le> s * (1 / 2)"
    using round_even_err [of "q / s"] s0 by (simp add: mult_left_mono)
  also have "\<dots> \<le> q / 2 ^ 53"
    using s_le by simp
  finally show ?thesis .
qed

lemma fl_nonneg: "0 \<le> q \<Longrightarrow> 0 \<le> fl q"
proof -
  assume q: "0 \<le> q"
  have "- (fl q - q) \<le> q / 2 ^ 53" using abs_le_D2 [OF fl_err [OF q]] .
  then have "q - q / 2 ^ 53 \<le> fl q" by linarith
  moreover have "0 \<le> q - q / 2 ^ 53" using q by simp
  ultimately show ?thesis by linarith
qed

lemma percent_code_err:
  assumes n: "0 < n" and c: "c \<le> n"
  shows "\<bar>fmul (fdiv (of_nat c) (of_nat n)) 100 - of_nat c / of_nat n * 100\<bar> < 1 / 2 ^ 45"
proof -
  define x :: rat where "x = of_nat c / of_nat n"
  define y where "y = fl x"
  have x0: "0 \<le> x" and x1: "x \<le> 1" using n c by (simp_all add: x_def)
  have e1: "\<bar>y - x\<bar> \<le> x / 2 ^ 53" using fl_err [OF x0] by (simp add: y_def)
  have y0: "0 \<le> y" using fl_nonneg [OF x0] by (simp add: y_def)
  have "y - x \<le> x / 2 ^ 53" using abs_le_D1 [OF e1] .
  then have y1: "y \<le> x + x / 2 ^ 53" by linarith
  have e2: "\<bar>fl (y * 100) - y * 100\<bar> \<le> y * 100 / 2 ^ 53"
    using fl_err [of "y * 100"] y0 by simp
  have "\<bar>fl (y * 100) - x * 100\<bar> \<le> \<bar>fl (y * 100) - y * 100\<bar> + 100 * \<bar>y - x\<bar>"
  proof -
    have "\<bar>fl (y * 100) - x * 100\<bar> = \<bar>(fl (y * 100) - y * 100) + (y - x) * 100\<bar>"
      by (simp add: algebra_simps)
    also have "\<dots> \<le> \<bar>fl (y * 100) - y * 100\<bar> + \<bar>(y - x) * 100\<bar>"
      by (rule abs_triangle_ineq)
    also have "\<dots> = \<bar>fl (y * 100) - y * 100\<bar> + 100 * \<bar>y - x\<bar>"
      by (simp only: abs_mult mult.commute)
    finally show ?thesis .
  qed
  also have "\<dots> \<le> (x + x / 2 ^ 53) * 100 / 2 ^ 53 + 100 * (x / 2 ^ 53)"
    using e1 e2 y1 by (simp add: divide_right_mono)
  also have "\<dots> \<le> (1 + 1 / 2 ^ 53) * 100 / 2 ^ 53 + 100 * (1 / 2 ^ 53)"
    using x1 x0 by (intro add_mono divide_right_mono mult_right_mono) simp_all
  also have "\<dots> < 1 / 2 ^ 45" by simp
  finally show ?thesis by (simp add: fmul_def fdiv_def y_def x_def)
qed

subsection \<open>The code's percentage against the exact one\<close>

lemma js_round_close:
  fixes a :: rat and c n :: nat
  assumes n: "0 < n" and close: "\<bar>a - of_nat c / of_nat n * 100\<bar> < 1 / of_nat (2 * n)"
  shows "js_round (of_nat c / of_nat n * 100) - 1 \<le> js_round a \<and>
         js_round a \<le> js_round (of_nat c / of_nat n * 100) \<and>
         ((200 * c + n) mod (2 * n) \<noteq> 0 \<longrightarrow> js_round a = js_round (of_nat c / of_nat n * 100))"
proof -
  define N d where "N = 200 * c + n" and "d = 2 * n"
  define t r where "t = N div d" and "r = N mod d"
  have d0: "0 < d" using n by (simp add: d_def)
  have d2: "(2 :: rat) \<le> of_nat d" using n by (simp add: d_def)
  have r2: "r + 1 \<le> d" using d0 by (simp add: r_def Suc_le_eq)
  have Nd: "N = t * d + r" by (simp add: t_def r_def)
  have b: "of_nat c / of_nat n * 100 + 1 / 2 = (of_nat t :: rat) + of_nat r / of_nat d"
  proof -
    have "of_nat c / of_nat n * 100 + 1 / 2 = (of_nat N / of_nat d :: rat)"
      using n by (simp add: N_def d_def field_simps)
    also have "\<dots> = of_nat t + of_nat r / of_nat d"
      using d0 by (simp add: Nd field_simps)
    finally show ?thesis .
  qed
  have rd: "0 \<le> (of_nat r / of_nat d :: rat)" "(of_nat r / of_nat d :: rat) < 1"
    using d0 r2 by (simp_all add: divide_less_eq)
  have jb: "js_round (of_nat c / of_nat n * 100) = int t"
    unfolding js_round_def b using rd by (simp add: floor_eq_iff)
  have lo: "(of_nat r - 1) / of_nat d > (-1 :: rat)"
  proof -
    have "- of_nat d < (of_nat r - 1 :: rat)" using d2 by simp
    then show ?thesis using d2 by (simp add: less_divide_eq)
  qed
  have hi: "(of_nat r + 1) / of_nat d \<le> (1 :: rat)"
    using r2 d0 by (simp add: divide_le_eq)
  have inv: "1 / of_nat (2 * n) = (1 / of_nat d :: rat)" by (simp add: d_def)
  have a_lo: "of_nat t + (of_nat r - 1) / of_nat d < a + 1 / 2"
    using close b unfolding inv by (simp add: diff_divide_distrib abs_less_iff)
  have a_hi: "a + 1 / 2 < of_nat t + (of_nat r + 1) / of_nat d"
    using close b unfolding inv by (simp add: add_divide_distrib abs_less_iff)
  have "int t - 1 \<le> js_round a"
    unfolding js_round_def using a_lo lo by (simp add: le_floor_iff)
  moreover have "js_round a \<le> int t"
    unfolding js_round_def using a_hi hi by (simp add: floor_le_iff)
  moreover have "js_round a = int t" if "(200 * c + n) mod (2 * n) \<noteq> 0"
  proof -
    have "1 \<le> r" using that by (simp add: r_def N_def d_def)
    then have "(of_nat r - 1) / of_nat d \<ge> (0 :: rat)" using d0 by simp
    then show ?thesis
      unfolding js_round_def using a_lo a_hi hi by (simp add: floor_eq_iff)
  qed
  ultimately show ?thesis using jb by simp
qed

lemma pow2_45_close: "n < 2 ^ 44 \<Longrightarrow> (1 / 2 ^ 45 :: rat) \<le> 1 / of_nat (2 * n) \<or> n = 0"
  by (cases "n = 0") (simp_all add: frac_le)

text \<open>
  C9: for any course with fewer than \<open>2^44\<close> lessons, the percentage the code computes
  in binary64 arithmetic is the exact one (the spec's \<open>round(100 * completed /
  lessons)\<close>) or one less; it is the exact one whenever \<open>100 * completed / lessons\<close>
  is not exactly halfway between two integers. At the halves the double rounding can
  fall below the half: 23 of 40 lessons give 57, not 58.
\<close>

theorem calculateProgress_code_agrees:
  assumes "length lessons < 2 ^ 44"
  shows "calculateProgress lessons progress - 1 \<le> calculateProgress_code lessons progress \<and>
         calculateProgress_code lessons progress \<le> calculateProgress lessons progress \<and>
         ((200 * completedLessons lessons progress + length lessons) mod (2 * length lessons) \<noteq> 0 \<longrightarrow>
            calculateProgress_code lessons progress = calculateProgress lessons progress)"
proof (cases "lessons = []")
  case True
  then show ?thesis by (simp add: calculateProgress_def calculateProgress_code_def)
next
  case False
  define c n where "c = completedLessons lessons progress" and "n = length lessons"
  have n: "0 < n" using False by (simp add: n_def)
  have c: "c \<le> n" by (simp add: c_def n_def completedLessons_le)
  have "(1 / 2 ^ 45 :: rat) \<le> 1 / of_nat (2 * n)"
    using pow2_45_close [of n] assms n by (simp add: n_def)
  then have "\<bar>fmul (fdiv (of_nat c) (of_nat n)) 100 - of_nat c / of_nat n * 100\<bar> < 1 / of_nat (2 * n)"
    using percent_code_err [OF n c] by linarith
  from js_round_close [OF n this]
  show ?thesis
    using False by (simp add: calculateProgress_def calculateProgress_code_def c_def n_def)
qed

end
