(* ===== verification/Scenario.thy ===== *)
theory Scenario
  imports Race Tabs CourseDetailView Binary64
begin

text \<open>
  A concrete store for the witnesses: one account
  \<open>u1\<close> with its profile, one course \<open>c1\<close> with lessons \<open>l1\<close> and \<open>l2\<close>, and
  no progress yet; the page state is the one \<open>loadCourseData\<close> produces for it.
\<close>

definition demo_user :: auth_user where
  "demo_user = \<lparr>au_id = ''u1'', au_email = Some ''u1@example.org'', au_raw_user_meta_data = None\<rparr>"

definition demo_profile :: Profile where
  "demo_profile = \<lparr>pr_id = ''u1'', pr_email = ''u1@example.org'', pr_full_name = '''',
                   pr_created_at = 0, pr_updated_at = 0\<rparr>"

definition demo_course :: Course where
  "demo_course = \<lparr>co_id = ''c1'', co_title = ''Intro'', co_description = ''An introduction'',
                  co_thumbnail_url = '''', co_category = ''General'', co_difficulty = ''beginner'',
                  co_duration_minutes = 60, co_created_at = 0, co_updated_at = 0\<rparr>"

definition demo_lesson1 :: Lesson where
  "demo_lesson1 = \<lparr>le_id = ''l1'', le_course_id = ''c1'', le_title = ''One'', le_content = '''',
                   le_order_number = 1, le_duration_minutes = 30, le_created_at = 0\<rparr>"

definition demo_lesson2 :: Lesson where
  "demo_lesson2 = \<lparr>le_id = ''l2'', le_course_id = ''c1'', le_title = ''Two'', le_content = '''',
                   le_order_number = 2, le_duration_minutes = 30, le_created_at = 0\<rparr>"

definition demo_db :: db where
  "demo_db = \<lparr>t_auth_users = [demo_user], t_profiles = [demo_profile], t_courses = [demo_course],
              t_lessons = [demo_lesson1, demo_lesson2], t_user_progress = []\<rparr>"

definition demo_page :: course_detail where
  "demo_page = loadCourseData (Some ''u1'') ''c1'' demo_db course_detail_init"

definition demo_insert :: progress_insert where
  "demo_insert = \<lparr>ins_user_id = ''u1'', ins_course_id = ''c1'', ins_lesson_id = Some ''l1'',
                  ins_completed = True, ins_completed_at = Some 10\<rparr>"

definition demo_row1 :: UserProgress where
  "demo_row1 = new_progress_row ''p1'' 10 demo_insert"

definition demo_newcomer :: auth_user where
  "demo_newcomer = \<lparr>au_id = ''u2'', au_email = Some ''ada@example.org'',
                    au_raw_user_meta_data = Some [(''full_name'', JStr ''Ada'')]\<rparr>"

text \<open>The store the race of \<open>Race\<close> leaves: two completed rows for lesson \<open>l1\<close>.\<close>

definition demo_row2 :: UserProgress where
  "demo_row2 = new_progress_row ''p2'' 11 (demo_insert\<lparr>ins_completed_at := Some 11\<rparr>)"

definition demo_dup_db :: db where
  "demo_dup_db = demo_db\<lparr>t_user_progress := [demo_row1, demo_row2]\<rparr>"

definition demo_dup_page :: course_detail where
  "demo_dup_page = loadCourseData (Some ''u1'') ''c1'' demo_dup_db course_detail_init"

text \<open>The home page and the shell: a course with an unknown difficulty, and a user who
  opens course \<open>c1\<close> and signs out.\<close>

definition demo_expert_course :: Course where
  "demo_expert_course = demo_course\<lparr>co_difficulty := ''expert''\<rparr>"

definition demo_app_detail :: app_state where
  "demo_app_detail = app_init\<lparr>as_user := Some demo_user, as_loading := False, as_selected := Some ''c1''\<rparr>"

text \<open>\<open>u1\<close> has completed \<open>l1\<close>, and the page's progress query failed.\<close>

definition demo_done_db :: db where
  "demo_done_db = demo_db\<lparr>t_user_progress := [demo_row1]\<rparr>"

definition demo_failed_page :: course_detail where
  "demo_failed_page = apply_course_data (Inr (Some demo_course)) (Inr [demo_lesson1, demo_lesson2])
     (Inl NetworkError) course_detail_init"

text \<open>A client session: \<open>u1\<close> opens \<open>c1\<close>, completes \<open>l1\<close> and signs out.\<close>

definition demo_session :: "sys_event list" where
  "demo_session = [ShellEvent (SessionResolved (Some demo_user)), ShellEvent (SelectCourse ''c1''),
                   ToggleLesson ''l1'' 1 ''p1'', ShellEvent SignOut]"

text \<open>Two tabs of \<open>u1\<close> on course \<open>c1\<close>; both toggle \<open>l1\<close>, the second from a stale page.\<close>

definition demo_two_tabs :: "tabs_event list" where
  "demo_two_tabs =
     [OpenTab, OpenTab,
      TabEvent 0 (ShellEvent (SessionResolved (Some demo_user))),
      TabEvent 1 (ShellEvent (SessionResolved (Some demo_user))),
      TabEvent 0 (ShellEvent (SelectCourse ''c1'')), TabEvent 1 (ShellEvent (SelectCourse ''c1'')),
      TabEvent 0 (ToggleLesson ''l1'' 1 ''p1''), TabEvent 1 (ToggleLesson ''l1'' 2 ''p2'')]"

text \<open>A tab of \<open>u1\<close> on course \<open>c1\<close> stays open while the identity \<open>u1\<close> is deleted.\<close>

definition demo_orphan_tab :: "tabs_event list" where
  "demo_orphan_tab =
     [OpenTab, TabEvent 0 (ShellEvent (SessionResolved (Some demo_user))),
      TabEvent 0 (ShellEvent (SelectCourse ''c1'')), Lifecycle (DeleteIdentity ''u1'')]"

text \<open>Lesson lists and completed rows of any length, for the percentage.\<close>

definition demo_lessons :: "nat \<Rightarrow> Lesson list" where
  "demo_lessons n = map (\<lambda>i. demo_lesson1\<lparr>le_id := replicate (Suc i) CHR ''l''\<rparr>) [0..<n]"

definition demo_rows :: "nat \<Rightarrow> UserProgress list" where
  "demo_rows k =
     map (\<lambda>i. demo_row1\<lparr>up_id := replicate (Suc i) CHR ''p'',
                         up_lesson_id := Some (replicate (Suc i) CHR ''l'')\<rparr>) [0..<k]"

lemmas demo_defs = demo_user_def demo_profile_def demo_course_def demo_lesson1_def
  demo_lesson2_def demo_db_def

lemma demo_db_wf: "db_wf demo_db"
  by (simp add: demo_defs wf_defs key_defs fk_defs)

lemma demo_db_unique: "progress_unique demo_db"
  by (simp add: demo_db_def progress_unique_def)

lemma demo_page_synced: "cd_progress demo_page = own_progress ''u1'' ''c1'' demo_db"
  unfolding demo_page_def by (rule loadCourseData_progress [OF demo_db_wf])

lemma demo_refs:
  "key_refs_ok ''u1'' ''c1'' (Some ''l1'') demo_db" "key_refs_ok ''u1'' ''c1'' None demo_db"
  by (simp_all add: key_refs_ok_def demo_defs key_defs)

lemma demo_fresh: "fresh \<notin> set (map up_id (t_user_progress demo_db))"
  by (simp add: demo_db_def)

text \<open>\<open>demo_db\<close> is reachable: \<open>u1\<close> signs up, then the course and its lessons are added.\<close>

lemma demo_db_run:
  "run_events [SignUp demo_user 0, SeedCourse demo_course, SeedLesson demo_lesson1,
               SeedLesson demo_lesson2] empty_db = demo_db"
  by (simp add: signup_def handle_new_user_def new_profile_def json_get_text_def
                course_insert_checked_def lesson_insert_checked_def key_defs fk_defs
                empty_db_def demo_defs)

lemma demo_db_reachable: "db_reachable demo_db"
  using db_reachable_iff_run demo_db_run by blast

subsection \<open>Witnesses\<close>

lemma demo_page_no_progress: "cd_progress demo_page = []"
  by (simp add: demo_page_synced own_progress_def demo_db_def)

theorem toggleLessonCompletion_flips_witness:
  "isLessonCompleted (cd_progress (snd (toggleLessonCompletion (Some ''u1'') ''c1'' ''l1'' 10 ''p1''
      demo_page demo_db))) ''l1''"
proof -
  obtain d' st' where run:
    "toggleLessonCompletion (Some ''u1'') ''c1'' ''l1'' 10 ''p1'' demo_page demo_db = (d', st')"
    by (metis surj_pair)
  have "isLessonCompleted (cd_progress st') ''l1'' = (\<not> isLessonCompleted (cd_progress demo_page) ''l1'')"
    using toggleLessonCompletion_flips [OF demo_db_wf demo_db_unique demo_page_synced demo_refs(1)
        demo_fresh run] by blast
  then show ?thesis
    using run by (simp add: demo_page_no_progress isLessonCompleted_def)
qed

theorem toggleLessonCompletion_twice_witness:
  "\<not> isLessonCompleted (cd_progress (snd (toggleLessonCompletion (Some ''u1'') ''c1'' ''l1'' 11 ''p2''
      (snd (toggleLessonCompletion (Some ''u1'') ''c1'' ''l1'' 10 ''p1'' demo_page demo_db))
      (fst (toggleLessonCompletion (Some ''u1'') ''c1'' ''l1'' 10 ''p1'' demo_page demo_db))))) ''l1''"
proof -
  obtain d1 st1 where run1:
    "toggleLessonCompletion (Some ''u1'') ''c1'' ''l1'' 10 ''p1'' demo_page demo_db = (d1, st1)"
    by (metis surj_pair)
  obtain d2 st2 where run2:
    "toggleLessonCompletion (Some ''u1'') ''c1'' ''l1'' 11 ''p2'' st1 d1 = (d2, st2)"
    by (metis surj_pair)
  have "isLessonCompleted (cd_progress st2) ''l1'' = isLessonCompleted (cd_progress demo_page) ''l1''"
    using toggleLessonCompletion_twice [OF demo_db_wf demo_db_unique demo_page_synced demo_refs(1)
        demo_fresh demo_fresh _ run1 run2] by simp
  then show ?thesis
    using run1 run2 by (simp add: demo_page_no_progress isLessonCompleted_def)
qed

theorem markCourseCompleted_twice_witness:
  "isCourseCompleted (cd_progress (snd (markCourseCompleted (Some ''u1'') ''c1'' 11 ''p2''
      (snd (markCourseCompleted (Some ''u1'') ''c1'' 10 ''p1'' demo_page demo_db))
      (fst (markCourseCompleted (Some ''u1'') ''c1'' 10 ''p1'' demo_page demo_db)))))"
proof -
  obtain d1 st1 where run1:
    "markCourseCompleted (Some ''u1'') ''c1'' 10 ''p1'' demo_page demo_db = (d1, st1)"
    by (metis surj_pair)
  obtain d2 st2 where run2:
    "markCourseCompleted (Some ''u1'') ''c1'' 11 ''p2'' st1 d1 = (d2, st2)"
    by (metis surj_pair)
  have "isCourseCompleted (cd_progress st2)"
    using markCourseCompleted_twice [OF demo_db_wf demo_db_unique demo_page_synced demo_refs(2)
        demo_fresh demo_fresh _ run1 run2] by simp
  then show ?thesis
    using run1 run2 by simp
qed

theorem toggleLessonCompletion_frame_witness:
  "isCourseCompleted (cd_progress (snd (toggleLessonCompletion (Some ''u1'') ''c1'' ''l1'' 10 ''p1''
      demo_page demo_db))) = False"
proof -
  obtain d' st' where run:
    "toggleLessonCompletion (Some ''u1'') ''c1'' ''l1'' 10 ''p1'' demo_page demo_db = (d', st')"
    by (metis surj_pair)
  have "isCourseCompleted (cd_progress st') = isCourseCompleted (cd_progress demo_page)"
    using toggleLessonCompletion_frame [OF demo_db_wf demo_db_unique demo_page_synced demo_refs(1)
        demo_fresh run] by blast
  then show ?thesis
    using run by (simp add: demo_page_no_progress isCourseCompleted_def)
qed

theorem markCourseCompleted_frame_witness:
  "isCourseCompleted (cd_progress (snd (markCourseCompleted (Some ''u1'') ''c1'' 10 ''p1'' demo_page demo_db))) \<and>
   \<not> isLessonCompleted (cd_progress (snd (markCourseCompleted (Some ''u1'') ''c1'' 10 ''p1''
        demo_page demo_db))) ''l1''"
proof -
  obtain d' st' where run:
    "markCourseCompleted (Some ''u1'') ''c1'' 10 ''p1'' demo_page demo_db = (d', st')"
    by (metis surj_pair)
  have "isCourseCompleted (cd_progress st') \<and>
        (\<forall>l. isLessonCompleted (cd_progress st') l = isLessonCompleted (cd_progress demo_page) l)"
    by (rule markCourseCompleted_frame [OF demo_db_wf demo_db_unique demo_page_synced demo_refs(2)
        demo_fresh run])
  then show ?thesis
    using run by (simp add: demo_page_no_progress isLessonCompleted_def)
qed

theorem select_isolation_witness:
  "select_user_progress (Authenticated ''u1'') demo_db = [] \<and>
   select_profiles (Authenticated ''u1'') demo_db = [demo_profile] \<and>
   Authenticated ''u1'' = Authenticated (pr_id demo_profile)"
proof -
  have rows: "select_profiles (Authenticated ''u1'') demo_db = [demo_profile]"
    by (simp add: select_profiles_caller demo_db_def demo_profile_def)
  have "\<forall>p\<in>set (select_profiles (Authenticated ''u1'') demo_db). Authenticated ''u1'' = Authenticated (pr_id p)"
    using select_isolation [of "Authenticated ''u1''" demo_db] by blast
  then have "Authenticated ''u1'' = Authenticated (pr_id demo_profile)"
    by (simp add: rows)
  moreover have "select_user_progress (Authenticated ''u1'') demo_db = []"
    by (simp add: select_user_progress_caller demo_db_def)
  ultimately show ?thesis
    using rows by blast
qed

theorem store_step_isolation_witness:
  "store_step (Authenticated ''u1'') (InsertProgress ''p1'' 10 demo_insert) demo_db =
     Inr (demo_db\<lparr>t_user_progress := [new_progress_row ''p1'' 10 demo_insert]\<rparr>) \<and>
   t_courses (demo_db\<lparr>t_user_progress := [new_progress_row ''p1'' 10 demo_insert]\<rparr>) = t_courses demo_db"
proof -
  have run: "store_step (Authenticated ''u1'') (InsertProgress ''p1'' 10 demo_insert) demo_db =
     Inr (demo_db\<lparr>t_user_progress := [new_progress_row ''p1'' 10 demo_insert]\<rparr>)"
    by (simp add: insert_user_progress_eq demo_insert_def progress_fk_ok_def demo_defs key_defs)
  show ?thesis
    using run store_step_isolation [OF run] by simp
qed

theorem calculateProgress_mono_witness:
  "calculateProgress [demo_lesson1, demo_lesson2] [] \<le> calculateProgress [demo_lesson1, demo_lesson2] [demo_row1] \<and>
   calculateProgress [demo_lesson1, demo_lesson2] [demo_row1] = 50"
proof -
  have "\<forall>l\<in>set [demo_lesson1, demo_lesson2]. isLessonCompleted [] (le_id l) \<longrightarrow> isLessonCompleted [demo_row1] (le_id l)"
    by (simp add: isLessonCompleted_def)
  then have "calculateProgress [demo_lesson1, demo_lesson2] [] \<le> calculateProgress [demo_lesson1, demo_lesson2] [demo_row1]"
    by (rule calculateProgress_mono)
  moreover have "calculateProgress [demo_lesson1, demo_lesson2] [demo_row1] = 50"
    by (simp add: calculateProgress_eq completedLessons_def isLessonCompleted_def demo_row1_def
        demo_insert_def demo_lesson1_def demo_lesson2_def new_progress_row_def)
  ultimately show ?thesis by simp
qed

theorem calculateProgress_perm_witness:
  "calculateProgress [demo_lesson1, demo_lesson2] [demo_row1] = calculateProgress [demo_lesson2, demo_lesson1] [demo_row1, demo_row1]"
  by (rule calculateProgress_perm) simp_all

theorem signup_provisions_profile_witness:
  "\<exists>d'. signup demo_newcomer 5 demo_db = Inr d' \<and>
     filter (\<lambda>p. pr_id p = ''u2'') (t_profiles d') =
       [\<lparr>pr_id = ''u2'', pr_email = ''ada@example.org'', pr_full_name = ''Ada'',
         pr_created_at = 5, pr_updated_at = 5\<rparr>]"
proof -
  have "au_id demo_newcomer \<notin> set (user_ids demo_db)"
    by (simp add: demo_newcomer_def demo_defs key_defs)
  then show ?thesis
    using signup_provisions_profile [OF demo_db_wf _ , of demo_newcomer "''ada@example.org''" 5]
    by (simp add: demo_newcomer_def new_profile_def json_get_text_def) blast
qed


theorem db_reachable_one_profile_witness:
  "db_reachable demo_db \<and> length (filter (\<lambda>p. pr_id p = ''u1'') (t_profiles demo_db)) = 1"
  using db_reachable_one_profile [OF demo_db_reachable, of "''u1''"] demo_db_reachable
  by (simp add: demo_db_def demo_user_def key_defs)

theorem toggle_race_duplicates_witness:
  "key_count ''u1'' ''c1'' (Some ''l1'')
     (fst (toggle_race ''u1'' ''c1'' ''l1'' 10 ''p1'' 11 ''p2'' demo_page demo_db)) = 2 \<and>
   \<not> progress_unique (fst (toggle_race ''u1'' ''c1'' ''l1'' 10 ''p1'' 11 ''p2'' demo_page demo_db))"
proof -
  obtain d2 st2 where run:
    "toggle_race ''u1'' ''c1'' ''l1'' 10 ''p1'' 11 ''p2'' demo_page demo_db = (d2, st2)"
    by (metis surj_pair)
  have none: "\<forall>p\<in>set (cd_progress demo_page). up_lesson_id p \<noteq> Some ''l1''"
    by (simp add: demo_page_no_progress)
  have "key_count ''u1'' ''c1'' (Some ''l1'') d2 = 2 \<and> \<not> progress_unique d2"
    using toggle_race_duplicates [OF demo_db_wf demo_page_synced none demo_refs(1) demo_fresh
        demo_fresh _ run] by simp
  then show ?thesis using run by simp
qed

lemma demo_dup_db_wf: "db_wf demo_dup_db"
  by (simp add: demo_dup_db_def demo_row1_def demo_row2_def demo_insert_def new_progress_row_def
                demo_defs wf_defs key_defs fk_defs)

lemma demo_dup_rows:
  "demo_row1 \<in> set (cd_progress demo_dup_page)" "demo_row2 \<in> set (cd_progress demo_dup_page)"
  unfolding demo_dup_page_def loadCourseData_progress [OF demo_dup_db_wf]
  by (simp_all add: own_progress_def demo_dup_db_def demo_row1_def demo_row2_def demo_insert_def)

theorem toggle_duplicate_stays_completed_witness:
  "isLessonCompleted (cd_progress (snd (toggleLessonCompletion (Some ''u1'') ''c1'' ''l1'' 12 ''p3''
      demo_dup_page demo_dup_db))) ''l1''"
proof -
  obtain d' st' where run:
    "toggleLessonCompletion (Some ''u1'') ''c1'' ''l1'' 12 ''p3'' demo_dup_page demo_dup_db = (d', st')"
    by (metis surj_pair)
  have sync: "cd_progress demo_dup_page = own_progress ''u1'' ''c1'' demo_dup_db"
    unfolding demo_dup_page_def by (rule loadCourseData_progress [OF demo_dup_db_wf])
  have facts: "up_id demo_row1 \<noteq> up_id demo_row2"
    "up_lesson_id demo_row1 = Some ''l1''" "up_lesson_id demo_row2 = Some ''l1''"
    "up_completed demo_row1" "up_completed demo_row2"
    by (simp_all add: demo_row1_def demo_row2_def demo_insert_def)
  have "isLessonCompleted (cd_progress st') ''l1''"
    by (rule toggle_duplicate_stays_completed [OF demo_dup_db_wf sync demo_dup_rows facts run])
  then show ?thesis using run by simp
qed

theorem difficultyColor_fallback_witness:
  "difficultyColor demo_expert_course = JSString ''bg-green-100 text-green-700''"
proof -
  have "co_difficulty demo_expert_course \<notin> set (map fst difficultyColors)"
    "co_difficulty demo_expert_course \<notin> set (map fst object_prototype)"
    by (simp_all add: demo_expert_course_def difficultyColors_def object_prototype_def)
  then show ?thesis by (rule difficultyColor_fallback)
qed


lemma demo_app_detail_reachable: "app_reachable demo_app_detail"
proof -
  have "app_run [SessionResolved (Some demo_user), SelectCourse ''c1''] app_init = Some demo_app_detail"
    by (simp add: app_init_def demo_app_detail_def app_screen_def)
  then show ?thesis by (rule app_run_reachable [OF app_reachable.init])
qed

theorem signout_keeps_selection_witness:
  "app_run [SignOut, SignedIn demo_newcomer] demo_app_detail \<noteq> None \<and>
   app_screen (the (app_run [SignOut, SignedIn demo_newcomer] demo_app_detail)) = DetailScreen ''c1''"
proof -
  define s1 where "s1 = demo_app_detail\<lparr>as_user := None\<rparr>"
  define s2 where "s2 = s1\<lparr>as_user := Some demo_newcomer\<rparr>"
  have scr: "app_screen demo_app_detail = DetailScreen ''c1''"
    by (simp add: demo_app_detail_def app_init_def app_screen_def)
  have "as_user demo_app_detail = Some demo_user"
    by (simp add: demo_app_detail_def)
  then have st1: "app_step SignOut demo_app_detail = Some s1"
    by (simp add: s1_def scr header_view_def)
  have st2: "app_step (SignedIn demo_newcomer) s1 = Some s2"
    by (simp add: s1_def s2_def demo_app_detail_def app_init_def app_screen_def)
  have "app_screen s2 = DetailScreen ''c1''"
    using signout_keeps_selection [OF scr st1 st2] by blast
  moreover have "app_run [SignOut, SignedIn demo_newcomer] demo_app_detail = Some s2"
    by (simp only: app_run.simps st1 st2 option.case)
  ultimately show ?thesis by simp
qed

theorem app_reaches_entry_witness:
  "\<not> as_loading demo_app_detail \<and>
   (\<exists>es s'. length es \<le> 1 \<and> app_run es demo_app_detail = Some s' \<and>
      app_screen s' \<in> {HomeScreen, LoginScreen})"
proof -
  have "\<not> as_loading demo_app_detail" by (simp add: demo_app_detail_def)
  then show ?thesis using app_reaches_entry by blast
qed

theorem progress_fetch_error_duplicates_witness:
  "course_detail_view demo_failed_page = CDShow demo_course 0 False \<and>
   \<not> progress_unique (fst (toggleLessonCompletion (Some ''u1'') ''c1'' ''l1'' 12 ''p3''
       demo_failed_page demo_done_db))"
proof -
  obtain d' st' where run:
    "toggleLessonCompletion (Some ''u1'') ''c1'' ''l1'' 12 ''p3'' demo_failed_page demo_done_db = (d', st')"
    by (metis surj_pair)
  have wf: "db_wf demo_done_db"
    by (simp add: demo_done_db_def demo_row1_def demo_insert_def new_progress_row_def
                  demo_defs wf_defs key_defs fk_defs)
  have refs: "key_refs_ok ''u1'' ''c1'' (Some ''l1'') demo_done_db"
    by (simp add: key_refs_ok_def demo_done_db_def demo_defs key_defs)
  have fresh: "''p3'' \<notin> set (map up_id (t_user_progress demo_done_db))"
    by (simp add: demo_done_db_def demo_row1_def demo_insert_def)
  have row: "demo_row1 \<in> set (own_progress ''u1'' ''c1'' demo_done_db)"
    "up_lesson_id demo_row1 = Some ''l1''"
    by (simp_all add: own_progress_def demo_done_db_def demo_row1_def demo_insert_def)
  have "course_detail_view demo_failed_page = CDShow demo_course 0 False \<and> \<not> progress_unique d'"
    using progress_fetch_error_duplicates [OF wf refs fresh row demo_failed_page_def run] by blast
  then show ?thesis using run by simp
qed

theorem loadCourseData_lessons_order_witness:
  "cd_lessons demo_page = [demo_lesson1, demo_lesson2]"
proof -
  let ?rows = "filter (\<lambda>l. le_course_id l = ''c1'') (t_lessons demo_db)"
  have rows: "?rows = [demo_lesson1, demo_lesson2]"
    by (simp add: demo_defs)
  have "distinct (map le_order_number ?rows)" "order_by_order_number ?rows [demo_lesson1, demo_lesson2]"
    by (simp_all add: rows order_by_order_number_def demo_defs)
  then have "[demo_lesson1, demo_lesson2] = cd_lessons (loadCourseData (Some ''u1'') ''c1'' demo_db course_detail_init)"
    using loadCourseData_lessons_order [OF demo_db_wf, of "''c1''" "''u1''" course_detail_init] by blast
  then show ?thesis by (simp add: demo_page_def)
qed

theorem sys_reachable_invariant_witness:
  "case sys_run demo_session (sys_init demo_db) of
     None \<Rightarrow> False
   | Some s \<Rightarrow> db_wf (sy_db s) \<and> progress_unique (sy_db s)"
proof -
  have "sys_run demo_session (sys_init demo_db) \<noteq> None"
    unfolding demo_session_def by code_simp
  then obtain s where run: "sys_run demo_session (sys_init demo_db) = Some s" by blast
  have "sys_reachable demo_db s"
    by (rule sys_run_reachable [OF sys_reachable.init run])
  then have "db_wf (sy_db s) \<and> progress_unique (sy_db s)"
    using sys_reachable_invariant [OF _ demo_db_wf demo_db_unique] by blast
  then show ?thesis using run by simp
qed

theorem signin_page_own_rows_witness:
  "case sys_run demo_session (sys_init demo_db) of
     None \<Rightarrow> False
   | Some s \<Rightarrow>
       (case sys_step (ShellEvent (SignedIn demo_newcomer)) s of
          None \<Rightarrow> False
        | Some s' \<Rightarrow>
            (case sy_page s' of
               DetailPage st \<Rightarrow> list_all (\<lambda>p. up_user_id p = ''u2'') (cd_progress st)
             | _ \<Rightarrow> False))"
proof -
  have shape: "case sys_run demo_session (sys_init demo_db) of
                 None \<Rightarrow> False
               | Some s \<Rightarrow>
                   (case sys_step (ShellEvent (SignedIn demo_newcomer)) s of
                      None \<Rightarrow> False
                    | Some s' \<Rightarrow> (case sy_page s' of DetailPage st \<Rightarrow> True | _ \<Rightarrow> False))"
    unfolding demo_session_def by code_simp
  then obtain s s' st where run: "sys_run demo_session (sys_init demo_db) = Some s"
    and step: "sys_step (ShellEvent (SignedIn demo_newcomer)) s = Some s'"
    and pg: "sy_page s' = DetailPage st"
    by (auto split: option.splits page.splits)
  have reach: "sys_reachable demo_db s"
    by (rule sys_run_reachable [OF sys_reachable.init run])
  have "list_all (\<lambda>p. up_user_id p = au_id demo_newcomer) (cd_progress st)"
    by (rule signin_page_own_rows [OF reach demo_db_wf demo_db_unique step pg])
  then show ?thesis
    using run step pg by (simp add: demo_newcomer_def)
qed

theorem insert_select_roundtrip_witness:
  "\<exists>r. select_user_progress (Authenticated ''u1'') (demo_db\<lparr>t_user_progress := [demo_row1]\<rparr>) = [r] \<and>
       up_completed_at r = Some 10"
proof -
  have ins: "insert_user_progress (Authenticated ''u1'') ''p1'' 10 demo_insert demo_db =
               Inr (demo_db\<lparr>t_user_progress := [demo_row1]\<rparr>)"
    by (simp add: insert_user_progress_eq demo_row1_def demo_insert_def progress_fk_ok_def
                  demo_defs key_defs)
  have "select_user_progress (Authenticated ''u1'') demo_db = []"
    by (simp add: select_user_progress_caller demo_db_def)
  then show ?thesis
    using insert_select_roundtrip [OF ins] by (auto simp: demo_insert_def)
qed


theorem tabs_client_rows_persist_witness:
  "list_all tab_event demo_two_tabs \<and>
   (case tabs_run demo_two_tabs \<lparr>ts_tabs = [], ts_db = demo_db\<rparr> of
      None \<Rightarrow> False
    | Some s \<Rightarrow> rows_persist demo_db (ts_db s) \<and>
        key_count ''u1'' ''c1'' (Some ''l1'') demo_db \<le> key_count ''u1'' ''c1'' (Some ''l1'') (ts_db s))"
proof -
  have ev: "list_all tab_event demo_two_tabs" by (simp add: demo_two_tabs_def)
  have "tabs_run demo_two_tabs \<lparr>ts_tabs = [], ts_db = demo_db\<rparr> \<noteq> None"
    unfolding demo_two_tabs_def by code_simp
  then obtain s where run: "tabs_run demo_two_tabs \<lparr>ts_tabs = [], ts_db = demo_db\<rparr> = Some s"
    by blast
  have "rows_persist (ts_db \<lparr>ts_tabs = [], ts_db = demo_db\<rparr>) (ts_db s) \<and>
        (\<forall>u c k. key_count u c k (ts_db \<lparr>ts_tabs = [], ts_db = demo_db\<rparr>) \<le> key_count u c k (ts_db s))"
    by (rule tabs_client_rows_persist [OF run ev])
  then show ?thesis using ev run by simp
qed

theorem tabs_orphan_tab_noop_witness:
  "\<exists>s s'. tabs_run demo_orphan_tab \<lparr>ts_tabs = [], ts_db = demo_db\<rparr> = Some s \<and>
     db_wf (ts_db s) \<and> user_id_of (fst (ts_tabs s ! 0)) = Some ''u1'' \<and>
     ''u1'' \<notin> set (user_ids (ts_db s)) \<and>
     tabs_step (TabEvent 0 (ToggleLesson ''l1'' 3 ''p3'')) s = Some s' \<and> ts_db s' = ts_db s"
proof -
  have shape: "case tabs_run demo_orphan_tab \<lparr>ts_tabs = [], ts_db = demo_db\<rparr> of
                 None \<Rightarrow> False
               | Some s \<Rightarrow> db_wf (ts_db s) \<and> user_id_of (fst (ts_tabs s ! 0)) = Some ''u1'' \<and>
                   ''u1'' \<notin> set (user_ids (ts_db s)) \<and>
                   tabs_step (TabEvent 0 (ToggleLesson ''l1'' 3 ''p3'')) s \<noteq> None"
    unfolding demo_orphan_tab_def by code_simp
  then obtain s where run: "tabs_run demo_orphan_tab \<lparr>ts_tabs = [], ts_db = demo_db\<rparr> = Some s"
    by (auto split: option.splits)
  have "db_wf (ts_db s) \<and> user_id_of (fst (ts_tabs s ! 0)) = Some ''u1'' \<and>
        ''u1'' \<notin> set (user_ids (ts_db s)) \<and>
        (\<exists>s'. tabs_step (TabEvent 0 (ToggleLesson ''l1'' 3 ''p3'')) s = Some s')"
    using shape unfolding run option.case not_None_eq by assumption
  then obtain s' where wf: "db_wf (ts_db s)" and uid: "user_id_of (fst (ts_tabs s ! 0)) = Some ''u1''"
    and gone: "''u1'' \<notin> set (user_ids (ts_db s))"
    and st: "tabs_step (TabEvent 0 (ToggleLesson ''l1'' 3 ''p3'')) s = Some s'"
    by blast
  have "ts_db s' = ts_db s" by (rule tabs_orphan_tab_noop [OF wf uid gone st])
  then show ?thesis using run wf uid gone st by blast
qed

theorem mark_race_duplicates_witness:
  "key_count ''u1'' ''c1'' None
     (fst (mark_race ''u1'' ''c1'' 10 ''p1'' 11 ''p2'' demo_page demo_db)) = 2 \<and>
   \<not> progress_unique (fst (mark_race ''u1'' ''c1'' 10 ''p1'' 11 ''p2'' demo_page demo_db))"
proof -
  obtain d2 st2 where run:
    "mark_race ''u1'' ''c1'' 10 ''p1'' 11 ''p2'' demo_page demo_db = (d2, st2)"
    by (metis surj_pair)
  have none: "\<forall>p\<in>set (cd_progress demo_page). up_lesson_id p \<noteq> None"
    by (simp add: demo_page_no_progress)
  have "key_count ''u1'' ''c1'' None d2 = 2 \<and> \<not> progress_unique d2"
    using mark_race_duplicates [OF demo_db_wf demo_page_synced none demo_refs(2) demo_fresh
        demo_fresh _ run] by simp
  then show ?thesis using run by simp
qed

lemma demo_completed_count: "completedLessons (demo_lessons 3) (demo_rows 1) = 1"
  by code_simp

theorem calculateProgress_code_agrees_witness:
  "length (demo_lessons 3) < 2 ^ 44 \<and>
   calculateProgress_code (demo_lessons 3) (demo_rows 1) = calculateProgress (demo_lessons 3) (demo_rows 1) \<and>
   calculateProgress (demo_lessons 3) (demo_rows 1) = 33"
proof -
  have len: "length (demo_lessons 3) = 3" by (simp add: demo_lessons_def)
  then have small: "length (demo_lessons 3) < 2 ^ 44" by simp
  have "(200 * completedLessons (demo_lessons 3) (demo_rows 1) + length (demo_lessons 3))
          mod (2 * length (demo_lessons 3)) \<noteq> 0"
    unfolding demo_completed_count len by simp
  then have "calculateProgress_code (demo_lessons 3) (demo_rows 1) =
               calculateProgress (demo_lessons 3) (demo_rows 1)"
    using calculateProgress_code_agrees [OF small] by blast
  moreover have "calculateProgress (demo_lessons 3) (demo_rows 1) = 33"
    unfolding calculateProgress_eq demo_completed_count len by (simp add: demo_lessons_def)
  ultimately show ?thesis using small by simp
qed

text \<open>At a half the code rounds down: 23 of 40 lessons show 57\% where the spec's formula gives 58\%.\<close>

lemma calculateProgress_code_half_down:
  "calculateProgress_code (demo_lessons 40) (demo_rows 23) = 57 \<and>
   calculateProgress (demo_lessons 40) (demo_rows 23) = 58"
  by code_simp

end
