(* ===== verification/Spec2Isabelle.thy ===== *)
theory Spec2Isabelle
  imports Scenario
begin

text \<open>
  \<^bold>\<open>A verification development of the LearningPlatform e-learning application.\<close>

  \<^bold>\<open>The program.\<close> A hosted PostgreSQL database (the migration
  \<open>src/unnamed/part_000\<close>) holds the tables \<open>profiles\<close>, \<open>courses\<close>,
  \<open>lessons\<close> and \<open>user_progress\<close>, with row-level security policies and a trigger
  that provisions a profile for every new identity of \<open>auth.users\<close>. A React client
  (\<open>src/unnamed/part_001\<close>: the Supabase client, the row interfaces, \<open>App.tsx\<close>,
  \<open>Header.tsx\<close>; \<open>src/src/pages/Home.tsx\<close>, \<open>src/src/pages/CourseDetail.tsx\<close>,
  \<open>src/src/components/CourseCard.tsx\<close>) lists courses, shows one course with its
  lessons and the caller's progress, and writes progress rows: a lesson toggle and a
  mark-course-complete button. Every query runs as the signed-in caller, so the policies
  decide what it sees and may write; after each write the page reloads its three queries.

  \<^bold>\<open>The theories.\<close>
  \<^item> \<open>Prelude\<close>: identifiers and timestamps, theorem collections, list lemmas.
  \<^item> \<open>Schema\<close>: the tables as records (\<open>Profile\<close>, \<open>Course\<close>, \<open>Lesson\<close>,
    \<open>UserProgress\<close>, \<open>auth_user\<close>), the database \<open>db\<close> as one list per table,
    the key and reference checks and the integrity invariant \<open>db_wf\<close>.
  \<^item> \<open>Progress\<close>: the client's read path, \<open>isLessonCompleted\<close>,
    \<open>isCourseCompleted\<close>, \<open>calculateProgress\<close> (CourseDetail.tsx 48-60), with the
    percentage in exact arithmetic.
  \<^item> \<open>Binary64\<close>: the same percentage as JavaScript computes it, in IEEE binary64
    (\<open>fl\<close>: rounding to 53 significant bits, ties to even; \<open>fdiv\<close>, \<open>fmul\<close>;
    \<open>calculateProgress_code\<close>), with the rounding-error bound.
  \<^item> \<open>Policy\<close>: the \<open>CREATE POLICY\<close> statements as data (\<open>policies\<close>), their
    PostgreSQL meaning (\<open>rls_using\<close>, \<open>rls_check\<close>) and the access contract of the
    spec (\<open>authorized\<close>).
  \<^item> \<open>Store\<close>: the queries the client issues (\<open>select_*\<close>,
    \<open>insert_user_progress\<close>, \<open>update_user_progress\<close>, \<open>delete_user_progress\<close>,
    \<open>update_profile\<close>), every other write the policies let a client attempt
    (\<open>insert_profile\<close>, \<open>insert_course\<close>, \<open>insert_lesson\<close>,
    \<open>client_delete_course\<close>, \<open>client_delete_lesson\<close>) and the cascading deletions,
    each returning \<open>db_error + db\<close>; \<open>store_op\<close>/\<open>store_step\<close> is the interface
    the page's handlers and the database lifecycle use.
  \<^item> \<open>CourseDetail\<close>: the page state \<open>course_detail\<close>, \<open>loadCourseData\<close>, the
    handlers \<open>toggleLessonCompletion\<close>, \<open>markCourseCompleted\<close>, the button guard
    and the view.
  \<^item> \<open>CourseDetailView\<close>: the rendered detail page (\<open>detail_page\<close>) with its
    lesson rows (\<open>lesson_rows\<close>) and the lessons query's ordering contract
    \<open>order_by_order_number\<close>.
  \<^item> \<open>Provisioning\<close>: \<open>handle_new_user\<close> and \<open>signup\<close> (identity insert and
    trigger in one transaction).
  \<^item> \<open>Events\<close>: the database's lifecycle: every event (client request under any role,
    signup, identity deletion, catalogue maintenance) as \<open>db_event_step\<close>, the reachable
    states \<open>db_reachable\<close> (inductive) and traces \<open>run_events\<close>.
  \<^item> \<open>Race\<close>: two overlapping toggles on one stale page state (\<open>toggle_race\<close>, the
    race of spec section 4.3), the same for the mark-course button (\<open>mark_race\<close>),
    what duplicate rows do to a later toggle, and the duplicates a failed progress query
    causes without any concurrency.
  \<^item> \<open>CourseCard\<close>: the badge colour lookup \<open>difficultyColor\<close> with JavaScript's
    property access (\<open>js_get\<close>: own properties, then \<open>Object.prototype\<close>) and
    \<open>||\<close> (\<open>js_truthy\<close>).
  \<^item> \<open>Home\<close>: \<open>home_state\<close>, \<open>loadCourses\<close> with its ordering contract
    \<open>order_by_created_desc\<close> (spec section 6), and \<open>home_view\<close>.
  \<^item> \<open>Config\<close>: the environment check of \<open>supabase.ts\<close> (\<open>supabase_config\<close>).
  \<^item> \<open>App\<close>: \<open>AppContent\<close> as a state machine: \<open>app_state\<close>, the screen it
    renders (\<open>app_screen\<close>), the header (\<open>header_view\<close>), one event per callback
    or authentication effect (\<open>app_step\<close>, \<open>None\<close> when the screen does not offer it),
    the reachable states \<open>app_reachable\<close>, and start-up \<open>app_boot\<close>.
  \<^item> \<open>Shell\<close>: one client as a whole: the shell, the page it has mounted and the
    store (\<open>client_system\<close>), with remounting and loading on every screen change
    (\<open>mount\<close>), the page's write handlers as events (\<open>sys_step\<close>), and the
    reachable states \<open>sys_reachable\<close>.
  \<^item> \<open>Tabs\<close>: many clients on one store: any number of tabs (each a shell with its
    page) interleaved with other callers' requests and the lifecycle events
    (\<open>tabs_step\<close>, \<open>tabs_reachable\<close>), whose stores are stores of \<open>Events\<close>; what the
    tabs' own writes can do to the store (\<open>rows_persist\<close>), and the writes of a tab
    whose identity was deleted.
  \<^item> \<open>Scenario\<close>: a concrete store (one account, one course with two lessons), page and
    shell states, lesson lists of any length, and the witnesses of the properties with
    hypotheses.

  \<^bold>\<open>Modelling choices.\<close> Tables are lists in physical order, so queries without
  \<open>ORDER BY\<close> return rows in that order and duplicate rows are visible; results that
  must not depend on that order are proved for every order (\<open>calculateProgress_perm\<close>).
  A fresh \<open>gen_random_uuid()\<close> and the clock \<open>now()\<close>/\<open>new Date()\<close> are
  parameters of the operations. The percentage exists twice: \<open>calculateProgress\<close>
  in exact rationals (the spec's formula; the handler, view and bounds properties are
  stated on it) and \<open>calculateProgress_code\<close> in binary64 as the code computes it; C9
  relates the two for fewer than \<open>2^44\<close> lessons, a bound far above any course.
  Overflow and subnormal doubles do not arise for these operands and are not modelled. Errors of the store are values of \<open>db_error\<close>; the handlers swallow them,
  as the code's \<open>catch\<close> blocks do. A network failure of a query is an argument of
  the result handlers (\<open>apply_course_data\<close>, \<open>apply_courses_result\<close>), so both
  paths are modelled. No loop of the program is unbounded: every definition, the traces
  \<open>run_events\<close>, \<open>app_run\<close>, \<open>sys_run\<close> and \<open>tabs_run\<close> included, is
  structural recursion or a list combinator, so no fuel is needed and every definition is
  total by construction; for this reason the development states no separate termination
  property. \<open>ORDER BY\<close> with ties is a stable sort, one of the orders PostgreSQL may
  return; the listings are proved to meet their order contracts. The shell model of one
  client (\<open>Shell\<close>) runs each click's write and the reload after it as one step and its
  loads succeed; overlapping clicks and failed loads are modelled separately
  (\<open>Race\<close>).

  \<^bold>\<open>What is proved.\<close> The handlers flip a lesson, restore it when toggled twice,
  mark a course idempotently and leave the other completion signals alone, given that the
  page shows the store's rows and no two rows share a key (C1-C5). The policies implement
  the access contract and isolate accounts for reads and writes (C6-C8). The code's
  binary64 percentage is the exact one or one less, and the exact one except at exact
  halves (C9; 23 of 40 lessons show 57\% instead of 58\%, \<open>calculateProgress_code_half_down\<close>).
  The exact percentage is within bounds, monotone, order-independent, with exact
  conditions for 0\% and 100\% (C10-C14). Signup provisions exactly one profile (C15), and
  every reachable database has exactly one profile per identity (C16). The known race
  produces duplicate rows, after which a toggle no longer flips the lesson (C17-C18); the
  mark-course button's guard does not prevent the same race for the course-level row
  (C19). A failed progress query shows 0\% without an error and leads to duplicates (C20).
  The course card falls back to the beginner colours except for names of
  \<open>Object.prototype\<close> properties (C21-C22). The home page lists the courses newest
  first (C23). No interleaving of any number of tabs' events removes a progress row or
  changes its key, so a duplicate once written stays (C24). Sign-out keeps the selected
  course for the next user and no screen is a dead end (C25-C26). A tab left open after
  its identity was deleted cannot change the store: its insert fails on the foreign key
  and its update matches no row (C27). The detail page's lesson rows agree with the
  percentage, and its lessons meet the order contract of spec section 4.2 (C28-C29). Along
  every run of the serialised one-client model the store stays well-formed and free of
  duplicate keys and the detail page shows exactly the signed-in user's rows, which
  discharges the hypotheses of C1-C5; the page a new user lands on after a sign-out shows
  only that user's rows (C30-C31). A caller reads back the progress row it inserted
  exactly as written (C32). Lemmas that are not claims: the schema's constraints hold in
  every reachable database (\<open>db_reachable_invariants\<close>), whose stores include those
  the tabs reach (\<open>tabs_reachable_db\<close>); the spinner is only the initial state and
  start-up requires both settings (\<open>app_loading_initial\<close>, \<open>app_boot_config\<close>).

  \<^bold>\<open>Not modelled.\<close> Styling and static markup (icons, layout, headings, class
  names other than the difficulty badge's); the migration's comment header and its
  non-unique lookup indexes, which change no behaviour; the authentication context, login and
  signup forms (\<open>AuthContext\<close>, \<open>Login\<close>, \<open>Signup\<close> are imported by
  \<open>App.tsx\<close> but are not among the sources), whose effects are events of \<open>App\<close>;
  network transport, represented by the error results of the queries; a
  \<open>selectedCourseId\<close> of \<open>''\<close>, which \<open>if (selectedCourseId)\<close> treats as no
  selection and \<open>app_screen\<close> as a course (course ids are UUIDs, never empty).

  \<^bold>\<open>Scope.\<close> The part of the program not modelled is the part listed above, which is either outside the sources or
  carries no behaviour; every operation of the modelled parts that changes state is a
  definition of the development.
\<close>

end
